theory Spec2Isabelle
  imports Complex_Main "HOL-Library.Multiset"
begin

section \<open>JavaScript numbers\<close>

text \<open>
  A \<^verbatim>\<open>number\<close> of the source is a finite real, \<^verbatim>\<open>Infinity\<close>, \<^verbatim>\<open>-Infinity\<close>
  or \<^verbatim>\<open>NaN\<close>.  The arithmetic below is that of IEEE 754 doubles with exact
  results: rounding, overflow of finite operands and the sign of zero are not modelled
  (a zero divisor counts as \<open>+0\<close>).  What is modelled is where non-finite values come
  from and how they spread: division by zero, \<^verbatim>\<open>Infinity - Infinity\<close>,
  \<^verbatim>\<open>0 * Infinity\<close>, comparisons with \<^verbatim>\<open>NaN\<close> (all false) and the
  \<^verbatim>\<open>Math\<close> functions at the special values.
\<close>

datatype jsnum = Fin real | PInf | NInf | NaN

fun is_fin :: "jsnum \<Rightarrow> bool" where
  "is_fin (Fin r) = True"
| "is_fin _ = False"

fun val :: "jsnum \<Rightarrow> real" where
  "val (Fin r) = r"
| "val _ = 0"

fun sg :: "jsnum \<Rightarrow> real" where
  "sg (Fin r) = sgn r"
| "sg PInf = 1"
| "sg NInf = - 1"
| "sg NaN = 0"

definition signed_inf :: "real \<Rightarrow> jsnum" where
  "signed_inf s = (if s > 0 then PInf else if s < 0 then NInf else NaN)"

instantiation jsnum :: "{zero, one, plus, minus, uminus, times, inverse, ord}"
begin

definition zero_jsnum :: jsnum where
  "zero_jsnum = Fin 0"

definition one_jsnum :: jsnum where
  "one_jsnum = Fin 1"

fun plus_jsnum :: "jsnum \<Rightarrow> jsnum \<Rightarrow> jsnum" where
  "plus_jsnum (Fin a) (Fin b) = Fin (a + b)"
| "plus_jsnum NaN _ = NaN"
| "plus_jsnum _ NaN = NaN"
| "plus_jsnum PInf NInf = NaN"
| "plus_jsnum NInf PInf = NaN"
| "plus_jsnum PInf _ = PInf"
| "plus_jsnum _ PInf = PInf"
| "plus_jsnum NInf _ = NInf"
| "plus_jsnum _ NInf = NInf"

fun uminus_jsnum :: "jsnum \<Rightarrow> jsnum" where
  "uminus_jsnum (Fin a) = Fin (- a)"
| "uminus_jsnum PInf = NInf"
| "uminus_jsnum NInf = PInf"
| "uminus_jsnum NaN = NaN"

definition minus_jsnum :: "jsnum \<Rightarrow> jsnum \<Rightarrow> jsnum" where
  "minus_jsnum a b = a + (- b)"

fun times_jsnum :: "jsnum \<Rightarrow> jsnum \<Rightarrow> jsnum" where
  "times_jsnum (Fin a) (Fin b) = Fin (a * b)"
| "times_jsnum a b = signed_inf (sg a * sg b)"

fun divide_jsnum :: "jsnum \<Rightarrow> jsnum \<Rightarrow> jsnum" where
  "divide_jsnum (Fin a) (Fin b) = (if b = 0 then signed_inf (sgn a) else Fin (a / b))"
| "divide_jsnum NaN _ = NaN"
| "divide_jsnum _ NaN = NaN"
| "divide_jsnum (Fin a) _ = Fin 0"
| "divide_jsnum a (Fin b) = signed_inf (sg a * (if b < 0 then - 1 else 1))"
| "divide_jsnum _ _ = NaN"

definition inverse_jsnum :: "jsnum \<Rightarrow> jsnum" where
  "inverse_jsnum a = divide (Fin 1) a"

fun less_jsnum :: "jsnum \<Rightarrow> jsnum \<Rightarrow> bool" where
  "less_jsnum (Fin a) (Fin b) = (a < b)"
| "less_jsnum NaN _ = False"
| "less_jsnum _ NaN = False"
| "less_jsnum _ NInf = False"
| "less_jsnum PInf _ = False"
| "less_jsnum _ _ = True"

definition less_eq_jsnum :: "jsnum \<Rightarrow> jsnum \<Rightarrow> bool" where
  "less_eq_jsnum a b = (a < b \<or> (a = b \<and> a \<noteq> NaN))"

instance ..

end

instance jsnum :: power ..

instance jsnum :: numeral
proof
  fix a b c :: jsnum
  show "a + b + c = a + (b + c)"
    by (cases a; cases b; cases c) simp_all
qed

text \<open>A finite number that is not negative.\<close>

definition nn :: "jsnum \<Rightarrow> bool" where
  "nn a = (\<exists>r. a = Fin r \<and> 0 \<le> r)"

text \<open>Counts and indices of the source enter the arithmetic through \<open>jn\<close>.\<close>

definition jn :: "nat \<Rightarrow> jsnum" where
  "jn n = Fin (real n)"

text \<open>
  Truthiness of a number, and \<^verbatim>\<open>a || b\<close> on numbers: \<^verbatim>\<open>0\<close> and \<^verbatim>\<open>NaN\<close>
  are falsy.
\<close>

definition truthy :: "jsnum \<Rightarrow> bool" where
  "truthy a = (a \<noteq> NaN \<and> a \<noteq> Fin 0)"

definition js_or :: "jsnum \<Rightarrow> jsnum \<Rightarrow> jsnum" where
  "js_or a b = (if truthy a then a else b)"

text \<open>The functions of \<^verbatim>\<open>Math\<close> that the engine calls.\<close>

definition Math_PI :: jsnum where
  "Math_PI = Fin pi"

fun Math_hypot :: "jsnum \<Rightarrow> jsnum \<Rightarrow> jsnum" where
  "Math_hypot (Fin a) (Fin b) = Fin (sqrt (a * a + b * b))"
| "Math_hypot PInf _ = PInf"
| "Math_hypot NInf _ = PInf"
| "Math_hypot _ PInf = PInf"
| "Math_hypot _ NInf = PInf"
| "Math_hypot _ _ = NaN"

fun Math_min :: "jsnum \<Rightarrow> jsnum \<Rightarrow> jsnum" where
  "Math_min NaN _ = NaN"
| "Math_min _ NaN = NaN"
| "Math_min a b = (if a < b then a else b)"

fun Math_max :: "jsnum \<Rightarrow> jsnum \<Rightarrow> jsnum" where
  "Math_max NaN _ = NaN"
| "Math_max _ NaN = NaN"
| "Math_max a b = (if b < a then a else b)"

text \<open>\<^verbatim>\<open>Math.min(...xs)\<close> and \<^verbatim>\<open>Math.max(...xs)\<close> of an array.\<close>

definition Math_min_list :: "jsnum list \<Rightarrow> jsnum" where
  "Math_min_list xs = foldl Math_min PInf xs"

definition Math_max_list :: "jsnum list \<Rightarrow> jsnum" where
  "Math_max_list xs = foldl Math_max NInf xs"

fun Math_abs :: "jsnum \<Rightarrow> jsnum" where
  "Math_abs (Fin a) = Fin \<bar>a\<bar>"
| "Math_abs NaN = NaN"
| "Math_abs _ = PInf"

fun Math_exp :: "jsnum \<Rightarrow> jsnum" where
  "Math_exp (Fin a) = Fin (exp a)"
| "Math_exp PInf = PInf"
| "Math_exp NInf = Fin 0"
| "Math_exp NaN = NaN"

fun Math_tanh :: "jsnum \<Rightarrow> jsnum" where
  "Math_tanh (Fin a) = Fin (tanh a)"
| "Math_tanh PInf = Fin 1"
| "Math_tanh NInf = Fin (- 1)"
| "Math_tanh NaN = NaN"

fun Math_sqrt :: "jsnum \<Rightarrow> jsnum" where
  "Math_sqrt (Fin a) = (if a < 0 then NaN else Fin (sqrt a))"
| "Math_sqrt PInf = PInf"
| "Math_sqrt _ = NaN"

fun Math_sin :: "jsnum \<Rightarrow> jsnum" where
  "Math_sin (Fin a) = Fin (sin a)"
| "Math_sin _ = NaN"

fun Math_cos :: "jsnum \<Rightarrow> jsnum" where
  "Math_cos (Fin a) = Fin (cos a)"
| "Math_cos _ = NaN"

fun Math_acos :: "jsnum \<Rightarrow> jsnum" where
  "Math_acos (Fin a) = (if - 1 \<le> a \<and> a \<le> 1 then Fin (arccos a) else NaN)"
| "Math_acos _ = NaN"

fun Math_floor :: "jsnum \<Rightarrow> jsnum" where
  "Math_floor (Fin a) = Fin (of_int \<lfloor>a\<rfloor>)"
| "Math_floor a = a"

text \<open>\<^verbatim>\<open>Math.round\<close> rounds halves up.\<close>

fun Math_round :: "jsnum \<Rightarrow> jsnum" where
  "Math_round (Fin a) = Fin (of_int \<lfloor>a + 1 / 2\<rfloor>)"
| "Math_round a = a"

text \<open>
  \<^verbatim>\<open>Math.atan2(y, x)\<close>: the angle of the point \<open>(x, y)\<close> in \<open>(-\<pi>, \<pi>]\<close>, which is
  \<^const>\<open>Arg\<close> of the complex number; \<^verbatim>\<open>atan2(0, 0)\<close> is \<open>0\<close>.
\<close>

fun Math_atan2 :: "jsnum \<Rightarrow> jsnum \<Rightarrow> jsnum" where
  "Math_atan2 (Fin y) (Fin x) = Fin (Arg (Complex x y))"
| "Math_atan2 NaN _ = NaN"
| "Math_atan2 _ NaN = NaN"
| "Math_atan2 (Fin y) PInf = Fin 0"
| "Math_atan2 (Fin y) NInf = Fin (if y < 0 then - pi else pi)"
| "Math_atan2 PInf (Fin x) = Fin (pi / 2)"
| "Math_atan2 PInf PInf = Fin (pi / 4)"
| "Math_atan2 PInf NInf = Fin (3 * pi / 4)"
| "Math_atan2 NInf (Fin x) = Fin (- pi / 2)"
| "Math_atan2 NInf PInf = Fin (- pi / 4)"
| "Math_atan2 NInf NInf = Fin (- 3 * pi / 4)"

text \<open>
  \<^verbatim>\<open>Math.pow(x, y)\<close>.  A negative base has a real power only for an integral
  exponent.
\<close>

fun Math_pow :: "jsnum \<Rightarrow> jsnum \<Rightarrow> jsnum" where
  "Math_pow (Fin x) (Fin y) =
     (if y = 0 then Fin 1
      else if x > 0 then Fin (x powr y)
      else if x = 0 then (if y > 0 then Fin 0 else PInf)
      else if y \<in> \<int> then Fin ((if even \<lfloor>y\<rfloor> then 1 else - 1) * (\<bar>x\<bar> powr y))
      else NaN)"
| "Math_pow _ NaN = NaN"
| "Math_pow NaN (Fin y) = (if y = 0 then Fin 1 else NaN)"
| "Math_pow NaN _ = NaN"
| "Math_pow PInf (Fin y) = (if y = 0 then Fin 1 else if y > 0 then PInf else Fin 0)"
| "Math_pow NInf (Fin y) =
     (if y = 0 then Fin 1
      else if y > 0 then (if y \<in> \<int> \<and> odd \<lfloor>y\<rfloor> then NInf else PInf)
      else Fin 0)"
| "Math_pow (Fin x) PInf = (if \<bar>x\<bar> > 1 then PInf else if \<bar>x\<bar> = 1 then NaN else Fin 0)"
| "Math_pow (Fin x) NInf = (if \<bar>x\<bar> > 1 then Fin 0 else if \<bar>x\<bar> = 1 then NaN else PInf)"
| "Math_pow _ PInf = PInf"
| "Math_pow _ NInf = Fin 0"

text \<open>
  \<^verbatim>\<open>xs.sort((a, b) => key(a) - key(b))\<close> and its descending twin.  The sort is
  stable; for keys that are not all finite the comparator is inconsistent and the order
  is implementation-defined, the model then orders by \<^const>\<open>val\<close>.
\<close>

definition sort_ascending :: "('a \<Rightarrow> jsnum) \<Rightarrow> 'a list \<Rightarrow> 'a list" where
  "sort_ascending key xs = sort_key (\<lambda>a. val (key a)) xs"

definition sort_descending :: "('a \<Rightarrow> jsnum) \<Rightarrow> 'a list \<Rightarrow> 'a list" where
  "sort_descending key xs = sort_key (\<lambda>a. - val (key a)) xs"

section \<open>The world state\<close>

text \<open>
  \<^verbatim>\<open>interface GameState\<close>.  Every producer of hazards in the repository sets
  \<^verbatim>\<open>zigFreq\<close> and \<^verbatim>\<open>zigAmp\<close> (to 0 for the kinds that do not use them), and leaves
  \<^verbatim>\<open>turnRate\<close> undefined for every kind but the tracker: only \<^verbatim>\<open>turnRate\<close> is
  optional here.
\<close>

record Player =
  p_x :: jsnum
  p_y :: jsnum
  p_r :: jsnum
  p_speed :: jsnum

record Hazard =
  h_x :: jsnum
  h_y :: jsnum
  h_r :: jsnum
  dirX :: jsnum
  dirY :: jsnum
  baseSpeed :: jsnum
  kind :: string
  h_t :: jsnum
  h_life :: jsnum
  turnRate :: "jsnum option"
  zigFreq :: jsnum
  zigAmp :: jsnum

record Pickup =
  k_x :: jsnum
  k_y :: jsnum
  k_r :: jsnum
  k_life :: jsnum
  maxLife :: jsnum
  k_type :: string

record GameState =
  width :: jsnum
  height :: jsnum
  player :: Player
  playerVel :: "jsnum \<times> jsnum"
  hazards :: "Hazard list"
  pickups :: "Pickup list"
  elapsed :: jsnum
  lives :: jsnum
  maxLives :: jsnum

text \<open>
  Records whose numeric fields are finite numbers.  The two zigzag parameters are read
  only for a hazard of kind \<^verbatim>\<open>zigzag\<close> and need be finite only for that kind; a
  parameter that is absent behaves in arithmetic as \<^verbatim>\<open>NaN\<close>.
\<close>

definition finite_hazard :: "Hazard \<Rightarrow> bool" where
  "finite_hazard h =
     (is_fin (h_x h) \<and> is_fin (h_y h) \<and> is_fin (h_r h) \<and> is_fin (dirX h) \<and> is_fin (dirY h) \<and>
      is_fin (baseSpeed h) \<and> is_fin (h_t h) \<and> is_fin (h_life h) \<and>
      (kind h = ''zigzag'' \<longrightarrow> is_fin (zigFreq h) \<and> is_fin (zigAmp h)) \<and>
      (case turnRate h of None \<Rightarrow> True | Some tr \<Rightarrow> is_fin tr))"

definition finite_player :: "Player \<Rightarrow> bool" where
  "finite_player p = (is_fin (p_x p) \<and> is_fin (p_y p) \<and> is_fin (p_r p) \<and> is_fin (p_speed p))"

definition finite_pickup :: "Pickup \<Rightarrow> bool" where
  "finite_pickup k =
     (is_fin (k_x k) \<and> is_fin (k_y k) \<and> is_fin (k_r k) \<and> is_fin (k_life k) \<and> is_fin (maxLife k))"

definition finite_state :: "GameState \<Rightarrow> bool" where
  "finite_state g =
     (is_fin (width g) \<and> is_fin (height g) \<and> finite_player (player g) \<and>
      is_fin (fst (playerVel g)) \<and> is_fin (snd (playerVel g)) \<and>
      list_all finite_hazard (hazards g) \<and> list_all finite_pickup (pickups g) \<and>
      is_fin (elapsed g) \<and> is_fin (lives g) \<and> is_fin (maxLives g))"

text \<open>
  A valid world: finite numbers, a field and a player speed that are positive, at least
  one life at the start, radii that are not negative and pickups with a positive
  lifetime.
\<close>

definition valid_state :: "GameState \<Rightarrow> bool" where
  "valid_state g =
     (finite_state g \<and> 0 < width g \<and> 0 < height g \<and> 0 < p_speed (player g) \<and>
      0 \<le> p_r (player g) \<and> 0 < maxLives g \<and>
      list_all (\<lambda>h. 0 \<le> h_r h) (hazards g) \<and> list_all (\<lambda>k. 0 < maxLife k) (pickups g))"

text \<open>
  The default field of \<^verbatim>\<open>GAME_CONFIG\<close> (1200 by 675, player radius 12 and speed
  300, 3 lives) with the player at its centre, and a hazard of a given kind.
\<close>

definition demo_player :: Player where
  "demo_player = \<lparr>p_x = 600, p_y = 337.5, p_r = 12, p_speed = 300\<rparr>"

definition demo_state :: "Hazard list \<Rightarrow> Pickup list \<Rightarrow> GameState" where
  "demo_state hs ks =
     \<lparr>width = 1200, height = 675, player = demo_player, playerVel = (0, 0),
      hazards = hs, pickups = ks, elapsed = 0, lives = 3, maxLives = 3\<rparr>"

definition demo_hazard :: "string \<Rightarrow> jsnum option \<Rightarrow> Hazard" where
  "demo_hazard knd tr =
     \<lparr>h_x = 100, h_y = 50, h_r = 15, dirX = 1, dirY = 0, baseSpeed = 100, kind = knd,
      h_t = 0, h_life = 14, turnRate = tr, zigFreq = 4, zigAmp = 60\<rparr>"

definition demo_pickup :: Pickup where
  "demo_pickup = \<lparr>k_x = 300, k_y = 400, k_r = 10, k_life = 2, maxLife = 8, k_type = ''heart''\<rparr>"

section \<open>The kinematic predictor\<close>

text \<open>
  \<^verbatim>\<open>predictEnemyPositionPhysics(hazard, gameState, deltaTime)\<close>.  In
  \<^verbatim>\<open>Math.hypot(px - x, py - y || 1)\<close> the \<^verbatim>\<open>||\<close> binds weaker than the
  subtraction: the second argument is \<^verbatim>\<open>(py - y) || 1\<close>.  The \<^verbatim>\<open>switch\<close> sends
  every kind but \<^verbatim>\<open>tracker\<close> and \<^verbatim>\<open>zigzag\<close> to the linear case.
\<close>

definition predictEnemyPositionPhysics :: "Hazard \<Rightarrow> GameState \<Rightarrow> jsnum \<Rightarrow> jsnum \<times> jsnum" where
  "predictEnemyPositionPhysics hazard gameState deltaTime =
     (let x = h_x hazard; y = h_y hazard;
          dX = dirX hazard; dY = dirY hazard;
          t = h_t hazard + deltaTime
      in if kind hazard = ''tracker'' then
           (let targetDirX = (p_x (player gameState) - x) /
                   Math_hypot (p_x (player gameState) - x) (js_or (p_y (player gameState) - y) 1);
                targetDirY = (p_y (player gameState) - y) /
                   Math_hypot (p_x (player gameState) - x) (js_or (p_y (player gameState) - y) 1);
                dot = dX * targetDirX + dY * targetDirY;
                theta = Math_acos (Math_max (- 1) (Math_min 1 dot));
                maxTurn = (case turnRate hazard of None \<Rightarrow> Math_PI | Some tr \<Rightarrow> tr) * deltaTime;
                (dX', dY') =
                  (if 0.0001 < theta then
                     (let k = Math_min 1 (maxTurn / theta);
                          ux = (1 - k) * dX + k * targetDirX;
                          uy = (1 - k) * dY + k * targetDirY;
                          n = js_or (Math_hypot ux uy) 1
                      in (ux / n, uy / n))
                   else (dX, dY))
            in (x + dX' * baseSpeed hazard * deltaTime, y + dY' * baseSpeed hazard * deltaTime))
         else if kind hazard = ''zigzag'' then
           (let effVX = dX * baseSpeed hazard;
                effVY = dY * baseSpeed hazard;
                perpX = - dY;
                perpY = dX;
                oscillation = Math_sin (t * zigFreq hazard) * zigAmp hazard
            in (x + (effVX + perpX * oscillation) * deltaTime,
                y + (effVY + perpY * oscillation) * deltaTime))
         else (x + dX * baseSpeed hazard * deltaTime, y + dY * baseSpeed hazard * deltaTime))"

section \<open>The policy/value network\<close>

text \<open>
  \<^verbatim>\<open>class NeuralLayer\<close>.  Weights and biases are modelled as finite numbers: they
  come from the random initialisation, from the bias updates of training and from the
  documents \<^verbatim>\<open>exportWeights\<close> writes (\<^verbatim>\<open>JSON.stringify\<close> writes \<^verbatim>\<open>null\<close> for
  \<^verbatim>\<open>NaN\<close> and the infinities).  A document written by hand can hold a literal such as
  \<^verbatim>\<open>1e999\<close>, which \<^verbatim>\<open>JSON.parse\<close> reads as \<^verbatim>\<open>Infinity\<close>; an infinite weight is
  outside this model.  The rows of the matrix may have
  any length, and \<^verbatim>\<open>biases\<close> may be missing (\<^verbatim>\<open>loadWeights\<close> copies
  \<^verbatim>\<open>data.x.biases\<close> unchecked): reading an element of missing biases raises a
  \<^verbatim>\<open>TypeError\<close>, the result \<open>None\<close> below.
\<close>

record NeuralLayer =
  l_weights :: "real list list"
  l_biases :: "real list option"
  inputSize :: nat
  outputSize :: nat
  lastInitTime :: int

definition initCooldown :: int where
  "initCooldown = 2000"

text \<open>
  The draws of \<^verbatim>\<open>Math.random()\<close> of one initialisation: one per weight and one
  per bias.
\<close>

record InitDraws =
  draw_w :: "nat \<Rightarrow> nat \<Rightarrow> real"
  draw_b :: "nat \<Rightarrow> real"

text \<open>
  \<^verbatim>\<open>initializeWeights\<close> throws for a size that is not positive; its inner
  \<^verbatim>\<open>try\<close> cannot fail, the rows it builds have the length it then checks.
\<close>

definition initializeWeights :: "InitDraws \<Rightarrow> nat \<Rightarrow> nat \<Rightarrow> real list list option" where
  "initializeWeights rnd inSize outSize =
     (if inSize = 0 \<or> outSize = 0 then None
      else
        let scale = sqrt (6 / (real inSize + real outSize))
        in Some (map (\<lambda>i. map (\<lambda>j. (draw_w rnd i j - 0.5) * 2 * scale) [0..<inSize]) [0..<outSize]))"

definition initializeBiases :: "InitDraws \<Rightarrow> nat \<Rightarrow> real list" where
  "initializeBiases rnd outSize = map (\<lambda>i. (draw_b rnd i - 0.5) * 0.2) [0..<outSize]"

text \<open>
  The re-initialisation inside \<^verbatim>\<open>forward\<close>: new weights, new biases,
  \<^verbatim>\<open>lastInitTime = currentTime\<close>.
\<close>

definition reinitialize :: "InitDraws \<Rightarrow> int \<Rightarrow> NeuralLayer \<Rightarrow> NeuralLayer option" where
  "reinitialize rnd currentTime L =
     (case initializeWeights rnd (inputSize L) (outputSize L) of
        None \<Rightarrow> None
      | Some w \<Rightarrow> Some (L\<lparr>l_weights := w,
                         l_biases := Some (initializeBiases rnd (outputSize L)),
                         lastInitTime := currentTime\<rparr>))"

text \<open>\<^verbatim>\<open>new NeuralLayer(inputSize, outputSize)\<close>, for sizes that are positive.\<close>

definition newNeuralLayer :: "InitDraws \<Rightarrow> int \<Rightarrow> nat \<Rightarrow> nat \<Rightarrow> NeuralLayer" where
  "newNeuralLayer rnd currentTime inSize outSize =
     \<lparr>l_weights = (case initializeWeights rnd inSize outSize of None \<Rightarrow> [] | Some w \<Rightarrow> w),
      l_biases = Some (initializeBiases rnd outSize),
      inputSize = inSize, outputSize = outSize, lastInitTime = currentTime\<rparr>"

text \<open>\<^verbatim>\<open>outputs[i] = v\<close> for \<open>i\<close> at most the length of the array.\<close>

definition set_index :: "'a list \<Rightarrow> nat \<Rightarrow> 'a \<Rightarrow> 'a list" where
  "set_index xs i v = (if i < length xs then xs[i := v] else xs @ [v])"

text \<open>An array read \<^verbatim>\<open>xs[i]\<close> used as a number: \<^verbatim>\<open>undefined\<close> past the end.\<close>

definition js_nth :: "jsnum list \<Rightarrow> nat \<Rightarrow> jsnum" where
  "js_nth xs i = (if i < length xs then xs ! i else NaN)"

text \<open>
  One neuron: \<^verbatim>\<open>sum = this.biases[i] || 0\<close>, then
  \<^verbatim>\<open>sum += (inputs[j] || 0) * (this.weights[i][j] || 0)\<close> for \<open>j\<close> below
  \<^verbatim>\<open>inputSize\<close>.
\<close>

definition neuron :: "real list option \<Rightarrow> real list \<Rightarrow> jsnum list \<Rightarrow> nat \<Rightarrow> nat \<Rightarrow> jsnum option" where
  "neuron bs row inputs n i =
     (case bs of
        None \<Rightarrow> None
      | Some b \<Rightarrow>
          Some (foldl (\<lambda>sum j. sum + js_or (js_nth inputs j) 0 * js_or (js_nth (map Fin row) j) 0)
                  (js_or (js_nth (map Fin b) i) 0) [0..<n]))"

text \<open>
  A row that is missing or of the wrong length
  (\<^verbatim>\<open>!Array.isArray(this.weights[i]) || this.weights[i].length !== this.inputSize\<close>).
\<close>

definition bad_row :: "NeuralLayer \<Rightarrow> nat \<Rightarrow> bool" where
  "bad_row L i = (length (l_weights L) \<le> i \<or> length (l_weights L ! i) \<noteq> inputSize L)"

definition cooled_down :: "int \<Rightarrow> NeuralLayer \<Rightarrow> bool" where
  "cooled_down currentTime L = (currentTime - lastInitTime L > initCooldown)"

text \<open>
  The loop over the output units, from unit \<open>i\<close>.  A bad row outside the cooldown
  re-initialises the layer and restarts the loop (\<^verbatim>\<open>i = -1; continue\<close>); inside the
  cooldown the unit outputs 0.  \<^verbatim>\<open>Date.now()\<close> is one value \<open>currentTime\<close> for the
  whole call.
\<close>

function forward_rows ::
  "InitDraws \<Rightarrow> int \<Rightarrow> jsnum list \<Rightarrow> nat \<Rightarrow> jsnum list \<Rightarrow> NeuralLayer \<Rightarrow> (jsnum list \<times> NeuralLayer) option" where
  "forward_rows rnd currentTime inputs i outputs L =
     (if i < outputSize L then
        (if bad_row L i then
           (if cooled_down currentTime L then
              (case reinitialize rnd currentTime L of
                 None \<Rightarrow> None
               | Some L' \<Rightarrow> forward_rows rnd currentTime inputs 0 outputs L')
            else forward_rows rnd currentTime inputs (i + 1) (set_index outputs i 0) L)
         else
           (case neuron (l_biases L) (l_weights L ! i) inputs (inputSize L) i of
              None \<Rightarrow> None
            | Some s \<Rightarrow> forward_rows rnd currentTime inputs (i + 1) (set_index outputs i s) L))
      else Some (outputs, L))"
  by pat_completeness auto
termination
proof (relation "measures [\<lambda>(rnd, currentTime, inputs, i, outputs, L). if cooled_down currentTime L then 1 else 0,
                           \<lambda>(rnd, currentTime, inputs, i, outputs, L). outputSize L - i]")
qed (auto simp add: reinitialize_def cooled_down_def initCooldown_def split: option.splits)

declare forward_rows.simps [simp del]

text \<open>
  The final check of \<^verbatim>\<open>forward\<close>: pad with zeros, then
  \<^verbatim>\<open>outputs.length = this.outputSize\<close>.
\<close>

definition fix_length :: "nat \<Rightarrow> jsnum list \<Rightarrow> jsnum list" where
  "fix_length n outputs = take n (outputs @ replicate (n - length outputs) 0)"

definition layer_rows ::
  "InitDraws \<Rightarrow> int \<Rightarrow> NeuralLayer \<Rightarrow> jsnum list \<Rightarrow> (jsnum list \<times> NeuralLayer) option" where
  "layer_rows rnd currentTime L inputs =
     (if length inputs \<noteq> inputSize L then Some (replicate (outputSize L) 0, L)
      else
        (case forward_rows rnd currentTime inputs 0 [] L of
           None \<Rightarrow> None
         | Some (outputs, L') \<Rightarrow> Some (fix_length (outputSize L') outputs, L')))"

text \<open>\<^verbatim>\<open>NeuralLayer.forward(inputs)\<close>: the outputs and the layer as the call leaves it.\<close>

definition layer_forward ::
  "InitDraws \<Rightarrow> int \<Rightarrow> NeuralLayer \<Rightarrow> jsnum list \<Rightarrow> (jsnum list \<times> NeuralLayer) option" where
  "layer_forward rnd currentTime L inputs =
     (if length (l_weights L) \<noteq> outputSize L then
        (if cooled_down currentTime L then
           (case reinitialize rnd currentTime L of
              None \<Rightarrow> None
            | Some L' \<Rightarrow> layer_rows rnd currentTime L' inputs)
         else Some (replicate (outputSize L) 0, L))
      else layer_rows rnd currentTime L inputs)"

text \<open>\<^verbatim>\<open>ActivationFunctions.softmax(inputs, temperature)\<close>\<close>

definition softmax :: "jsnum list \<Rightarrow> jsnum \<Rightarrow> jsnum list" where
  "softmax inputs temperature =
     (let maxInput = Math_max_list inputs;
          expInputs = map (\<lambda>x. Math_exp ((x - maxInput) / temperature)) inputs;
          sumExp = foldl (\<lambda>sum e. sum + e) 0 expInputs
      in map (\<lambda>e. e / sumExp) expInputs)"

text \<open>The six layers of \<^verbatim>\<open>AdvancedDodgerAI\<close>.\<close>

record Network =
  inputLayer :: NeuralLayer
  hiddenLayer1 :: NeuralLayer
  hiddenLayer2 :: NeuralLayer
  hiddenLayer3 :: NeuralLayer
  valueHead :: NeuralLayer
  policyHead :: NeuralLayer

definition ACTION_COUNT :: nat where
  "ACTION_COUNT = 9"

definition temperature :: jsnum where
  "temperature = 1"

text \<open>
  \<^verbatim>\<open>{ value: 0, policy: new Array(this.ACTION_COUNT).fill(1/this.ACTION_COUNT) }\<close>
\<close>

definition default_output :: "jsnum \<times> jsnum list" where
  "default_output = (0, replicate ACTION_COUNT (1 / jn ACTION_COUNT))"

text \<open>
  One hidden stage of \<^verbatim>\<open>forward\<close>: run the layer, check the width, apply
  \<^verbatim>\<open>tanh\<close>.  The result is \<open>None\<close> when the layer raised (caught by the
  \<^verbatim>\<open>try\<close> of \<^verbatim>\<open>forward\<close>), \<open>Some (None, L')\<close> when the width is wrong.
\<close>

definition hidden_stage ::
  "InitDraws \<Rightarrow> int \<Rightarrow> NeuralLayer \<Rightarrow> nat \<Rightarrow> jsnum list \<Rightarrow> (jsnum list option \<times> NeuralLayer) option" where
  "hidden_stage rnd currentTime L expected inputs =
     (case layer_forward rnd currentTime L inputs of
        None \<Rightarrow> None
      | Some (hidden, L') \<Rightarrow>
          Some (if length hidden \<noteq> expected then None else Some (map Math_tanh hidden), L'))"

text \<open>
  \<^verbatim>\<open>AdvancedDodgerAI.forward(inputs)\<close>: value, policy and the network as the call
  leaves it (a layer that re-initialised itself stays re-initialised, also when a later
  layer fails).  \<open>rnd k\<close> holds the draws for layer \<open>k\<close>.
\<close>

definition forward ::
  "(nat \<Rightarrow> InitDraws) \<Rightarrow> int \<Rightarrow> Network \<Rightarrow> jsnum list \<Rightarrow> (jsnum \<times> jsnum list) \<times> Network" where
  "forward rnd currentTime net inputs =
     (if length inputs \<noteq> 200 then (default_output, net)
      else
        (case hidden_stage (rnd 0) currentTime (inputLayer net) 1024 inputs of
           None \<Rightarrow> (default_output, net)
         | Some (None, L1) \<Rightarrow> (default_output, net\<lparr>inputLayer := L1\<rparr>)
         | Some (Some hidden1, L1) \<Rightarrow>
        (let net1 = net\<lparr>inputLayer := L1\<rparr> in
         case hidden_stage (rnd 1) currentTime (hiddenLayer1 net1) 1536 hidden1 of
           None \<Rightarrow> (default_output, net1)
         | Some (None, L2) \<Rightarrow> (default_output, net1\<lparr>hiddenLayer1 := L2\<rparr>)
         | Some (Some hidden2, L2) \<Rightarrow>
        (let net2 = net1\<lparr>hiddenLayer1 := L2\<rparr> in
         case hidden_stage (rnd 2) currentTime (hiddenLayer2 net2) 1024 hidden2 of
           None \<Rightarrow> (default_output, net2)
         | Some (None, L3) \<Rightarrow> (default_output, net2\<lparr>hiddenLayer2 := L3\<rparr>)
         | Some (Some hidden3, L3) \<Rightarrow>
        (let net3 = net2\<lparr>hiddenLayer2 := L3\<rparr> in
         case hidden_stage (rnd 3) currentTime (hiddenLayer3 net3) 768 hidden3 of
           None \<Rightarrow> (default_output, net3)
         | Some (None, L4) \<Rightarrow> (default_output, net3\<lparr>hiddenLayer3 := L4\<rparr>)
         | Some (Some hidden4, L4) \<Rightarrow>
        (let net4 = net3\<lparr>hiddenLayer3 := L4\<rparr> in
         case layer_forward (rnd 4) currentTime (valueHead net4) hidden4 of
           None \<Rightarrow> (default_output, net4)
         | Some (valueOutput, L5) \<Rightarrow>
        (let net5 = net4\<lparr>valueHead := L5\<rparr> in
         if length valueOutput \<noteq> 1 then (default_output, net5)
         else
           let v = Math_tanh (js_or (valueOutput ! 0) 0) in
           case layer_forward (rnd 5) currentTime (policyHead net5) hidden4 of
             None \<Rightarrow> (default_output, net5)
           | Some (policyOutput, L6) \<Rightarrow>
          (let net6 = net5\<lparr>policyHead := L6\<rparr> in
           if length policyOutput \<noteq> ACTION_COUNT then (default_output, net6)
           else ((v, softmax policyOutput temperature), net6)))))))))"

text \<open>A number that is not infinite: finite or \<^verbatim>\<open>NaN\<close>.\<close>

definition no_inf :: "jsnum \<Rightarrow> bool" where
  "no_inf a = (a \<noteq> PInf \<and> a \<noteq> NInf)"

text \<open>
  A well-formed output of \<^verbatim>\<open>forward\<close>: nine probabilities that are not negative
  and sum to 1, and a value between -1 and 1.  (A sum that is the number 1 has no
  \<^verbatim>\<open>NaN\<close> and no infinite summand.)
\<close>

definition valid_output :: "jsnum \<times> jsnum list \<Rightarrow> bool" where
  "valid_output out =
     (case out of (v, policy) \<Rightarrow>
        length policy = 9 \<and> list_all (\<lambda>p. 0 \<le> p) policy \<and>
        foldl (\<lambda>sum p. sum + p) 0 policy = 1 \<and> - 1 < v \<and> v < 1)"

text \<open>A network none of whose layers has a weight matrix, last initialised at time 0.\<close>

definition empty_layer :: "nat \<Rightarrow> nat \<Rightarrow> NeuralLayer" where
  "empty_layer inSize outSize =
     \<lparr>l_weights = [], l_biases = None, inputSize = inSize, outputSize = outSize, lastInitTime = 0\<rparr>"

definition empty_network :: Network where
  "empty_network =
     \<lparr>inputLayer = empty_layer 200 1024, hiddenLayer1 = empty_layer 1024 1536,
      hiddenLayer2 = empty_layer 1536 1024, hiddenLayer3 = empty_layer 1024 768,
      valueHead = empty_layer 768 1, policyHead = empty_layer 768 9\<rparr>"

section \<open>The experience buffer and the weight store\<close>

text \<open>
  Priorities and performance scores are only ever compared (the comparators
  \<^verbatim>\<open>(a, b) => b.priority - a.priority\<close> and \<^verbatim>\<open>(a, b) => b.performance - a.performance\<close>),
  so they are finite numbers here: for a comparator that yields NaN the order of
  \<^verbatim>\<open>Array.prototype.sort\<close> is implementation-defined.  \<^verbatim>\<open>sort\<close> is stable
  (ECMAScript 2019), as \<^const>\<open>sort_key\<close> is.
\<close>

record 'n Experience =
  exp_state :: "'n list"
  exp_action :: int
  exp_reward :: 'n
  exp_nextState :: "'n list option"
  exp_done :: bool
  priority :: real

text \<open>\<^verbatim>\<open>class ExperienceBuffer { buffer = []; maxSize; position = 0 }\<close>\<close>

record 'n ExperienceBuffer =
  buffer :: "'n Experience list"
  maxSize :: nat
  position :: nat

definition newExperienceBuffer :: "nat \<Rightarrow> 'n ExperienceBuffer" where
  "newExperienceBuffer n = \<lparr>buffer = [], maxSize = n, position = 0\<rparr>"

text \<open>
  \<^verbatim>\<open>add\<close>: push while below capacity, otherwise overwrite the slot at
  \<^verbatim>\<open>position\<close> and advance it modulo \<^verbatim>\<open>maxSize\<close>.
\<close>

definition add :: "'n Experience \<Rightarrow> 'n ExperienceBuffer \<Rightarrow> 'n ExperienceBuffer" where
  "add experience b =
     (if length (buffer b) < maxSize b
      then b\<lparr>buffer := buffer b @ [experience]\<rparr>
      else b\<lparr>buffer := (buffer b)[position b := experience],
             position := (position b + 1) mod maxSize b\<rparr>)"


definition clear :: "'n ExperienceBuffer \<Rightarrow> 'n ExperienceBuffer" where
  "clear b = b\<lparr>buffer := [], position := 0\<rparr>"






text \<open>
  \<^verbatim>\<open>class WeightManager { weights = []; maxWeights = 10 }\<close>.  The identifier
  (built from \<^verbatim>\<open>Date.now()\<close> and \<^verbatim>\<open>Math.random()\<close>) and the timestamp are
  supplied by the caller of the model; \<open>'d\<close> is the deep copy of the network data.
\<close>

record 'd WeightEntry =
  entry_id :: string
  timestamp :: int
  performance :: real
  data :: 'd

definition maxWeights :: nat where
  "maxWeights = 10"

definition saveWeights ::
  "string \<Rightarrow> int \<Rightarrow> real \<Rightarrow> 'd \<Rightarrow> 'd WeightEntry list \<Rightarrow> string \<times> 'd WeightEntry list" where
  "saveWeights new_id now perf networkData weights =
     (let weightEntry = \<lparr>entry_id = new_id, timestamp = now, performance = perf, data = networkData\<rparr>;
          pushed = weights @ [weightEntry];
          kept = (if length pushed > maxWeights
                  then take maxWeights (sort_key (\<lambda>w. - performance w) pushed)
                  else pushed)
      in (new_id, kept))"

text \<open>A run of saves, each given as (id, time, performance, data).\<close>

definition save_all ::
  "(string \<times> int \<times> real \<times> 'd) list \<Rightarrow> 'd WeightEntry list \<Rightarrow> 'd WeightEntry list" where
  "save_all reqs weights =
     foldl (\<lambda>ws (i, t, p, d). snd (saveWeights i t p d ws)) weights reqs"

text \<open>\<^verbatim>\<open>getBestWeights\<close>: \<^verbatim>\<open>reduce\<close> keeping the first entry of maximal performance.\<close>

definition getBestWeights :: "'d WeightEntry list \<Rightarrow> 'd option" where
  "getBestWeights weights =
     (case weights of [] \<Rightarrow> None
      | w # ws \<Rightarrow> Some (data (foldl (\<lambda>best current.
                           if performance current > performance best then current else best) w ws)))"

section \<open>The engine's state and the weight documents\<close>

text \<open>
  A weight document, as \<^verbatim>\<open>loadWeights\<close> reads it: a JSON text is represented by
  the value it denotes (\<^verbatim>\<open>JSON.parse(JSON.stringify(v))\<close> gives back \<open>v\<close> for
  arrays of finite numbers, numbers and strings).  A field is \<open>None\<close> when the key is
  absent or \<^verbatim>\<open>null\<close>; \<^verbatim>\<open>JSON.stringify\<close> drops a key whose value is
  \<^verbatim>\<open>undefined\<close> and writes \<^verbatim>\<open>null\<close> for \<^verbatim>\<open>NaN\<close> and the infinities.
  \<^verbatim>\<open>d_weights\<close> is also \<open>None\<close> when the value is not an array.
\<close>

record LayerDoc =
  d_weights :: "real list list option"
  d_biases :: "real list option"

record MetaDoc =
  m_episodes :: "real option"
  m_averagePerformance :: "real option"
  m_bestPerformance :: "real option"
  m_explorationRate :: "real option"
  m_version :: "string option"

record WeightsDoc =
  doc_inputLayer :: "LayerDoc option"
  doc_hiddenLayer1 :: "LayerDoc option"
  doc_hiddenLayer2 :: "LayerDoc option"
  doc_hiddenLayer3 :: "LayerDoc option"
  doc_valueHead :: "LayerDoc option"
  doc_policyHead :: "LayerDoc option"
  doc_metadata :: "MetaDoc option"

text \<open>The fields of \<^verbatim>\<open>class AdvancedDodgerAI\<close>.\<close>

record CenterTracker =
  lastCenterDistance :: jsnum
  timeAwayFromCenter :: nat
  totalCenterTime :: nat
  forceBackToCenterCount :: nat
  lastForceTime :: int

record DodgerAI =
  ai_net :: Network
  experienceBuffer :: "jsnum ExperienceBuffer"
  weightManager :: "WeightsDoc WeightEntry list"
  learningRate :: jsnum
  explorationRate :: jsnum
  episodeCount :: jsnum
  totalReward :: jsnum
  bestPerformance :: jsnum
  averagePerformance :: jsnum
  lastFeatures :: "jsnum list"
  lastAction :: int
  centerTracker :: CenterTracker
  recentPositions :: "(jsnum \<times> jsnum \<times> int) list"
  borderAvoidanceMemory :: "((jsnum \<times> jsnum) option \<times> jsnum \<times> int) list"

text \<open>A number as JSON writes it, and a JSON field read as a number.\<close>

fun json_number :: "jsnum \<Rightarrow> real option" where
  "json_number (Fin r) = Some r"
| "json_number _ = None"

fun field_number :: "real option \<Rightarrow> jsnum" where
  "field_number (Some r) = Fin r"
| "field_number None = NaN"

definition export_layer :: "NeuralLayer \<Rightarrow> LayerDoc" where
  "export_layer L = \<lparr>d_weights = Some (l_weights L), d_biases = l_biases L\<rparr>"

text \<open>\<^verbatim>\<open>exportWeights()\<close>: the document whose text the method returns.\<close>

definition exportWeights :: "DodgerAI \<Rightarrow> WeightsDoc" where
  "exportWeights ai =
     \<lparr>doc_inputLayer = Some (export_layer (inputLayer (ai_net ai))),
      doc_hiddenLayer1 = Some (export_layer (hiddenLayer1 (ai_net ai))),
      doc_hiddenLayer2 = Some (export_layer (hiddenLayer2 (ai_net ai))),
      doc_hiddenLayer3 = Some (export_layer (hiddenLayer3 (ai_net ai))),
      doc_valueHead = Some (export_layer (valueHead (ai_net ai))),
      doc_policyHead = Some (export_layer (policyHead (ai_net ai))),
      doc_metadata = Some
        \<lparr>m_episodes = json_number (episodeCount ai),
         m_averagePerformance = json_number (averagePerformance ai),
         m_bestPerformance = json_number (bestPerformance ai),
         m_explorationRate = json_number (explorationRate ai),
         m_version = Some ''2.0''\<rparr>\<rparr>"

text \<open>
  \<^verbatim>\<open>ensureWeightsInitialized()\<close>: a layer whose matrix has not the expected
  number of rows is replaced by a new random layer.  \<open>rnd k\<close> holds the draws for
  layer \<open>k\<close>.
\<close>

definition ensure_layer :: "InitDraws \<Rightarrow> int \<Rightarrow> nat \<Rightarrow> nat \<Rightarrow> NeuralLayer \<Rightarrow> NeuralLayer" where
  "ensure_layer rnd currentTime inSize outSize L =
     (if length (l_weights L) \<noteq> outSize then newNeuralLayer rnd currentTime inSize outSize else L)"

definition ensureWeightsInitialized :: "(nat \<Rightarrow> InitDraws) \<Rightarrow> int \<Rightarrow> Network \<Rightarrow> Network" where
  "ensureWeightsInitialized rnd currentTime n =
     \<lparr>inputLayer = ensure_layer (rnd 0) currentTime 200 1024 (inputLayer n),
      hiddenLayer1 = ensure_layer (rnd 1) currentTime 1024 1536 (hiddenLayer1 n),
      hiddenLayer2 = ensure_layer (rnd 2) currentTime 1536 1024 (hiddenLayer2 n),
      hiddenLayer3 = ensure_layer (rnd 3) currentTime 1024 768 (hiddenLayer3 n),
      valueHead = ensure_layer (rnd 4) currentTime 768 1 (valueHead n),
      policyHead = ensure_layer (rnd 5) currentTime 768 ACTION_COUNT (policyHead n)\<rparr>"

text \<open>
  One layer of \<^verbatim>\<open>loadWeights\<close>:
  \<^verbatim>\<open>if (data.x && data.x.weights && Array.isArray(data.x.weights))\<close> then the
  weights and the biases of the document replace the layer's.
\<close>

definition load_layer :: "LayerDoc option \<Rightarrow> NeuralLayer \<Rightarrow> NeuralLayer" where
  "load_layer doc L =
     (case doc of
        None \<Rightarrow> L
      | Some ld \<Rightarrow>
          (case d_weights ld of
             None \<Rightarrow> L
           | Some w \<Rightarrow> L\<lparr>l_weights := w, l_biases := d_biases ld\<rparr>))"

text \<open>
  \<^verbatim>\<open>loadWeights(data)\<close> for a document that is an object.  The metadata it reads
  are \<^verbatim>\<open>episodes\<close>, \<^verbatim>\<open>averagePerformance\<close> and \<^verbatim>\<open>explorationRate\<close>.
\<close>

definition loadWeights :: "(nat \<Rightarrow> InitDraws) \<Rightarrow> int \<Rightarrow> WeightsDoc \<Rightarrow> DodgerAI \<Rightarrow> DodgerAI" where
  "loadWeights rnd currentTime doc ai =
     (let n = ai_net ai;
          loaded =
            \<lparr>inputLayer = load_layer (doc_inputLayer doc) (inputLayer n),
             hiddenLayer1 = load_layer (doc_hiddenLayer1 doc) (hiddenLayer1 n),
             hiddenLayer2 = load_layer (doc_hiddenLayer2 doc) (hiddenLayer2 n),
             hiddenLayer3 = load_layer (doc_hiddenLayer3 doc) (hiddenLayer3 n),
             valueHead = load_layer (doc_valueHead doc) (valueHead n),
             policyHead = load_layer (doc_policyHead doc) (policyHead n)\<rparr>;
          ai1 = (case doc_metadata doc of
                   None \<Rightarrow> ai
                 | Some m \<Rightarrow>
                     ai\<lparr>episodeCount := js_or (field_number (m_episodes m)) 0,
                        averagePerformance := js_or (field_number (m_averagePerformance m)) 0,
                        explorationRate := js_or (field_number (m_explorationRate m)) 0.1\<rparr>)
      in ai1\<lparr>ai_net := ensureWeightsInitialized rnd currentTime loaded\<rparr>)"

text \<open>
  \<^verbatim>\<open>importWeights(data)\<close>; the argument is \<open>None\<close> for a text that
  \<^verbatim>\<open>JSON.parse\<close> rejects or that is not an object.  The version must be truthy: a
  string that is not empty.
\<close>

definition importWeights ::
  "(nat \<Rightarrow> InitDraws) \<Rightarrow> int \<Rightarrow> WeightsDoc option \<Rightarrow> DodgerAI \<Rightarrow> bool \<times> DodgerAI" where
  "importWeights rnd currentTime parsed ai =
     (case parsed of
        None \<Rightarrow> (False, ai)
      | Some doc \<Rightarrow>
          (case doc_metadata doc of
             None \<Rightarrow> (False, ai)
           | Some m \<Rightarrow>
               (case m_version m of
                  None \<Rightarrow> (False, ai)
                | Some v \<Rightarrow> if v = [] then (False, ai)
                            else (True, loadWeights rnd currentTime doc ai))))"

text \<open>The weights and biases of a layer, and of the six layers.\<close>

definition layer_parameters :: "NeuralLayer \<Rightarrow> real list list \<times> real list option" where
  "layer_parameters L = (l_weights L, l_biases L)"

definition parameters :: "Network \<Rightarrow> (real list list \<times> real list option) list" where
  "parameters n =
     map layer_parameters
       [inputLayer n, hiddenLayer1 n, hiddenLayer2 n, hiddenLayer3 n, valueHead n, policyHead n]"

text \<open>
  The invariant of the network parameters that the engine checks: each matrix has as
  many rows as its layer has output units.
\<close>

definition declared_rows :: "Network \<Rightarrow> bool" where
  "declared_rows n =
     (length (l_weights (inputLayer n)) = 1024 \<and> length (l_weights (hiddenLayer1 n)) = 1536 \<and>
      length (l_weights (hiddenLayer2 n)) = 1024 \<and> length (l_weights (hiddenLayer3 n)) = 768 \<and>
      length (l_weights (valueHead n)) = 1 \<and> length (l_weights (policyHead n)) = 9)"

text \<open>
  A network of the declared shape with all parameters 0, and an engine around it as the
  constructor leaves its counters (exploration rate 0.1, everything else 0 or empty).
\<close>

definition zero_layer :: "nat \<Rightarrow> nat \<Rightarrow> NeuralLayer" where
  "zero_layer inSize outSize =
     \<lparr>l_weights = replicate outSize (replicate inSize 0), l_biases = Some (replicate outSize 0),
      inputSize = inSize, outputSize = outSize, lastInitTime = 0\<rparr>"

definition zero_network :: Network where
  "zero_network =
     \<lparr>inputLayer = zero_layer 200 1024, hiddenLayer1 = zero_layer 1024 1536,
      hiddenLayer2 = zero_layer 1536 1024, hiddenLayer3 = zero_layer 1024 768,
      valueHead = zero_layer 768 1, policyHead = zero_layer 768 9\<rparr>"

definition fresh_engine :: "Network \<Rightarrow> DodgerAI" where
  "fresh_engine n =
     \<lparr>ai_net = n, experienceBuffer = newExperienceBuffer 50000, weightManager = [],
      learningRate = 0.001, explorationRate = 0.1, episodeCount = 0, totalReward = 0,
      bestPerformance = 0, averagePerformance = 0, lastFeatures = [], lastAction = 0,
      centerTracker = \<lparr>lastCenterDistance = 0, timeAwayFromCenter = 0, totalCenterTime = 0,
                        forceBackToCenterCount = 0, lastForceTime = 0\<rparr>,
      recentPositions = [], borderAvoidanceMemory = []\<rparr>"

section \<open>The speed model\<close>

text \<open>Distance from the player to a hazard, and to the nearest side of the field.\<close>

definition hazard_distance :: "Player \<Rightarrow> Hazard \<Rightarrow> jsnum" where
  "hazard_distance p hazard = Math_hypot (h_x hazard - p_x p) (h_y hazard - p_y p)"

definition boundary_distance :: "GameState \<Rightarrow> jsnum" where
  "boundary_distance gameState =
     Math_min (Math_min (Math_min (p_x (player gameState))
                                    (width gameState - p_x (player gameState)))
                         (p_y (player gameState)))
              (height gameState - p_y (player gameState))"

text \<open>
  \<^verbatim>\<open>calculatePickupSafety(gameState, pickup)\<close>: the loop multiplies the safety by
  0.3 for a hazard within \<^verbatim>\<open>r + 30\<close> of the pickup, by 0.7 for one within twice that.
\<close>

definition pickup_safety_step :: "Pickup \<Rightarrow> jsnum \<Rightarrow> Hazard \<Rightarrow> jsnum" where
  "pickup_safety_step pickup safety hazard =
     (let distanceToPickup = Math_hypot (h_x hazard - k_x pickup) (h_y hazard - k_y pickup);
          threatRadius = h_r hazard + 30
      in if distanceToPickup < threatRadius then safety * 0.3
         else if distanceToPickup < threatRadius * 2 then safety * 0.7
         else safety)"

definition calculatePickupSafety :: "GameState \<Rightarrow> Pickup \<Rightarrow> jsnum" where
  "calculatePickupSafety gameState pickup =
     Math_max 0.1 (foldl (pickup_safety_step pickup) 1.0 (hazards gameState))"

text \<open>
  \<^verbatim>\<open>findNearestSafePickup(gameState)\<close>: the loop keeps the nearest pickup whose
  safety exceeds 0.4, with its distance.
\<close>

definition nearest_safe_step ::
  "GameState \<Rightarrow> jsnum \<times> Pickup option \<Rightarrow> Pickup \<Rightarrow> jsnum \<times> Pickup option" where
  "nearest_safe_step gameState acc pickup =
     (let distance = Math_hypot (k_x pickup - p_x (player gameState))
                                (k_y pickup - p_y (player gameState));
          safety = calculatePickupSafety gameState pickup
      in if 0.4 < safety \<and> distance < fst acc then (distance, Some pickup) else acc)"

definition findNearestSafePickup :: "GameState \<Rightarrow> Pickup option" where
  "findNearestSafePickup gameState =
     snd (foldl (nearest_safe_step gameState) (PInf, None) (pickups gameState))"

text \<open>\<^verbatim>\<open>isSafeToStay(gameState)\<close>\<close>

definition isSafeToStay :: "GameState \<Rightarrow> bool" where
  "isSafeToStay gameState =
     (let nearestThreat = foldl (\<lambda>nearest hazard. Math_min nearest (hazard_distance (player gameState) hazard))
                            PInf (hazards gameState);
          boundaryDistance = boundary_distance gameState;
          currentHealth = lives gameState / maxLives gameState;
          isLowHealth = (currentHealth \<le> 0.6)
      in 180 < nearestThreat \<and> 120 < boundaryDistance \<and> \<not> isLowHealth)"

text \<open>
  The threat loop of \<^verbatim>\<open>calculateUltraFastSpeed\<close>; its variables are
  \<^verbatim>\<open>maxThreatLevel\<close>, \<^verbatim>\<open>nearbyThreats\<close>, \<^verbatim>\<open>trackerThreats\<close> and
  \<^verbatim>\<open>immediateDanger\<close>, here the fields of a record with the prefix \<open>s_\<close>.
\<close>

record SpeedThreat =
  s_maxThreatLevel :: jsnum
  s_nearbyThreats :: nat
  s_trackerThreats :: nat
  s_immediateDanger :: bool

definition speed_threat_step :: "Player \<Rightarrow> SpeedThreat \<Rightarrow> Hazard \<Rightarrow> SpeedThreat" where
  "speed_threat_step p acc hazard =
     (let distance = hazard_distance p hazard;
          acc1 = (if distance < h_r hazard + p_r p + 40 then acc\<lparr>s_immediateDanger := True\<rparr> else acc)
      in if distance < 250 then
           (let threatLevel = Math_exp (- distance / 70);
                acc2 = acc1\<lparr>s_maxThreatLevel := Math_max (s_maxThreatLevel acc1) threatLevel\<rparr>;
                acc3 = (if distance < 120 then acc2\<lparr>s_nearbyThreats := s_nearbyThreats acc2 + 1\<rparr> else acc2)
            in if kind hazard = ''tracker'' \<and> distance < 200
               then acc3\<lparr>s_trackerThreats := s_trackerThreats acc3 + 1\<rparr> else acc3)
         else acc1)"

definition speed_threats :: "GameState \<Rightarrow> SpeedThreat" where
  "speed_threats gameState =
     foldl (speed_threat_step (player gameState))
       \<lparr>s_maxThreatLevel = 0, s_nearbyThreats = 0, s_trackerThreats = 0, s_immediateDanger = False\<rparr>
       (hazards gameState)"

text \<open>
  \<^verbatim>\<open>calculateUltraFastSpeed\<close> up to its last statement: the value of
  \<^verbatim>\<open>baseSpeed\<close> before the final clamp.  The parameter \<^verbatim>\<open>features\<close> is not
  read.
\<close>

definition ultraFastBaseSpeed :: "GameState \<Rightarrow> jsnum list \<Rightarrow> int \<Rightarrow> bool \<Rightarrow> bool \<Rightarrow> jsnum" where
  "ultraFastBaseSpeed gameState features action isLowHealth isCriticalHealth =
     (let baseSpeed0 = (if isCriticalHealth then 3.2 else if isLowHealth then 2.6 else 2.0);
          th = speed_threats gameState;
          baseSpeed1 = (if s_immediateDanger th then baseSpeed0 + 2.0 else baseSpeed0);
          baseSpeed2 = baseSpeed1 + s_maxThreatLevel th * 1.8;
          baseSpeed3 = baseSpeed2 + jn (s_nearbyThreats th) * 0.6;
          baseSpeed4 = baseSpeed3 + jn (s_trackerThreats th) * 1.5;
          boundaryDistance = boundary_distance gameState;
          baseSpeed5 = (if boundaryDistance < 100
                        then baseSpeed4 + (100 - boundaryDistance) / 100 * 1.5
                        else baseSpeed4);
          baseSpeed6 = (if isLowHealth \<and> length (pickups gameState) > 0
                        then (case findNearestSafePickup gameState of
                                None \<Rightarrow> baseSpeed5
                              | Some nearestPickup \<Rightarrow>
                                  baseSpeed5 + (if isCriticalHealth then 0.8 else 0.5))
                        else baseSpeed5);
          baseSpeed7 = (if action \<noteq> 0 then baseSpeed6 + 0.3 else baseSpeed6)
      in if action = 0 then
           (if isSafeToStay gameState then 0 else Math_max 1.8 baseSpeed7)
         else baseSpeed7)"

text \<open>The return statement: \<^verbatim>\<open>Math.max(1.0, Math.min(5.0, baseSpeed))\<close>.\<close>

definition calculateUltraFastSpeed :: "GameState \<Rightarrow> jsnum list \<Rightarrow> int \<Rightarrow> bool \<Rightarrow> bool \<Rightarrow> jsnum" where
  "calculateUltraFastSpeed gameState features action isLowHealth isCriticalHealth =
     Math_max 1.0 (Math_min 5.0 (ultraFastBaseSpeed gameState features action isLowHealth isCriticalHealth))"

section \<open>The feature extractor\<close>

text \<open>
  \<^verbatim>\<open>analyzePredictiveContext\<close>: for each of the horizons 0.5, 1, 2 and 3 seconds a
  loop over the hazards accumulates \<^verbatim>\<open>totalThreat\<close>, \<^verbatim>\<open>criticalThreats\<close> and
  \<^verbatim>\<open>centerPushingThreats\<close>, then three features are pushed.
\<close>

definition predictive_step ::
  "GameState \<Rightarrow> jsnum \<Rightarrow> jsnum \<times> nat \<times> jsnum \<Rightarrow> Hazard \<Rightarrow> jsnum \<times> nat \<times> jsnum" where
  "predictive_step gameState timeHorizon acc hazard =
     (case acc of (totalThreat, criticalThreats, centerPushingThreats) \<Rightarrow>
      let p = player gameState;
          predictedPos = predictEnemyPositionPhysics hazard gameState timeHorizon;
          threatDistance = Math_hypot (fst predictedPos - p_x p) (snd predictedPos - p_y p);
          safeDistance = h_r hazard + p_r p + 50
      in if threatDistance < safeDistance * 2.5 then
           (let threatIntensity = Math_max 0 ((safeDistance * 2.5 - threatDistance) / (safeDistance * 2.5));
                totalThreat' = totalThreat + threatIntensity;
                criticalThreats' = (if threatDistance < safeDistance * 1.2
                                    then criticalThreats + 1 else criticalThreats);
                centerX = width gameState / 2;
                centerY = height gameState / 2;
                playerToCenterX = centerX - p_x p;
                playerToCenterY = centerY - p_y p;
                playerToCenterDist = Math_hypot playerToCenterX playerToCenterY
            in if 0 < playerToCenterDist then
                 (let enemyToPlayerX = p_x p - fst predictedPos;
                      enemyToPlayerY = p_y p - snd predictedPos;
                      enemyToPlayerDist = Math_hypot enemyToPlayerX enemyToPlayerY
                  in if 0 < enemyToPlayerDist then
                       (let alignment = (enemyToPlayerX * playerToCenterX + enemyToPlayerY * playerToCenterY) /
                                        (enemyToPlayerDist * playerToCenterDist)
                        in if 0.3 < alignment
                           then (totalThreat', criticalThreats', centerPushingThreats + alignment * threatIntensity)
                           else (totalThreat', criticalThreats', centerPushingThreats))
                     else (totalThreat', criticalThreats', centerPushingThreats))
               else (totalThreat', criticalThreats', centerPushingThreats))
         else acc)"

definition predictive_horizon :: "GameState \<Rightarrow> jsnum \<Rightarrow> jsnum list" where
  "predictive_horizon gameState timeHorizon =
     (case foldl (predictive_step gameState timeHorizon) (0, 0, 0) (hazards gameState) of
        (totalThreat, criticalThreats, centerPushingThreats) \<Rightarrow>
          let hazardCount = Math_max 1 (jn (length (hazards gameState)))
          in [Math_tanh (totalThreat / hazardCount),
              Math_min 1 (jn criticalThreats / hazardCount),
              Math_tanh (centerPushingThreats / hazardCount)])"

definition analyzePredictiveContext :: "GameState \<Rightarrow> jsnum list" where
  "analyzePredictiveContext gameState =
     concat (map (predictive_horizon gameState) [0.5, 1.0, 2.0, 3.0])"

text \<open>\<^verbatim>\<open>analyzeCenterPositioning\<close>: ten features.\<close>

definition center_safety_step :: "jsnum \<Rightarrow> jsnum \<Rightarrow> jsnum \<Rightarrow> Hazard \<Rightarrow> jsnum" where
  "center_safety_step centerX centerY centerSafety hazard =
     (let hazardToCenter = Math_hypot (h_x hazard - centerX) (h_y hazard - centerY)
      in if hazardToCenter < 180
         then centerSafety * Math_max 0.1 (hazardToCenter / 180)
         else centerSafety)"

definition analyzeCenterPositioning :: "GameState \<Rightarrow> jsnum list" where
  "analyzeCenterPositioning gameState =
     (let p = player gameState;
          centerX = width gameState / 2;
          centerY = height gameState / 2;
          toCenterX = centerX - p_x p;
          toCenterY = centerY - p_y p;
          distanceToCenter = Math_hypot toCenterX toCenterY;
          maxDistance = Math_hypot (width gameState / 2) (height gameState / 2);
          normalizedDistance = distanceToCenter / maxDistance;
          distancePenalty = Math_pow normalizedDistance 1.5;
          comfortRadius = maxDistance * 0.4;
          centerComfort = Math_max 0 (1 - distanceToCenter / comfortRadius);
          enhancedComfort = Math_pow centerComfort 0.8;
          edgeMargin = 150;
          leftPressure = Math_max 0 ((edgeMargin - p_x p) / edgeMargin);
          rightPressure = Math_max 0 ((p_x p - (width gameState - edgeMargin)) / edgeMargin);
          topPressure = Math_max 0 ((edgeMargin - p_y p) / edgeMargin);
          bottomPressure = Math_max 0 ((p_y p - (height gameState - edgeMargin)) / edgeMargin);
          totalBoundaryPressure = leftPressure + rightPressure + topPressure + bottomPressure;
          centerSafety = foldl (center_safety_step centerX centerY) 1.0 (hazards gameState)
      in [distancePenalty,
          (toCenterX / maxDistance) * 2.0,
          (toCenterY / maxDistance) * 2.0,
          enhancedComfort * 3.0,
          Math_pow leftPressure 0.7 * 2.5,
          Math_pow rightPressure 0.7 * 2.5,
          Math_pow topPressure 0.7 * 2.5,
          Math_pow bottomPressure 0.7 * 2.5,
          Math_pow totalBoundaryPressure 1.2 * 3.0,
          centerSafety * 2.0])"

text \<open>
  \<^verbatim>\<open>extractAllEnemyInformation\<close>: the hazards sorted by distance, six features
  for each of the first 20, zeros past the last hazard.
\<close>

definition enemy_features :: "GameState \<Rightarrow> Hazard \<Rightarrow> jsnum list" where
  "enemy_features gameState enemy =
     (let maxDistance = Math_hypot (width gameState) (height gameState);
          distance = hazard_distance (player gameState) enemy;
          weight = Math_exp (- distance / (maxDistance * 0.3));
          nextX = h_x enemy + dirX enemy * baseSpeed enemy;
          nextY = h_y enemy + dirY enemy * baseSpeed enemy
      in [h_x enemy / width gameState,
          h_y enemy / height gameState,
          Math_max 0 (Math_min 1 (nextX / width gameState)),
          Math_max 0 (Math_min 1 (nextY / height gameState)),
          h_r enemy / 50,
          weight])"

definition extractAllEnemyInformation :: "GameState \<Rightarrow> jsnum list" where
  "extractAllEnemyInformation gameState =
     (let maxEnemies = 20;
          enemiesWithDistance = sort_ascending (hazard_distance (player gameState)) (hazards gameState)
      in concat (map (\<lambda>i. if i < length enemiesWithDistance
                            then enemy_features gameState (enemiesWithDistance ! i)
                            else [0, 0, 0, 0, 0, 0])
                     [0..<maxEnemies]))"

text \<open>
  \<^verbatim>\<open>extractPickupPositions\<close>: the pickups sorted by descending score, four
  features for each of the first five.
\<close>

definition pickup_sort_score :: "GameState \<Rightarrow> Pickup \<Rightarrow> jsnum" where
  "pickup_sort_score gameState pickup =
     (let distance = Math_hypot (k_x pickup - p_x (player gameState)) (k_y pickup - p_y (player gameState));
          urgency = (maxLife pickup - k_life pickup) / maxLife pickup
      in urgency * 2 + (1 - distance / Math_hypot (width gameState) (height gameState)))"

definition pickup_features :: "GameState \<Rightarrow> Pickup \<Rightarrow> jsnum list" where
  "pickup_features gameState pickup =
     [k_x pickup / width gameState,
      k_y pickup / height gameState,
      k_life pickup / maxLife pickup,
      (if k_type pickup = ''heart'' then 1 else 0)]"

definition extractPickupPositions :: "GameState \<Rightarrow> jsnum list" where
  "extractPickupPositions gameState =
     (let sortedPickups = take 5 (sort_descending (pickup_sort_score gameState) (pickups gameState))
      in concat (map (\<lambda>i. if i < length sortedPickups
                            then pickup_features gameState (sortedPickups ! i)
                            else [0, 0, 0, 0])
                     [0..<5]))"

text \<open>
  \<^verbatim>\<open>analyzeGlobalThreats\<close>: twelve zeros without hazards, eleven features with
  them.
\<close>

definition directional_threat_step :: "Player \<Rightarrow> jsnum \<Rightarrow> jsnum \<Rightarrow> jsnum \<Rightarrow> Hazard \<Rightarrow> jsnum" where
  "directional_threat_step p dx dy threat hazard =
     (let toHazardX = h_x hazard - p_x p;
          toHazardY = h_y hazard - p_y p;
          distance = Math_hypot toHazardX toHazardY
      in if 0 < distance then
           (let dotProduct = (toHazardX * dx + toHazardY * dy) / distance
            in if 0.5 < dotProduct then threat + Math_exp (- distance / 80) * dotProduct else threat)
         else threat)"

definition collision_time_step :: "GameState \<Rightarrow> jsnum \<Rightarrow> Hazard \<Rightarrow> jsnum" where
  "collision_time_step gameState minTimeToCollision hazard =
     (let p = player gameState;
          relX = h_x hazard - p_x p;
          relY = h_y hazard - p_y p;
          relVX = dirX hazard * baseSpeed hazard - fst (playerVel gameState);
          relVY = dirY hazard * baseSpeed hazard - snd (playerVel gameState);
          a = relVX * relVX + relVY * relVY;
          b = 2 * (relX * relVX + relY * relVY);
          c = relX * relX + relY * relY - Math_pow (h_r hazard + p_r p) 2
      in if 0 < a then
           (let discriminant = b * b - 4 * a * c
            in if 0 \<le> discriminant then
                 (let t = (- b - Math_sqrt discriminant) / (2 * a)
                  in if 0 < t \<and> t < minTimeToCollision then t else minTimeToCollision)
               else minTimeToCollision)
         else minTimeToCollision)"

definition analyzeGlobalThreats :: "GameState \<Rightarrow> jsnum list" where
  "analyzeGlobalThreats gameState =
     (let p = player gameState; hs = hazards gameState
      in if length hs = 0 then replicate 12 0
         else
           let distances = map (hazard_distance p) hs;
               minDistance = Math_min_list distances;
               avgDistance = foldl (\<lambda>sum d. sum + d) 0 distances / jn (length distances);
               maxDistance = Math_max_list distances;
               nearbyThreats = filter (\<lambda>h. hazard_distance p h < 150) hs;
               directional = map (\<lambda>(dx, dy). Math_tanh (foldl (directional_threat_step p dx dy) 0 hs))
                                 [(- 1, 0), (1, 0), (0, - 1), (0, 1)];
               minTimeToCollision = foldl (collision_time_step gameState) PInf hs;
               trackers = filter (\<lambda>h. kind h = ''tracker'') hs;
               trackerThreat = foldl (\<lambda>threat tracker. threat + Math_exp (- hazard_distance p tracker / 100))
                                 0 trackers;
               cluster =
                 (if length hs > 1 then
                    (let centerX = foldl (\<lambda>sum h. sum + h_x h) 0 hs / jn (length hs);
                         centerY = foldl (\<lambda>sum h. sum + h_y h) 0 hs / jn (length hs);
                         avgDistanceFromCenter =
                           foldl (\<lambda>sum h. sum + Math_hypot (h_x h - centerX) (h_y h - centerY)) 0 hs /
                           jn (length hs)
                     in Math_tanh (avgDistanceFromCenter / 200))
                  else 0)
           in [Math_tanh (minDistance / 100), Math_tanh (avgDistance / 100), Math_tanh (maxDistance / 100),
               jn (length nearbyThreats) / Math_max 1 (jn (length hs))]
              @ directional
              @ [Math_tanh (minTimeToCollision / 3), Math_tanh trackerThreat, cluster])"

text \<open>\<^verbatim>\<open>analyzeSafetyAndBoundary\<close>: ten features.\<close>

definition cell_safety :: "GameState \<Rightarrow> nat \<Rightarrow> nat \<Rightarrow> jsnum" where
  "cell_safety gameState i j =
     (let centerX = (jn i + 0.5) * width gameState / 2;
          centerY = (jn j + 0.5) * height gameState / 2;
          safety = foldl (\<lambda>safety hazard.
                     safety * Math_min 1 (Math_hypot (h_x hazard - centerX) (h_y hazard - centerY) /
                                          (h_r hazard + 80)))
                   1.0 (hazards gameState)
      in Math_tanh safety)"

definition safest_direction_step ::
  "GameState \<Rightarrow> jsnum \<times> (jsnum \<times> jsnum) \<Rightarrow> jsnum \<times> jsnum \<Rightarrow> jsnum \<times> (jsnum \<times> jsnum)" where
  "safest_direction_step gameState acc d =
     (case d of (dx, dy) \<Rightarrow>
      let checkX = p_x (player gameState) + dx * 100;
          checkY = p_y (player gameState) + dy * 100
      in if checkX < 0 \<or> width gameState < checkX \<or> checkY < 0 \<or> height gameState < checkY then acc
         else
           let safetyScore = foldl (\<lambda>score hazard.
                               score * Math_min 1 (Math_hypot (h_x hazard - checkX) (h_y hazard - checkY) /
                                                   (h_r hazard + 50)))
                             1.0 (hazards gameState)
           in if fst acc < safetyScore then (safetyScore, (dx, dy)) else acc)"

definition analyzeSafetyAndBoundary :: "GameState \<Rightarrow> jsnum list" where
  "analyzeSafetyAndBoundary gameState =
     (let p = player gameState; w = width gameState; h = height gameState;
          bestDirection = snd (foldl (safest_direction_step gameState) (- 1, (0, 0))
                                 [(- 1, 0), (1, 0), (0, - 1), (0, 1)])
      in [p_x p / w, (w - p_x p) / w, p_y p / h, (h - p_y p) / h,
          cell_safety gameState 0 0, cell_safety gameState 0 1,
          cell_safety gameState 1 0, cell_safety gameState 1 1,
          fst bestDirection, snd bestDirection])"

text \<open>
  \<^verbatim>\<open>extractFeatures(gameState, difficulty)\<close>: the blocks in order, zeros up to 200
  elements, then \<^verbatim>\<open>slice(0, 200)\<close>.
\<close>

definition extractFeatures :: "GameState \<Rightarrow> jsnum \<Rightarrow> jsnum list" where
  "extractFeatures gameState difficulty =
     (let p = player gameState;
          features =
            [p_x p / width gameState,
             p_y p / height gameState,
             Math_hypot (fst (playerVel gameState)) (snd (playerVel gameState)) / p_speed p,
             fst (playerVel gameState) / p_speed p,
             snd (playerVel gameState) / p_speed p,
             Math_min difficulty 5 / 5,
             elapsed gameState / 200,
             Math_min (lives gameState / maxLives gameState) 1.0]
            @ analyzePredictiveContext gameState
            @ analyzeCenterPositioning gameState
            @ extractAllEnemyInformation gameState
            @ extractPickupPositions gameState
            @ analyzeGlobalThreats gameState
            @ analyzeSafetyAndBoundary gameState;
          padded = features @ replicate (200 - length features) 0
      in take 200 padded)"

section \<open>Threat analysis and the action selectors\<close>

text \<open>
  An action is a JavaScript number that is used as an array index.  \<open>js_at xs i\<close> is the
  read \<^verbatim>\<open>xs[i]\<close> for an integer \<open>i\<close>: \<open>None\<close> stands for \<^verbatim>\<open>undefined\<close>.  Reading a
  property of \<^verbatim>\<open>undefined\<close>, or destructuring it, throws a \<^verbatim>\<open>TypeError\<close>: the functions
  that can do so return an option, and \<open>None\<close> is the exception.
\<close>

definition js_at :: "'a list \<Rightarrow> int \<Rightarrow> 'a option" where
  "js_at xs i = (if 0 \<le> i \<and> nat i < length xs then Some (xs ! nat i) else None)"

text \<open>
  \<^verbatim>\<open>a % b\<close> on numbers, and the read \<^verbatim>\<open>xs[k]\<close> for a number \<open>k\<close>, which finds an
  element only when \<open>k\<close> is an integer within the bounds.
\<close>

fun js_mod :: "jsnum \<Rightarrow> jsnum \<Rightarrow> jsnum" where
  "js_mod (Fin a) (Fin b) =
     (if b = 0 then NaN else Fin (a - b * of_int (if a / b < 0 then \<lceil>a / b\<rceil> else \<lfloor>a / b\<rfloor>)))"
| "js_mod (Fin a) PInf = Fin a"
| "js_mod (Fin a) NInf = Fin a"
| "js_mod _ _ = NaN"

fun js_index :: "'a list \<Rightarrow> jsnum \<Rightarrow> 'a option" where
  "js_index xs (Fin k) = (if k = of_int \<lfloor>k\<rfloor> then js_at xs \<lfloor>k\<rfloor> else None)"
| "js_index xs _ = None"

text \<open>
  The vector tables of the class: the unit moves of \<^verbatim>\<open>decide\<close> and
  \<^verbatim>\<open>applyBoundaryAvoidance\<close>, the table with 0.707 diagonals that several methods
  declare under the names \<^verbatim>\<open>actionVectors\<close>, \<^verbatim>\<open>actionVecs\<close> and \<^verbatim>\<open>actionMap\<close>, and the
  eight directions in the order of the actions 1 to 8.
\<close>

definition actionMap :: "(jsnum \<times> jsnum) list" where
  "actionMap = [(0, 0), (- 1, 0), (1, 0), (0, - 1), (0, 1), (- 1, - 1), (1, - 1), (- 1, 1), (1, 1)]"

definition actionVectors :: "(jsnum \<times> jsnum) list" where
  "actionVectors = [(0, 0), (- 1, 0), (1, 0), (0, - 1), (0, 1),
     (- 0.707, - 0.707), (0.707, - 0.707), (- 0.707, 0.707), (0.707, 0.707)]"

definition directions :: "(jsnum \<times> jsnum) list" where
  "directions = [(- 1, 0), (1, 0), (0, - 1), (0, 1),
     (- 0.707, - 0.707), (0.707, - 0.707), (- 0.707, 0.707), (0.707, 0.707)]"

text \<open>
  \<^verbatim>\<open>getActionForDirection(dx, dy)\<close>: the table is read at
  \<^verbatim>\<open>(actionIndex + 8) % 8\<close> and \<^verbatim>\<open>|| 1\<close> replaces \<^verbatim>\<open>undefined\<close> (and 0).
\<close>

definition directionActions :: "int list" where
  "directionActions = [2, 6, 3, 5, 1, 7, 4, 8]"

definition getActionForDirection :: "jsnum \<Rightarrow> jsnum \<Rightarrow> int" where
  "getActionForDirection dx dy =
     (let angle = Math_atan2 dy dx;
          angleStep = Math_PI / 4;
          actionIndex = Math_round (angle / angleStep)
      in case js_index directionActions (js_mod (actionIndex + 8) 8) of
           None \<Rightarrow> 1
         | Some a \<Rightarrow> if a = 0 then 1 else a)"

text \<open>
  \<^verbatim>\<open>calculateEscapeDirections(gameState, nearestThreat)\<close>: the actions 1 to 8 whose
  point 100 pixels ahead is inside the margins and away from every hazard.  The second
  parameter is not read.
\<close>

definition escape_direction_safe :: "GameState \<Rightarrow> jsnum \<times> jsnum \<Rightarrow> bool" where
  "escape_direction_safe gameState d =
     (case d of (dx, dy) \<Rightarrow>
      let p = player gameState;
          futureX = p_x p + dx * 100;
          futureY = p_y p + dy * 100
      in if futureX < 50 \<or> width gameState - 50 < futureX \<or>
            futureY < 50 \<or> height gameState - 50 < futureY then False
         else list_all (\<lambda>hazard. \<not> Math_hypot (futureX - h_x hazard) (futureY - h_y hazard)
                                      < h_r hazard + p_r p + 60)
                (hazards gameState))"

definition calculateEscapeDirections :: "GameState \<Rightarrow> Hazard option \<Rightarrow> int list" where
  "calculateEscapeDirections gameState nearestThreat =
     map (\<lambda>i. int i + 1)
       (filter (\<lambda>i. escape_direction_safe gameState (directions ! i)) [0..<length directions])"

text \<open>
  \<^verbatim>\<open>analyzeRealTimeThreat(gameState)\<close>.  The fields of the object it returns carry
  the prefix \<open>ta_\<close>.
\<close>

record ThreatAnalysis =
  ta_immediateDanger :: bool
  ta_highRisk :: bool
  ta_predictedDanger :: bool
  ta_dangerLevel :: jsnum
  ta_predictedDangerLevel :: jsnum
  ta_nearestThreat :: "Hazard option"
  ta_escapeDirections :: "int list"

definition threat_step ::
  "GameState \<Rightarrow> jsnum \<times> jsnum \<times> Hazard option \<times> jsnum \<Rightarrow> Hazard
     \<Rightarrow> jsnum \<times> jsnum \<times> Hazard option \<times> jsnum" where
  "threat_step gameState acc hazard =
     (case acc of (maxThreatLevel, predictedMaxThreat, nearestThreat, minDistance) \<Rightarrow>
      let p = player gameState;
          currentDistance = Math_hypot (h_x hazard - p_x p) (h_y hazard - p_y p);
          combinedRadius = h_r hazard + p_r p;
          nearer = (currentDistance < minDistance);
          minDistance' = (if nearer then currentDistance else minDistance);
          nearestThreat' = (if nearer then Some hazard else nearestThreat);
          maxThreatLevel1 =
            (if currentDistance < combinedRadius + 30 then Math_max maxThreatLevel 1.0
             else if currentDistance < combinedRadius + 80
             then Math_max maxThreatLevel (Math_exp (- (currentDistance - combinedRadius) / 40))
             else maxThreatLevel);
          futurePos = predictEnemyPositionPhysics hazard gameState 0.5;
          predictedDistance = Math_hypot (fst futurePos - p_x p) (snd futurePos - p_y p);
          predictedMaxThreat' =
            (if predictedDistance < combinedRadius + 50
             then Math_max predictedMaxThreat (Math_exp (- (predictedDistance - combinedRadius) / 35))
             else predictedMaxThreat);
          hazardVelocity = Math_hypot (dirX hazard * baseSpeed hazard) (dirY hazard * baseSpeed hazard);
          maxThreatLevel2 =
            (if 0 < hazardVelocity then
               (let toPlayerX = p_x p - h_x hazard;
                    toPlayerY = p_y p - h_y hazard;
                    toPlayerDist = Math_hypot toPlayerX toPlayerY
                in if 0 < toPlayerDist then
                     (let dotProduct = (dirX hazard * toPlayerX + dirY hazard * toPlayerY) / toPlayerDist
                      in if 0.5 < dotProduct \<and> currentDistance < 200
                         then Math_max maxThreatLevel1 (0.7 * dotProduct)
                         else maxThreatLevel1)
                   else maxThreatLevel1)
             else maxThreatLevel1)
      in (maxThreatLevel2, predictedMaxThreat', nearestThreat', minDistance'))"

definition analyzeRealTimeThreat :: "GameState \<Rightarrow> ThreatAnalysis" where
  "analyzeRealTimeThreat gameState =
     (case foldl (threat_step gameState) (0, 0, None, PInf) (hazards gameState) of
        (maxThreatLevel, predictedMaxThreat, nearestThreat, minDistance) \<Rightarrow>
          \<lparr>ta_immediateDanger = (0.8 < maxThreatLevel),
           ta_highRisk = (0.5 < maxThreatLevel),
           ta_predictedDanger = (0.6 < predictedMaxThreat),
           ta_dangerLevel = maxThreatLevel,
           ta_predictedDangerLevel = predictedMaxThreat,
           ta_nearestThreat = nearestThreat,
           ta_escapeDirections = calculateEscapeDirections gameState nearestThreat\<rparr>)"

text \<open>
  \<^verbatim>\<open>getBestCenterAction(gameState)\<close>: 0 within 10 pixels of the centre, otherwise
  the safe action among 1 to 8 best aligned with the direction of the centre, and
  \<^verbatim>\<open>bestAction || 1\<close> when none is safe.
\<close>

definition best_center_step ::
  "GameState \<Rightarrow> jsnum \<Rightarrow> jsnum \<Rightarrow> int \<times> jsnum \<Rightarrow> nat \<Rightarrow> int \<times> jsnum" where
  "best_center_step gameState dirX' dirY' acc i =
     (case acc of (bestAction, bestScore) \<Rightarrow>
      case actionVectors ! i of (vx, vy) \<Rightarrow>
      let p = player gameState;
          score = vx * dirX' + vy * dirY';
          futureX = p_x p + vx * 80;
          futureY = p_y p + vy * 80;
          isSafe = list_all (\<lambda>hazard. \<not> Math_hypot (futureX - h_x hazard) (futureY - h_y hazard)
                                          < h_r hazard + p_r p + 60)
                     (hazards gameState)
      in if isSafe \<and> bestScore < score then (int i, score) else acc)"

definition getBestCenterAction :: "GameState \<Rightarrow> int" where
  "getBestCenterAction gameState =
     (let p = player gameState;
          centerX = width gameState / 2;
          centerY = height gameState / 2;
          toCenterX = centerX - p_x p;
          toCenterY = centerY - p_y p;
          distance = Math_hypot toCenterX toCenterY
      in if distance < 10 then 0
         else
           let dirX' = toCenterX / distance;
               dirY' = toCenterY / distance;
               bestAction = fst (foldl (best_center_step gameState dirX' dirY') (0, NInf)
                                   [1..<length actionVectors])
           in if bestAction = 0 then 1 else bestAction)"

text \<open>
  \<^verbatim>\<open>applyBoundaryAvoidance(gameState, action)\<close>.  \<^verbatim>\<open>actionMap[action].mvx\<close> throws
  for an action outside the table.  \<open>r\<close> is the value of \<^verbatim>\<open>Math.random()\<close>, drawn
  only inside the third test.
\<close>

definition applyBoundaryAvoidance :: "real \<Rightarrow> GameState \<Rightarrow> int \<Rightarrow> int option" where
  "applyBoundaryAvoidance r gameState action =
     (let p = player gameState;
          w = width gameState;
          h = height gameState;
          centerX = w / 2;
          centerY = h / 2;
          urgentBoundary = 60;
          warningBoundary = 120;
          safeBoundary = 200;
          distToLeft = p_x p;
          distToRight = w - p_x p;
          distToTop = p_y p;
          distToBottom = h - p_y p;
          minBoundaryDist = Math_min (Math_min (Math_min distToLeft distToRight) distToTop) distToBottom;
          toCenterX = centerX - p_x p;
          toCenterY = centerY - p_y p;
          distToCenter = Math_hypot toCenterX toCenterY
      in case js_at actionMap action of
           None \<Rightarrow> None
         | Some (mvx, mvy) \<Rightarrow>
             let futureX = p_x p + mvx * 60;
                 futureY = p_y p + mvy * 60;
                 futureBoundaryDist =
                   Math_min (Math_min (Math_min futureX (w - futureX)) futureY) (h - futureY)
             in if minBoundaryDist < urgentBoundary then Some (getBestCenterAction gameState)
                else if minBoundaryDist < warningBoundary \<and>
                        (futureBoundaryDist < minBoundaryDist \<or>
                         distToCenter < Math_hypot (futureX - centerX) (futureY - centerY))
                then Some (getBestCenterAction gameState)
                else if minBoundaryDist < safeBoundary \<and> w * 0.25 < distToCenter \<and> Fin r < 0.3
                then Some (getBestCenterAction gameState)
                else Some action)"

text \<open>
  \<^verbatim>\<open>getEmergencyAvoidanceAction(gameState, threatAnalysis)\<close>.  The loop destructures
  \<^verbatim>\<open>actionVectors[actionId]\<close>.
\<close>

definition emergency_step :: "GameState \<Rightarrow> (int \<times> jsnum) option \<Rightarrow> int \<Rightarrow> (int \<times> jsnum) option" where
  "emergency_step gameState acc actionId =
     (case acc of
        None \<Rightarrow> None
      | Some (bestAction, maxDistance) \<Rightarrow>
          (case js_at actionVectors actionId of
             None \<Rightarrow> None
           | Some (dx, dy) \<Rightarrow>
               let futureX = p_x (player gameState) + dx * 120;
                   futureY = p_y (player gameState) + dy * 120;
                   minThreatDist =
                     foldl (\<lambda>minThreatDist hazard.
                              Math_min minThreatDist
                                (Math_hypot (futureX - h_x hazard) (futureY - h_y hazard)))
                       PInf (hazards gameState)
               in if maxDistance < minThreatDist then Some (actionId, minThreatDist)
                  else Some (bestAction, maxDistance)))"

definition getEmergencyAvoidanceAction :: "GameState \<Rightarrow> ThreatAnalysis \<Rightarrow> int option" where
  "getEmergencyAvoidanceAction gameState threatAnalysis =
     (case ta_escapeDirections threatAnalysis of
        first # rest \<Rightarrow>
          map_option fst
            (foldl (emergency_step gameState) (Some (first, 0)) (ta_escapeDirections threatAnalysis))
      | [] \<Rightarrow>
          (case ta_nearestThreat threatAnalysis of
             Some threat \<Rightarrow>
               let p = player gameState;
                   awayX = p_x p - h_x threat;
                   awayY = p_y p - h_y threat;
                   distance = Math_hypot awayX awayY
               in if 0 < distance
                  then Some (getActionForDirection (awayX / distance) (awayY / distance))
                  else Some 1
           | None \<Rightarrow> Some 1))"

text \<open>\<^verbatim>\<open>getPredictiveAvoidanceAction(gameState, threatAnalysis)\<close>.\<close>

definition predictive_avoidance_step ::
  "GameState \<Rightarrow> (jsnum \<times> jsnum) \<times> jsnum \<Rightarrow> jsnum \<times> jsnum \<Rightarrow> (jsnum \<times> jsnum) \<times> jsnum" where
  "predictive_avoidance_step gameState acc d =
     (case acc of (safestDirection, maxSafety) \<Rightarrow>
      case d of (dx, dy) \<Rightarrow>
      let p = player gameState;
          futureX = p_x p + dx * 100;
          futureY = p_y p + dy * 100
      in if futureX < 80 \<or> width gameState - 80 < futureX \<or>
            futureY < 80 \<or> height gameState - 80 < futureY then acc
         else
           let safety =
                 foldl (\<lambda>safety hazard.
                          let predictedPos = predictEnemyPositionPhysics hazard gameState 0.7;
                              distance = Math_hypot (futureX - fst predictedPos) (futureY - snd predictedPos);
                              safeDistance = h_r hazard + p_r p + 70
                          in if distance < safeDistance
                             then safety * Math_max 0.1 (distance / safeDistance)
                             else safety)
                   1.0 (hazards gameState)
           in if maxSafety < safety then ((dx, dy), safety) else acc)"

definition getPredictiveAvoidanceAction :: "GameState \<Rightarrow> ThreatAnalysis \<Rightarrow> int" where
  "getPredictiveAvoidanceAction gameState threatAnalysis =
     (let safestDirection = fst (foldl (predictive_avoidance_step gameState) ((0, 0), 0) directions)
      in getActionForDirection (fst safestDirection) (snd safestDirection))"

text \<open>
  \<^verbatim>\<open>getIntelligentCenterAction(gameState, policy, threatAnalysis)\<close>.  The policy
  entries are paired with their indices and sorted by descending probability
  (\<^verbatim>\<open>Array.prototype.sort\<close> is stable); \<^verbatim>\<open>sortedActions[0].idx\<close> throws for an empty
  policy.
\<close>

definition indexed :: "jsnum list \<Rightarrow> (int \<times> jsnum) list" where
  "indexed policy = map (\<lambda>i. (int i, policy ! i)) [0..<length policy]"

definition getIntelligentCenterAction :: "GameState \<Rightarrow> jsnum list \<Rightarrow> ThreatAnalysis \<Rightarrow> int option" where
  "getIntelligentCenterAction gameState policy threatAnalysis =
     (let p = player gameState;
          centerX = width gameState / 2;
          centerY = height gameState / 2;
          distanceToCenter = Math_hypot (p_x p - centerX) (p_y p - centerY);
          maxDistance = Math_hypot (width gameState / 2) (height gameState / 2);
          distanceRatio = distanceToCenter / maxDistance;
          toCenterX = centerX - p_x p;
          toCenterY = centerY - p_y p;
          distance = Math_hypot toCenterX toCenterY
      in if 0.6 < distanceRatio \<and> 0 < distance
         then Some (getActionForDirection (toCenterX / distance) (toCenterY / distance))
         else
           let sortedActions = sort_descending snd (indexed policy)
           in case find (\<lambda>action. fst action \<noteq> 0) sortedActions of
                Some action \<Rightarrow> Some (fst action)
              | None \<Rightarrow> map_option fst (js_at sortedActions 0))"

text \<open>
  \<^verbatim>\<open>applyAdvancedSafetyChecks(gameState, action, threatAnalysis)\<close>.  The first
  statement destructures \<^verbatim>\<open>actionVectors[action]\<close>.
\<close>

definition applyAdvancedSafetyChecks :: "GameState \<Rightarrow> int \<Rightarrow> ThreatAnalysis \<Rightarrow> int option" where
  "applyAdvancedSafetyChecks gameState action threatAnalysis =
     (case js_at actionVectors action of
        None \<Rightarrow> None
      | Some (dx, dy) \<Rightarrow>
          let p = player gameState;
              futureX = p_x p + dx * 80;
              futureY = p_y p + dy * 80
          in if futureX < 40 \<or> width gameState - 40 < futureX \<or>
                futureY < 40 \<or> height gameState - 40 < futureY
             then Some (getBestCenterAction gameState)
             else if list_ex (\<lambda>hazard. Math_hypot (futureX - h_x hazard) (futureY - h_y hazard)
                                         < h_r hazard + p_r p + 30)
                       (hazards gameState) \<and>
                     0 < length (ta_escapeDirections threatAnalysis)
             then js_at (ta_escapeDirections threatAnalysis) 0
             else Some action)"

text \<open>
  \<^verbatim>\<open>updateCenterTracking(gameState, action)\<close>: the counters of
  \<^verbatim>\<open>centerTracker\<close>.  \<open>currentTime\<close> is the value of \<^verbatim>\<open>Date.now()\<close>; within a
  second of \<^verbatim>\<open>lastForceTime\<close> the method destructures \<^verbatim>\<open>actionMap[action]\<close> (its
  local table with 0.707 diagonals).
\<close>

definition updateCenterTracking :: "int \<Rightarrow> CenterTracker \<Rightarrow> GameState \<Rightarrow> int \<Rightarrow> CenterTracker option" where
  "updateCenterTracking currentTime tracker gameState action =
     (let p = player gameState;
          centerX = width gameState / 2;
          centerY = height gameState / 2;
          distanceToCenter = Math_hypot (p_x p - centerX) (p_y p - centerY);
          maxDistance = Math_hypot (width gameState / 2) (height gameState / 2);
          distanceRatio = distanceToCenter / maxDistance;
          tracker1 = tracker\<lparr>lastCenterDistance := distanceRatio\<rparr>;
          tracker2 = (if 0.5 < distanceRatio
                      then tracker1\<lparr>timeAwayFromCenter := timeAwayFromCenter tracker1 + 1\<rparr>
                      else tracker1\<lparr>totalCenterTime := totalCenterTime tracker1 + 1\<rparr>)
      in if currentTime - lastForceTime tracker2 < 1000 then
           (case js_at actionVectors action of
              None \<Rightarrow> None
            | Some (mvx, mvy) \<Rightarrow>
                let toCenterX = centerX - p_x p;
                    toCenterY = centerY - p_y p;
                    len = Math_hypot toCenterX toCenterY;
                    normalizedToCenter = (if 0 < len then (toCenterX / len, toCenterY / len)
                                          else (toCenterX, toCenterY));
                    dotProduct = mvx * fst normalizedToCenter + mvy * snd normalizedToCenter
                in if 0.3 < dotProduct
                   then Some (tracker2\<lparr>forceBackToCenterCount := forceBackToCenterCount tracker2 + 1\<rparr>)
                   else Some tracker2)
         else Some tracker2)"

section \<open>Pickup analysis and the pickup actions\<close>

text \<open>\<^verbatim>\<open>calculateGlobalThreatLevel\<close> and \<^verbatim>\<open>calculateThreatDensity\<close>.\<close>

definition calculateGlobalThreatLevel :: "GameState \<Rightarrow> jsnum" where
  "calculateGlobalThreatLevel gameState =
     (case foldl (\<lambda>acc hazard.
              case acc of (totalThreat, threatCount) \<Rightarrow>
              let distance = Math_hypot (h_x hazard - p_x (player gameState))
                                        (h_y hazard - p_y (player gameState));
                  threatRadius = 200
              in if distance < threatRadius
                 then (totalThreat + (1 - distance / threatRadius), threatCount + 1)
                 else acc)
            (0, 0 :: nat) (hazards gameState) of
        (totalThreat, threatCount) \<Rightarrow>
          if 0 < threatCount then totalThreat / jn threatCount else 0)"

definition calculateThreatDensity :: "GameState \<Rightarrow> jsnum" where
  "calculateThreatDensity gameState =
     (let totalArea = width gameState * height gameState;
          hazardArea = foldl (\<lambda>sum h. sum + Math_PI * h_r h * h_r h) 0 (hazards gameState)
      in hazardArea / totalArea)"

text \<open>\<^verbatim>\<open>calculateDistanceScore(distance)\<close>.\<close>

definition calculateDistanceScore :: "jsnum \<Rightarrow> jsnum" where
  "calculateDistanceScore distance =
     (if distance < 50 then 1.0
      else if distance < 100 then 0.9
      else if distance < 200 then 0.7
      else if distance < 300 then 0.4
      else Math_max 0.1 (1 / (1 + distance / 150)))"

text \<open>
  \<^verbatim>\<open>calculatePickupTypeValue(pickup, currentHealth, gameState)\<close>.  The player
  object has no property \<^verbatim>\<open>shield\<close>, so \<^verbatim>\<open>hasShield\<close> is falsy in the
  \<^verbatim>\<open>'shield'\<close> case.
\<close>

definition calculatePickupTypeValue :: "Pickup \<Rightarrow> jsnum \<Rightarrow> GameState \<Rightarrow> jsnum" where
  "calculatePickupTypeValue pickup currentHealth gameState =
     (if k_type pickup = ''health'' then
        (if currentHealth \<le> 0.2 then 3.0
         else if currentHealth \<le> 0.4 then 2.5
         else if currentHealth \<le> 0.6 then 1.8
         else if currentHealth \<le> 0.8 then 1.2
         else 0.6)
      else if k_type pickup = ''shield'' then
        (if currentHealth \<le> 0.5 then 2.2 else 1.8)
      else if k_type pickup = ''speed'' then
        (let currentSpeed = js_or (p_speed (player gameState)) 1
         in if currentSpeed < 1.2 then 1.5
            else if currentSpeed < 1.5 then 1.2
            else 0.9)
      else if k_type pickup = ''points'' then 0.7
      else if k_type pickup = ''power'' then 1.4
      else 1.0)"

text \<open>
  \<^verbatim>\<open>isPathSafe(gameState, start, end)\<close> and
  \<^verbatim>\<open>calculateAlternativePathCount(gameState, pickup)\<close>.  Points are pairs.
\<close>

definition isPathSafe :: "GameState \<Rightarrow> jsnum \<times> jsnum \<Rightarrow> jsnum \<times> jsnum \<Rightarrow> bool" where
  "isPathSafe gameState start end' =
     (let steps = 10
      in list_all (\<lambda>i.
           let t = jn i / steps;
               checkX = fst start + (fst end' - fst start) * t;
               checkY = snd start + (snd end' - snd start) * t
           in if checkX < 30 \<or> width gameState - 30 < checkX \<or>
                 checkY < 30 \<or> height gameState - 30 < checkY then False
              else list_all (\<lambda>hazard. \<not> Math_hypot (checkX - h_x hazard) (checkY - h_y hazard)
                                           < h_r hazard + p_r (player gameState) + 60)
                     (hazards gameState))
         [0..<11])"

definition calculateAlternativePathCount :: "GameState \<Rightarrow> Pickup \<Rightarrow> nat" where
  "calculateAlternativePathCount gameState pickup =
     (let p = player gameState;
          dx = k_x pickup - p_x p;
          dy = k_y pickup - p_y p;
          distance = Math_hypot dx dy
      in if distance = 0 then 0
         else
           let normalX = dx / distance;
               normalY = dy / distance;
               perpX = - normalY;
               perpY = normalX;
               leftPath = (p_x p + perpX * 50, p_y p + perpY * 50);
               rightPath = (p_x p - perpX * 50, p_y p - perpY * 50)
           in (if isPathSafe gameState leftPath (k_x pickup, k_y pickup) then 1 else 0) +
              (if isPathSafe gameState rightPath (k_x pickup, k_y pickup) then 1 else 0))"

text \<open>
  \<^verbatim>\<open>evaluateAdvancedPathSafety(gameState, pickup)\<close>.  The fields of the object
  returned carry the prefix \<open>ps_\<close>; a critical threat is the tuple of its
  \<^verbatim>\<open>hazard\<close>, \<^verbatim>\<open>predictedPos\<close>, \<^verbatim>\<open>dangerLevel\<close> and \<^verbatim>\<open>timeStep\<close>.
\<close>

type_synonym CriticalThreat = "Hazard \<times> (jsnum \<times> jsnum) \<times> jsnum \<times> jsnum"

record PathSafety =
  ps_safetyScore :: jsnum
  ps_criticalThreats :: "CriticalThreat list"
  ps_alternativePaths :: nat

definition path_hazard_step ::
  "GameState \<Rightarrow> jsnum \<Rightarrow> jsnum \<Rightarrow> jsnum \<Rightarrow> jsnum \<times> CriticalThreat list \<Rightarrow> Hazard
     \<Rightarrow> jsnum \<times> CriticalThreat list" where
  "path_hazard_step gameState checkX checkY progress acc hazard =
     (case acc of (stepDanger, criticalThreats) \<Rightarrow>
      let timeStep = progress * 1.0;
          predictedPos = predictEnemyPositionPhysics hazard gameState timeStep;
          distance = Math_hypot (checkX - fst predictedPos) (checkY - snd predictedPos);
          dangerRadius = h_r hazard + p_r (player gameState) + 80
      in if distance < dangerRadius then
           (let dangerIntensity = 1 - distance / dangerRadius
            in (Math_max stepDanger dangerIntensity,
                if 0.7 < dangerIntensity
                then criticalThreats @ [(hazard, predictedPos, dangerIntensity, timeStep)]
                else criticalThreats))
         else acc)"

definition path_step ::
  "GameState \<Rightarrow> Pickup \<Rightarrow> jsnum \<times> CriticalThreat list \<Rightarrow> nat \<Rightarrow> jsnum \<times> CriticalThreat list" where
  "path_step gameState pickup acc step =
     (case acc of (safetyScore, criticalThreats) \<Rightarrow>
      let p = player gameState;
          pathSteps = 15;
          progress = jn step / pathSteps;
          checkX = p_x p + (k_x pickup - p_x p) * progress;
          checkY = p_y p + (k_y pickup - p_y p) * progress;
          inner = foldl (path_hazard_step gameState checkX checkY progress) (0, criticalThreats)
                    (hazards gameState)
      in (safetyScore * (1 - fst inner * 0.8), snd inner))"

definition evaluateAdvancedPathSafety :: "GameState \<Rightarrow> Pickup \<Rightarrow> PathSafety" where
  "evaluateAdvancedPathSafety gameState pickup =
     (case foldl (path_step gameState pickup) (1.0, []) [1..<16] of
        (safetyScore, criticalThreats) \<Rightarrow>
          \<lparr>ps_safetyScore = Math_max 0 safetyScore,
           ps_criticalThreats = criticalThreats,
           ps_alternativePaths = calculateAlternativePathCount gameState pickup\<rparr>)"

text \<open>\<^verbatim>\<open>analyzeThreatTrend\<close> and \<^verbatim>\<open>evaluatePickupTiming\<close>.\<close>

definition analyzeThreatTrend :: "GameState \<Rightarrow> Pickup \<Rightarrow> jsnum" where
  "analyzeThreatTrend gameState pickup =
     (case foldl (\<lambda>acc hazard.
              case acc of (trendScore, threatCount) \<Rightarrow>
              let hazardToPickup = Math_hypot (k_x pickup - h_x hazard) (k_y pickup - h_y hazard)
              in if hazardToPickup < 300 then
                   (let dirToPickupX = (k_x pickup - h_x hazard) / hazardToPickup;
                        dirToPickupY = (k_y pickup - h_y hazard) / hazardToPickup;
                        hazardDirX = js_or (dirX hazard) 0;
                        hazardDirY = js_or (dirY hazard) 0;
                        alignment = dirToPickupX * hazardDirX + dirToPickupY * hazardDirY
                    in (trendScore + alignment, threatCount + 1))
                 else acc)
            (0, 0 :: nat) (hazards gameState) of
        (trendScore, threatCount) \<Rightarrow>
          if 0 < threatCount then - trendScore / jn threatCount else 0)"

definition evaluatePickupTiming :: "GameState \<Rightarrow> Pickup \<Rightarrow> jsnum \<Rightarrow> jsnum" where
  "evaluatePickupTiming gameState pickup globalThreatLevel =
     (if 0.8 < globalThreatLevel then 0.4
      else if 0.6 < globalThreatLevel then 0.7
      else if globalThreatLevel < 0.3 then 1.2
      else
        let p = player gameState;
            centerX = width gameState / 2;
            centerY = height gameState / 2;
            playerDistToCenter = Math_hypot (p_x p - centerX) (p_y p - centerY);
            pickupDistToCenter = Math_hypot (k_x pickup - centerX) (k_y pickup - centerY)
        in if playerDistToCenter < 150 \<and> 200 < pickupDistToCenter then 0.6
           else
             let threatTrend = analyzeThreatTrend gameState pickup
             in Math_max 0.3 (Math_min 1.5 (1.0 + threatTrend)))"

text \<open>\<^verbatim>\<open>analyzePickupCompetition(gameState, pickup)\<close>.\<close>

definition analyzePickupCompetition :: "GameState \<Rightarrow> Pickup \<Rightarrow> jsnum" where
  "analyzePickupCompetition gameState pickup =
     foldl (\<lambda>competitionFactor hazard.
              let hazardToPickup = Math_hypot (k_x pickup - h_x hazard) (k_y pickup - h_y hazard)
              in if hazardToPickup < 200 then
                   (let dirToPickupX = (k_x pickup - h_x hazard) / hazardToPickup;
                        dirToPickupY = (k_y pickup - h_y hazard) / hazardToPickup;
                        hazardDirX = js_or (dirX hazard) 0;
                        hazardDirY = js_or (dirY hazard) 0;
                        alignment = dirToPickupX * hazardDirX + dirToPickupY * hazardDirY
                    in if 0.5 < alignment then competitionFactor * 0.7 else competitionFactor)
                 else competitionFactor)
       1.0 (hazards gameState)"

text \<open>
  \<^verbatim>\<open>calculateEscapeRoutesFromPosition(gameState, position)\<close>,
  \<^verbatim>\<open>findNearbyPickups(gameState, centerPickup, radius)\<close> and
  \<^verbatim>\<open>calculateStrategicValue(gameState, pickup, currentHealth)\<close>.  The test
  \<^verbatim>\<open>pickup === centerPickup\<close> compares object identities: a pickup is identified
  by its index in \<^verbatim>\<open>gameState.pickups\<close>.
\<close>

definition calculateEscapeRoutesFromPosition :: "GameState \<Rightarrow> jsnum \<times> jsnum \<Rightarrow> nat" where
  "calculateEscapeRoutesFromPosition gameState pos =
     length (filter (\<lambda>d.
         case d of (dx, dy) \<Rightarrow>
         let checkX = fst pos + dx * 100;
             checkY = snd pos + dy * 100
         in if checkX < 50 \<or> width gameState - 50 < checkX \<or>
               checkY < 50 \<or> height gameState - 50 < checkY then False
            else list_all (\<lambda>hazard. \<not> Math_hypot (checkX - h_x hazard) (checkY - h_y hazard)
                                         < h_r hazard + 80)
                   (hazards gameState))
       [(1, 0), (- 1, 0), (0, 1), (0, - 1),
        (0.707, 0.707), (- 0.707, 0.707), (0.707, - 0.707), (- 0.707, - 0.707)])"

definition findNearbyPickups :: "GameState \<Rightarrow> nat \<Rightarrow> jsnum \<Rightarrow> Pickup list" where
  "findNearbyPickups gameState centerIndex radius =
     (let centerPickup = pickups gameState ! centerIndex
      in map (\<lambda>j. pickups gameState ! j)
           (filter (\<lambda>j.
                if j = centerIndex then False
                else
                  let pickup = pickups gameState ! j;
                      distance = Math_hypot (k_x pickup - k_x centerPickup) (k_y pickup - k_y centerPickup)
                  in distance \<le> radius)
              [0..<length (pickups gameState)]))"

definition calculateStrategicValue :: "GameState \<Rightarrow> nat \<Rightarrow> jsnum \<Rightarrow> jsnum" where
  "calculateStrategicValue gameState pickupIndex currentHealth =
     (let pickup = pickups gameState ! pickupIndex;
          centerX = width gameState / 2;
          centerY = height gameState / 2;
          pickupDistToCenter = Math_hypot (k_x pickup - centerX) (k_y pickup - centerY);
          maxDistToCenter = Math_hypot (width gameState / 2) (height gameState / 2);
          centerRatio = pickupDistToCenter / maxDistToCenter;
          strategicValue1 = 1.0 * (1.2 - centerRatio * 0.4);
          escapeRoutes = calculateEscapeRoutesFromPosition gameState (k_x pickup, k_y pickup);
          strategicValue2 = strategicValue1 * (0.8 + jn escapeRoutes * 0.1);
          nearbyPickups = findNearbyPickups gameState pickupIndex 150
      in if 0 < length nearbyPickups then strategicValue2 * 1.3 else strategicValue2)"

text \<open>\<^verbatim>\<open>determinePickupStrategy\<close>, \<^verbatim>\<open>shouldPursuePickup\<close>,
  \<^verbatim>\<open>calculateEstimatedReachTime\<close> and \<^verbatim>\<open>calculatePickupUrgency\<close>.  A pickup
  that may be \<^verbatim>\<open>null\<close> is an option.\<close>

definition determinePickupStrategy :: "Pickup \<Rightarrow> jsnum \<Rightarrow> PathSafety \<Rightarrow> jsnum \<Rightarrow> string" where
  "determinePickupStrategy pickup currentHealth pathSafety globalThreatLevel =
     (if currentHealth \<le> 0.3 \<and> k_type pickup = ''health'' then ''emergency_health''
      else if 0.8 < ps_safetyScore pathSafety \<and> globalThreatLevel < 0.4 then ''safe_opportunity''
      else if 0 < length (ps_criticalThreats pathSafety) then ''risky_dash''
      else if k_type pickup = ''shield'' \<and> 0.6 < currentHealth then ''defensive_preparation''
      else ''calculated_risk'')"

definition shouldPursuePickup :: "Pickup option \<Rightarrow> jsnum \<Rightarrow> jsnum \<Rightarrow> jsnum \<Rightarrow> jsnum \<Rightarrow> bool" where
  "shouldPursuePickup bestPickup score currentHealth globalThreatLevel threatDensity =
     (case bestPickup of
        None \<Rightarrow> False
      | Some pickup \<Rightarrow>
          if currentHealth \<le> 0.33 \<and> (k_type pickup = ''health'' \<or> k_type pickup = ''heart'') \<and>
             0.2 < score then True
          else if currentHealth \<le> 0.6 \<and> (k_type pickup = ''health'' \<or> k_type pickup = ''heart'') \<and>
             0.3 < score then True
          else if 0.7 < globalThreatLevel then
             1.0 < score \<and> (k_type pickup = ''health'' \<or> k_type pickup = ''heart'' \<or>
                              k_type pickup = ''shield'')
          else if 0.4 < globalThreatLevel then 0.6 < score
          else if globalThreatLevel < 0.3 then 0.3 < score
          else 0.5 < score)"

definition calculateEstimatedReachTime :: "GameState \<Rightarrow> Pickup option \<Rightarrow> jsnum" where
  "calculateEstimatedReachTime gameState bestPickup =
     (case bestPickup of
        None \<Rightarrow> 0
      | Some pickup \<Rightarrow>
          let p = player gameState;
              distance = Math_hypot (k_x pickup - p_x p) (k_y pickup - p_y p);
              playerSpeed = js_or (p_speed p) 1
          in distance / (playerSpeed * 60))"

definition calculatePickupUrgency :: "Pickup option \<Rightarrow> jsnum \<Rightarrow> jsnum \<Rightarrow> jsnum \<Rightarrow> jsnum" where
  "calculatePickupUrgency bestPickup currentHealth score globalThreatLevel =
     (case bestPickup of
        None \<Rightarrow> 0
      | Some pickup \<Rightarrow>
          let urgency0 =
                (if k_type pickup = ''health'' then
                   (if currentHealth \<le> 0.2 then 1.0
                    else if currentHealth \<le> 0.4 then 0.8
                    else if currentHealth \<le> 0.6 then 0.5
                    else 0.2)
                 else Math_min 0.7 (score * 0.8));
              urgency = urgency0 * (1 - globalThreatLevel * 0.3)
          in Math_max 0 (Math_min 1 urgency))"

text \<open>
  \<^verbatim>\<open>analyzePickupOpportunity(gameState)\<close>.  The fields of the object returned
  carry the prefix \<open>pa_\<close>.
\<close>

record PickupAnalysis =
  pa_shouldPursue :: bool
  pa_bestPickup :: "Pickup option"
  pa_safePath :: bool
  pa_urgency :: jsnum
  pa_estimatedTime :: jsnum
  pa_strategyType :: string
  pa_riskLevel :: jsnum

definition pickup_opportunity_step ::
  "GameState \<Rightarrow> jsnum \<Rightarrow> jsnum \<Rightarrow> Pickup option \<times> jsnum \<times> string \<times> jsnum \<Rightarrow> nat
     \<Rightarrow> Pickup option \<times> jsnum \<times> string \<times> jsnum" where
  "pickup_opportunity_step gameState currentHealth globalThreatLevel acc i =
     (case acc of (bestPickup, bestScore, bestStrategy, bestRiskLevel) \<Rightarrow>
      let p = player gameState;
          pickup = pickups gameState ! i;
          distance = Math_hypot (k_x pickup - p_x p) (k_y pickup - p_y p);
          score0 = calculateDistanceScore distance;
          typeMultiplier = calculatePickupTypeValue pickup currentHealth gameState;
          score1 = score0 * typeMultiplier;
          pathSafety = evaluateAdvancedPathSafety gameState pickup;
          score2 = score1 * ps_safetyScore pathSafety;
          timingScore = evaluatePickupTiming gameState pickup globalThreatLevel;
          score3 = score2 * timingScore;
          competitionFactor = analyzePickupCompetition gameState pickup;
          score4 = score3 * competitionFactor;
          strategicValue = calculateStrategicValue gameState i currentHealth;
          score = score4 * strategicValue
      in if bestScore < score
         then (Some pickup, score,
               determinePickupStrategy pickup currentHealth pathSafety globalThreatLevel,
               1 - ps_safetyScore pathSafety)
         else acc)"

definition analyzePickupOpportunity :: "GameState \<Rightarrow> PickupAnalysis" where
  "analyzePickupOpportunity gameState =
     (let currentHealth = lives gameState / maxLives gameState;
          globalThreatLevel = calculateGlobalThreatLevel gameState;
          threatDensity = calculateThreatDensity gameState
      in case foldl (pickup_opportunity_step gameState currentHealth globalThreatLevel)
                (None, 0, ''none'', 0) [0..<length (pickups gameState)] of
           (bestPickup, bestScore, bestStrategy, bestRiskLevel) \<Rightarrow>
             \<lparr>pa_shouldPursue =
                shouldPursuePickup bestPickup bestScore currentHealth globalThreatLevel threatDensity,
              pa_bestPickup = bestPickup,
              pa_safePath =
                (case bestPickup of
                   Some pickup \<Rightarrow> 0.6 < ps_safetyScore (evaluateAdvancedPathSafety gameState pickup)
                 | None \<Rightarrow> False),
              pa_urgency = calculatePickupUrgency bestPickup currentHealth bestScore globalThreatLevel,
              pa_estimatedTime = calculateEstimatedReachTime gameState bestPickup,
              pa_strategyType = bestStrategy,
              pa_riskLevel = bestRiskLevel\<rparr>)"

text \<open>
  \<^verbatim>\<open>calculatePathRisk(gameState, start, dirX, dirY, distance)\<close> and
  \<^verbatim>\<open>isPositionSafe(gameState, x, y)\<close>.
\<close>

definition calculatePathRisk :: "GameState \<Rightarrow> jsnum \<times> jsnum \<Rightarrow> jsnum \<Rightarrow> jsnum \<Rightarrow> jsnum \<Rightarrow> jsnum" where
  "calculatePathRisk gameState start dirX' dirY' distance =
     (let steps = 10;
          totalRisk =
            foldl (\<lambda>totalRisk i.
                     let stepDist = (distance * jn i) / steps;
                         checkX = fst start + dirX' * stepDist;
                         checkY = snd start + dirY' * stepDist;
                         stepRisk =
                           foldl (\<lambda>stepRisk hazard.
                                    let hazardDist = Math_hypot (checkX - h_x hazard) (checkY - h_y hazard);
                                        riskRadius = h_r hazard + 100
                                    in if hazardDist < riskRadius
                                       then Math_max stepRisk (1 - hazardDist / riskRadius)
                                       else stepRisk)
                             0 (hazards gameState)
                     in totalRisk + stepRisk)
              0 [1..<11]
      in totalRisk / steps)"

definition isPositionSafe :: "GameState \<Rightarrow> jsnum \<Rightarrow> jsnum \<Rightarrow> bool" where
  "isPositionSafe gameState x y =
     (if x < 50 \<or> width gameState - 50 < x \<or> y < 50 \<or> height gameState - 50 < y then False
      else list_all (\<lambda>hazard. \<not> Math_hypot (x - h_x hazard) (y - h_y hazard)
                                   < h_r hazard + p_r (player gameState) + 70)
             (hazards gameState))"

text \<open>\<^verbatim>\<open>getEmergencyPickupAction\<close>.  The parameter \<^verbatim>\<open>pickup\<close> is not read.\<close>

definition getEmergencyPickupAction :: "GameState \<Rightarrow> Pickup \<Rightarrow> jsnum \<Rightarrow> jsnum \<Rightarrow> int" where
  "getEmergencyPickupAction gameState pickup dirX' dirY' =
     (let p = player gameState;
          adjusted =
            foldl (\<lambda>adjusted hazard.
                     let hazardDistance = Math_hypot (h_x hazard - p_x p) (h_y hazard - p_y p)
                     in if hazardDistance < 120 then
                          (let avoidX = p_x p - h_x hazard;
                               avoidY = p_y p - h_y hazard;
                               avoidDist = Math_hypot avoidX avoidY
                           in if 0 < avoidDist then
                                (let avoidNormX = avoidX / avoidDist;
                                     avoidNormY = avoidY / avoidDist
                                 in (dirX' * 0.7 + avoidNormX * 0.3, dirY' * 0.7 + avoidNormY * 0.3))
                              else adjusted)
                        else adjusted)
              (dirX', dirY') (hazards gameState)
      in getActionForDirection (fst adjusted) (snd adjusted))"

text \<open>
  \<^verbatim>\<open>findAlternativePickupPaths\<close> and \<^verbatim>\<open>getSafePickupAction\<close>.  The loop
  \<^verbatim>\<open>for (angle = 0; angle < Math.PI * 2; angle += Math.PI / 4)\<close> visits, in exact
  arithmetic, the eight angles \<open>k\<pi>/4\<close>.  A path is the triple of its
  \<^verbatim>\<open>dirX\<close>, \<^verbatim>\<open>dirY\<close> and \<^verbatim>\<open>safety\<close>.
\<close>

definition findAlternativePickupPaths :: "GameState \<Rightarrow> Pickup \<Rightarrow> (jsnum \<times> jsnum \<times> jsnum) list" where
  "findAlternativePickupPaths gameState pickup =
     (let p = player gameState;
          paths =
            foldl (\<lambda>paths k.
                     let angle = jn k * (Math_PI / 4);
                         approachX = k_x pickup + Math_cos angle * 60;
                         approachY = k_y pickup + Math_sin angle * 60
                     in if approachX < 50 \<or> width gameState - 50 < approachX \<or>
                           approachY < 50 \<or> height gameState - 50 < approachY then paths
                        else
                          let dx = approachX - p_x p;
                              dy = approachY - p_y p;
                              distance = Math_hypot dx dy
                          in if 0 < distance then
                               (let normalizedDirX = dx / distance;
                                    normalizedDirY = dy / distance;
                                    safety = 1 - calculatePathRisk gameState (p_x p, p_y p)
                                                   normalizedDirX normalizedDirY distance
                                in paths @ [(normalizedDirX, normalizedDirY, safety)])
                             else paths)
              [] [0..<8]
      in sort_descending (\<lambda>path. snd (snd path)) paths)"

definition getSafePickupAction :: "GameState \<Rightarrow> Pickup \<Rightarrow> jsnum \<Rightarrow> jsnum \<Rightarrow> int" where
  "getSafePickupAction gameState pickup dirX' dirY' =
     (case findAlternativePickupPaths gameState pickup of
        first # rest \<Rightarrow>
          let bestPath = foldl (\<lambda>best path. if snd (snd best) < snd (snd path) then path else best)
                           first rest
          in getActionForDirection (fst bestPath) (fst (snd bestPath))
      | [] \<Rightarrow> getActionForDirection dirX' dirY')"

text \<open>
  \<^verbatim>\<open>findSafeCorridor(gameState, start, end)\<close> and \<^verbatim>\<open>getRiskyDashAction\<close>.  The
  loop over \<^verbatim>\<open>angle\<close> visits \<open>-\<pi>/4 + k\<pi>/8\<close> for \<open>k\<close> from 0 to 4.
\<close>

definition findSafeCorridor ::
  "GameState \<Rightarrow> jsnum \<times> jsnum \<Rightarrow> jsnum \<times> jsnum \<Rightarrow> (jsnum \<times> jsnum) option" where
  "findSafeCorridor gameState start end' =
     (let corridorWidth = 80;
          directX = fst end' - fst start;
          directY = snd end' - snd start;
          directDist = Math_hypot directX directY
      in if directDist = 0 then None
         else
           let normalizedX = directX / directDist;
               normalizedY = directY / directDist;
               perpX = - normalizedY;
               perpY = normalizedX;
               checkPoints = 5;
               hasWideCorridor =
                 list_all (\<lambda>i.
                     let checkRatio = jn i / checkPoints;
                         checkX = fst start + directX * checkRatio;
                         checkY = snd start + directY * checkRatio;
                         leftX = checkX + perpX * corridorWidth / 2;
                         leftY = checkY + perpY * corridorWidth / 2;
                         rightX = checkX - perpX * corridorWidth / 2;
                         rightY = checkY - perpY * corridorWidth / 2;
                         leftClear = list_all (\<lambda>hazard. \<not> Math_hypot (leftX - h_x hazard) (leftY - h_y hazard)
                                                              < h_r hazard + 30) (hazards gameState);
                         rightClear = list_all (\<lambda>hazard. \<not> Math_hypot (rightX - h_x hazard) (rightY - h_y hazard)
                                                               < h_r hazard + 30) (hazards gameState)
                     in \<not> (\<not> leftClear \<or> \<not> rightClear))
                   [1..<5]
           in if hasWideCorridor then Some (normalizedX, normalizedY) else None)"

definition getRiskyDashAction ::
  "GameState \<Rightarrow> Pickup \<Rightarrow> jsnum \<Rightarrow> jsnum \<Rightarrow> ThreatAnalysis \<Rightarrow> int" where
  "getRiskyDashAction gameState pickup dirX' dirY' threatAnalysis =
     (let p = player gameState
      in case findSafeCorridor gameState (p_x p, p_y p) (k_x pickup, k_y pickup) of
           Some safeCorridor \<Rightarrow> getActionForDirection (fst safeCorridor) (snd safeCorridor)
         | None \<Rightarrow>
             let best =
                   foldl (\<lambda>best k.
                            case best of (bestDirX, bestDirY, minRisk) \<Rightarrow>
                            let angle = - Math_PI / 4 + jn k * (Math_PI / 8);
                                testDirX = dirX' * Math_cos angle - dirY' * Math_sin angle;
                                testDirY = dirX' * Math_sin angle + dirY' * Math_cos angle;
                                risk = calculatePathRisk gameState (p_x p, p_y p) testDirX testDirY 100
                            in if risk < minRisk then (testDirX, testDirY, risk) else best)
                     (dirX', dirY', PInf) [0..<5]
             in getActionForDirection (fst best) (fst (snd best)))"

text \<open>
  \<^verbatim>\<open>findSaferApproachPosition\<close> (the angles \<open>k\<pi>/6\<close> for \<open>k\<close> below 12; a
  candidate is the triple of its \<^verbatim>\<open>x\<close>, \<^verbatim>\<open>y\<close> and \<^verbatim>\<open>safety\<close>) and
  \<^verbatim>\<open>getDefensivePickupAction\<close>.
\<close>

definition findSaferApproachPosition :: "GameState \<Rightarrow> Pickup \<Rightarrow> (jsnum \<times> jsnum \<times> jsnum) option" where
  "findSaferApproachPosition gameState pickup =
     (let candidates =
            foldl (\<lambda>candidates k.
                     let angle = jn k * (Math_PI / 6);
                         x = k_x pickup + Math_cos angle * 120;
                         y = k_y pickup + Math_sin angle * 120
                     in if x < 60 \<or> width gameState - 60 < x \<or> y < 60 \<or> height gameState - 60 < y
                        then candidates
                        else
                          let safety =
                                foldl (\<lambda>safety hazard.
                                         let distance = Math_hypot (x - h_x hazard) (y - h_y hazard);
                                             safeDistance = h_r hazard + 80
                                         in if distance < safeDistance
                                            then safety * (distance / safeDistance)
                                            else safety)
                                  1.0 (hazards gameState)
                          in candidates @ [(x, y, safety)])
              [] [0..<12]
      in case candidates of
           [] \<Rightarrow> None
         | first # rest \<Rightarrow>
             let bestCandidate =
                   foldl (\<lambda>best candidate. if snd (snd best) < snd (snd candidate) then candidate else best)
                     first rest
             in if 0.6 < snd (snd bestCandidate) then Some bestCandidate else None)"

definition getDefensivePickupAction :: "GameState \<Rightarrow> Pickup \<Rightarrow> jsnum \<Rightarrow> jsnum \<Rightarrow> int" where
  "getDefensivePickupAction gameState pickup dirX' dirY' =
     (let p = player gameState;
          retreatRoutes = calculateEscapeRoutesFromPosition gameState (k_x pickup, k_y pickup);
          cautious = getActionForDirection (dirX' * 0.8) (dirY' * 0.8)
      in if retreatRoutes < 2 then
           (case findSaferApproachPosition gameState pickup of
              Some saferPosition \<Rightarrow>
                let toSaferX = fst saferPosition - p_x p;
                    toSaferY = fst (snd saferPosition) - p_y p;
                    saferDist = Math_hypot toSaferX toSaferY
                in if 0 < saferDist
                   then getActionForDirection (toSaferX / saferDist) (toSaferY / saferDist)
                   else cautious
            | None \<Rightarrow> cautious)
         else cautious)"

text \<open>\<^verbatim>\<open>findDetourPath\<close> and \<^verbatim>\<open>getCalculatedRiskAction\<close>.\<close>

definition detour_candidate :: "GameState \<Rightarrow> jsnum \<Rightarrow> (jsnum \<times> jsnum) option" where
  "detour_candidate gameState angle =
     (let p = player gameState;
          rotatedX = Math_cos angle;
          rotatedY = Math_sin angle;
          detourX = p_x p + rotatedX * 100;
          detourY = p_y p + rotatedY * 100
      in if isPositionSafe gameState detourX detourY then
           (let dx = detourX - p_x p;
                dy = detourY - p_y p;
                distance = Math_hypot dx dy
            in if 0 < distance then Some (dx / distance, dy / distance) else None)
         else None)"

definition findDetourPath :: "GameState \<Rightarrow> Pickup \<Rightarrow> (jsnum \<times> jsnum) option" where
  "findDetourPath gameState pickup =
     (let detourAngles = [Math_PI / 3, - Math_PI / 3, Math_PI / 2, - Math_PI / 2]
      in case List.map_filter (detour_candidate gameState) detourAngles of
           [] \<Rightarrow> None
         | detourPath # others \<Rightarrow> Some detourPath)"

definition getCalculatedRiskAction ::
  "GameState \<Rightarrow> Pickup \<Rightarrow> jsnum \<Rightarrow> jsnum \<Rightarrow> ThreatAnalysis \<Rightarrow> int" where
  "getCalculatedRiskAction gameState pickup dirX' dirY' threatAnalysis =
     (let p = player gameState;
          pathRisk = calculatePathRisk gameState (p_x p, p_y p) dirX' dirY' 80
      in if 0.7 < pathRisk then
           (case findDetourPath gameState pickup of
              Some detourPath \<Rightarrow> getActionForDirection (fst detourPath) (snd detourPath)
            | None \<Rightarrow> 0)
         else getActionForDirection dirX' dirY')"

text \<open>\<^verbatim>\<open>getSmartPickupAction(gameState, pickupAnalysis, threatAnalysis)\<close>.\<close>

definition getSmartPickupAction :: "GameState \<Rightarrow> PickupAnalysis \<Rightarrow> ThreatAnalysis \<Rightarrow> int" where
  "getSmartPickupAction gameState pickupAnalysis threatAnalysis =
     (case pa_bestPickup pickupAnalysis of
        None \<Rightarrow> 0
      | Some pickup \<Rightarrow>
          let p = player gameState;
              strategy = pa_strategyType pickupAnalysis;
              toPickupX = k_x pickup - p_x p;
              toPickupY = k_y pickup - p_y p;
              distance = Math_hypot toPickupX toPickupY
          in if distance < 25 then 0
             else
               let normalizedX = toPickupX / distance;
                   normalizedY = toPickupY / distance
               in if strategy = ''emergency_health''
                  then getEmergencyPickupAction gameState pickup normalizedX normalizedY
                  else if strategy = ''safe_opportunity''
                  then getSafePickupAction gameState pickup normalizedX normalizedY
                  else if strategy = ''risky_dash''
                  then getRiskyDashAction gameState pickup normalizedX normalizedY threatAnalysis
                  else if strategy = ''defensive_preparation''
                  then getDefensivePickupAction gameState pickup normalizedX normalizedY
                  else getCalculatedRiskAction gameState pickup normalizedX normalizedY threatAnalysis)"

section \<open>Direction safety and the anti-oscillation memory\<close>

text \<open>
  \<^verbatim>\<open>evaluateDirectionSafety(gameState, direction)\<close>: eight simulated steps of 30
  pixels; the loop stops at the first step outside the margins and as soon as the
  safety is below 0.1.
\<close>

definition direction_hazard_step ::
  "GameState \<Rightarrow> jsnum \<Rightarrow> jsnum \<Rightarrow> nat \<Rightarrow> jsnum \<Rightarrow> Hazard \<Rightarrow> jsnum" where
  "direction_hazard_step gameState futureX futureY step safety hazard =
     (let p = player gameState;
          stepTime = jn step * 0.5;
          predicted =
            (if kind hazard = ''tracker'' then
               (let currentPlayerDirectionX = futureX - h_x hazard;
                    currentPlayerDirectionY = futureY - h_y hazard;
                    distance = Math_hypot currentPlayerDirectionX currentPlayerDirectionY
                in if 0 < distance then
                     (h_x hazard + currentPlayerDirectionX / distance * baseSpeed hazard * stepTime,
                      h_y hazard + currentPlayerDirectionY / distance * baseSpeed hazard * stepTime)
                   else (h_x hazard, h_y hazard))
             else (h_x hazard + dirX hazard * baseSpeed hazard * stepTime,
                   h_y hazard + dirY hazard * baseSpeed hazard * stepTime));
          futureDistance = Math_hypot (fst predicted - futureX) (snd predicted - futureY);
          baseMinSafeDistance = h_r hazard + p_r p + 35;
          speedBonus = (if 2.0 < baseSpeed hazard then 15 else 0);
          sizeBonus = (if 0 < h_r hazard - 15 then (h_r hazard - 15) * 1.2 else 0);
          minSafeDistance = baseMinSafeDistance + speedBonus + sizeBonus
      in if futureDistance < minSafeDistance then
           (let dangerLevel = (minSafeDistance - futureDistance) / minSafeDistance;
                riskMultiplier0 = (if kind hazard = ''tracker'' then 1.5 else 1.0);
                riskMultiplier = (if 2.5 < baseSpeed hazard then riskMultiplier0 * 1.3 else riskMultiplier0);
                timeWeight = Math_max 0.5 (1.0 - (jn step - 1) * 0.1);
                finalRisk = dangerLevel * riskMultiplier * timeWeight
            in safety * Math_max 0.05 (1 - finalRisk * 0.8))
         else if futureDistance < minSafeDistance * 2.0 then
           (let riskLevel = (minSafeDistance * 2.0 - futureDistance) / minSafeDistance
            in safety * Math_max 0.4 (1 - riskLevel * 0.3))
         else safety)"

fun direction_safety_loop :: "GameState \<Rightarrow> jsnum \<times> jsnum \<Rightarrow> jsnum \<Rightarrow> nat list \<Rightarrow> jsnum" where
  "direction_safety_loop gameState direction safety [] = safety"
| "direction_safety_loop gameState direction safety (step # steps) =
     (let p = player gameState;
          moveDistance = 30;
          futureX = p_x p + fst direction * moveDistance * jn step;
          futureY = p_y p + snd direction * moveDistance * jn step
      in if futureX < 60 \<or> width gameState - 60 < futureX \<or>
            futureY < 60 \<or> height gameState - 60 < futureY then safety * 0.3
         else
           let safety' = foldl (direction_hazard_step gameState futureX futureY step) safety
                           (hazards gameState)
           in if safety' < 0.1 then safety'
              else direction_safety_loop gameState direction safety' steps)"

definition evaluateDirectionSafety :: "GameState \<Rightarrow> jsnum \<times> jsnum \<Rightarrow> jsnum" where
  "evaluateDirectionSafety gameState direction =
     Math_max 0.01 (direction_safety_loop gameState direction 1.0 [1..<9])"

text \<open>
  \<^verbatim>\<open>updatePositionMemory(x, y, time)\<close>: the new list \<^verbatim>\<open>recentPositions\<close>.
  \<^verbatim>\<open>xs.slice(-n)\<close> keeps the last \<open>n\<close> elements.
\<close>

definition maxMemorySize :: nat where
  "maxMemorySize = 10"

definition slice_last :: "nat \<Rightarrow> 'a list \<Rightarrow> 'a list" where
  "slice_last n xs = drop (length xs - n) xs"

definition updatePositionMemory ::
  "(jsnum \<times> jsnum \<times> int) list \<Rightarrow> jsnum \<Rightarrow> jsnum \<Rightarrow> int \<Rightarrow> (jsnum \<times> jsnum \<times> int) list" where
  "updatePositionMemory memory x y time =
     (let pushed = memory @ [(x, y, time)];
          cutoffTime = time - 3000;
          kept = filter (\<lambda>pos. cutoffTime < snd (snd pos)) pushed
      in if maxMemorySize < length kept then slice_last maxMemorySize kept else kept)"

text \<open>
  \<^verbatim>\<open>isOscillatingMovement(actionVec, currentTime)\<close> reads only
  \<^verbatim>\<open>recentPositions\<close>.
\<close>

definition isOscillatingMovement :: "(jsnum \<times> jsnum \<times> int) list \<Rightarrow> bool" where
  "isOscillatingMovement memory =
     (if length memory < 4 then False
      else
        let recent = slice_last 6 memory;
            threshold = 30;
            oscillationCount =
              length (filter (\<lambda>i.
                  let prev = recent ! (i - 1);
                      curr = recent ! i;
                      next = recent ! (i + 1);
                      dist1 = Math_hypot (fst curr - fst prev) (fst (snd curr) - fst (snd prev));
                      dist2 = Math_hypot (fst next - fst curr) (fst (snd next) - fst (snd curr));
                      totalDist = Math_hypot (fst next - fst prev) (fst (snd next) - fst (snd prev))
                  in threshold < dist1 \<and> threshold < dist2 \<and> totalDist < threshold * 0.5)
                [1..<length recent - 1])
        in 2 \<le> oscillationCount)"

text \<open>
  \<^verbatim>\<open>findAlternativeActions(gameState, originalAction)\<close>: the three safest
  actions among 1 to 8 other than the original one.
\<close>

definition findAlternativeActions :: "GameState \<Rightarrow> int \<Rightarrow> int list" where
  "findAlternativeActions gameState originalAction =
     (let alternatives =
            map (\<lambda>a. (int a, evaluateDirectionSafety gameState (actionMap ! a)))
              (filter (\<lambda>a. int a \<noteq> originalAction) [1..<9])
      in map fst (take 3 (sort_descending snd alternatives)))"

text \<open>
  \<^verbatim>\<open>updateBorderAvoidanceMemory(actionVec, time)\<close>: the new list
  \<^verbatim>\<open>borderAvoidanceMemory\<close>; an entry is the triple of its \<^verbatim>\<open>direction\<close>,
  \<^verbatim>\<open>penalty\<close> and \<^verbatim>\<open>time\<close>, and the direction is \<^verbatim>\<open>undefined\<close> for an action
  outside the table.
\<close>

definition updateBorderAvoidanceMemory ::
  "((jsnum \<times> jsnum) option \<times> jsnum \<times> int) list \<Rightarrow> (jsnum \<times> jsnum) option \<Rightarrow> int
     \<Rightarrow> ((jsnum \<times> jsnum) option \<times> jsnum \<times> int) list" where
  "updateBorderAvoidanceMemory memory actionVec time =
     (let pushed = memory @ [(actionVec, 0.5, time)];
          cutoffTime = time - 5000;
          kept = filter (\<lambda>mem. cutoffTime < snd (snd mem)) pushed
      in if maxMemorySize < length kept then slice_last maxMemorySize kept else kept)"

text \<open>
  \<^verbatim>\<open>applyAntiOscillationMemory(gameState, action)\<close> returns the action and leaves
  the two memories updated.  \<open>currentTime\<close> is the value of \<^verbatim>\<open>Date.now()\<close>.  The table
  \<^verbatim>\<open>actionVecs\<close> of this method and of \<^verbatim>\<open>findAlternativeActions\<close> has unit
  entries.
\<close>

definition applyAntiOscillationMemory :: "int \<Rightarrow> DodgerAI \<Rightarrow> GameState \<Rightarrow> int \<Rightarrow> int \<times> DodgerAI" where
  "applyAntiOscillationMemory currentTime ai gameState action =
     (let p = player gameState;
          ai1 = ai\<lparr>recentPositions := updatePositionMemory (recentPositions ai) (p_x p) (p_y p) currentTime\<rparr>;
          nearBoundary = (p_x p < 150 \<or> width gameState - 150 < p_x p \<or>
                          p_y p < 150 \<or> height gameState - 150 < p_y p)
      in if \<not> nearBoundary then (action, ai1)
         else
           let currentActionVec = js_at actionMap action;
               alternatives = (if isOscillatingMovement (recentPositions ai1)
                               then findAlternativeActions gameState action else [])
           in case alternatives of
                first # rest \<Rightarrow> (first, ai1)
              | [] \<Rightarrow>
                  (action,
                   ai1\<lparr>borderAvoidanceMemory :=
                          updateBorderAvoidanceMemory (borderAvoidanceMemory ai1) currentActionVec
                            currentTime\<rparr>))"

section \<open>The heuristic bias\<close>

text \<open>
  \<^verbatim>\<open>calculateBoundaryPressureEnhanced(gameState, centerBias)\<close>.  The fields of the
  object returned carry the prefix \<open>bp_\<close>, those of its \<^verbatim>\<open>centerAttraction\<close> the
  prefix \<open>bp_center_\<close>.
\<close>

record BoundaryPressure =
  bp_x :: jsnum
  bp_y :: jsnum
  bp_intensity :: jsnum
  bp_center_x :: jsnum
  bp_center_y :: jsnum
  bp_center_strength :: jsnum

definition calculateBoundaryPressureEnhanced :: "GameState \<Rightarrow> jsnum \<Rightarrow> BoundaryPressure" where
  "calculateBoundaryPressureEnhanced gameState centerBias =
     (let p = player gameState;
          w = width gameState;
          h = height gameState;
          comfortZone = 200;
          safeMargin = 150;
          leftDist = p_x p;
          rightDist = w - p_x p;
          topDist = p_y p;
          bottomDist = h - p_y p;
          minEdgeDistance = Math_min (Math_min (Math_min leftDist rightDist) topDist) bottomDist;
          horizontal =
            (if leftDist < comfortZone then
               (let intensity = Math_pow ((comfortZone - leftDist) / comfortZone) 1.5
                in (intensity * (1 + centerBias * 0.5), Math_max 0 intensity))
             else if rightDist < comfortZone then
               (let intensity = Math_pow ((comfortZone - rightDist) / comfortZone) 1.5
                in (- intensity * (1 + centerBias * 0.5), Math_max 0 intensity))
             else (0, 0));
          pressureX = fst horizontal;
          maxIntensity1 = snd horizontal;
          vertical =
            (if topDist < comfortZone then
               (let intensity = Math_pow ((comfortZone - topDist) / comfortZone) 1.5
                in (intensity * (1 + centerBias * 0.5), Math_max maxIntensity1 intensity))
             else if bottomDist < comfortZone then
               (let intensity = Math_pow ((comfortZone - bottomDist) / comfortZone) 1.5
                in (- intensity * (1 + centerBias * 0.5), Math_max maxIntensity1 intensity))
             else (0, maxIntensity1));
          pressureY = fst vertical;
          maxIntensity = snd vertical;
          centerX = w / 2;
          centerY = h / 2;
          distanceToCenter = Math_hypot (p_x p - centerX) (p_y p - centerY);
          maxRadius = Math_min w h * 0.3;
          attraction1 =
            (if maxRadius < distanceToCenter then
               (let strength = Math_pow (Math_min 1.0 ((distanceToCenter - maxRadius) / maxRadius)) 1.2
                in if 0 < distanceToCenter
                   then (strength, (centerX - p_x p) / distanceToCenter, (centerY - p_y p) / distanceToCenter)
                   else (strength, 0, 0))
             else (0, 0, 0));
          attraction2 =
            (if minEdgeDistance < safeMargin then
               (let strength = Math_max (fst attraction1) 0.8
                in if 0 < distanceToCenter
                   then (strength, (centerX - p_x p) / distanceToCenter, (centerY - p_y p) / distanceToCenter)
                   else (strength, snd attraction1))
             else attraction1)
      in \<lparr>bp_x = pressureX, bp_y = pressureY, bp_intensity = maxIntensity,
          bp_center_x = fst (snd attraction2), bp_center_y = snd (snd attraction2),
          bp_center_strength = fst attraction2\<rparr>)"

text \<open>\<^verbatim>\<open>isForceTowardBoundary(gameState, direction)\<close>.\<close>

definition alternative_danger :: "GameState \<Rightarrow> jsnum \<times> jsnum \<Rightarrow> jsnum" where
  "alternative_danger gameState altDir =
     foldl (\<lambda>dangerLevel hazard.
              let p = player gameState;
                  checkX = p_x p + fst altDir * 80;
                  checkY = p_y p + snd altDir * 80;
                  distanceToCheck = Math_hypot (h_x hazard - checkX) (h_y hazard - checkY);
                  safeDistance = h_r hazard + p_r p + 50
              in if distanceToCheck < safeDistance
                 then dangerLevel + (safeDistance - distanceToCheck) / safeDistance
                 else dangerLevel)
       0 (hazards gameState)"

definition alternative_step ::
  "GameState \<Rightarrow> jsnum \<times> jsnum \<Rightarrow> nat \<times> nat \<Rightarrow> jsnum \<times> jsnum \<Rightarrow> nat \<times> nat" where
  "alternative_step gameState direction acc altDir =
     (case acc of (safeAlternatives, moderatelySafeAlternatives) \<Rightarrow>
      let p = player gameState
      in if Math_abs (fst altDir - fst direction) < 0.1 \<and> Math_abs (snd altDir - snd direction) < 0.1
         then acc
         else
           let altFutureX = p_x p + fst altDir * 100;
               altFutureY = p_y p + snd altDir * 100;
               altTowardBoundary = (altFutureX < 100 \<or> width gameState - 100 < altFutureX \<or>
                                    altFutureY < 100 \<or> height gameState - 100 < altFutureY)
           in if altTowardBoundary then acc
              else
                let dangerLevel = alternative_danger gameState altDir
                in if dangerLevel = 0 then (safeAlternatives + 1, moderatelySafeAlternatives)
                   else if dangerLevel < 0.5 then (safeAlternatives, moderatelySafeAlternatives + 1)
                   else acc)"

definition isForceTowardBoundary :: "GameState \<Rightarrow> jsnum \<times> jsnum \<Rightarrow> bool" where
  "isForceTowardBoundary gameState direction =
     (let p = player gameState;
          w = width gameState;
          h = height gameState;
          futureX = p_x p + fst direction * 100;
          futureY = p_y p + snd direction * 100;
          isTowardBoundary = (futureX < 100 \<or> w - 100 < futureX \<or> futureY < 100 \<or> h - 100 < futureY)
      in if \<not> isTowardBoundary then False
         else
           let currentNearBoundary = (p_x p < 120 \<or> w - 120 < p_x p \<or> p_y p < 120 \<or> h - 120 < p_y p)
           in if currentNearBoundary then
                (case foldl (\<lambda>acc hazard.
                         case acc of (immediateDangerCount, totalThreatWeight) \<Rightarrow>
                         let distance = Math_hypot (h_x hazard - p_x p) (h_y hazard - p_y p);
                             criticalDistance = h_r hazard + p_r p + 40
                         in if distance < criticalDistance
                            then (immediateDangerCount + 1,
                                  totalThreatWeight + (criticalDistance - distance) / criticalDistance)
                            else acc)
                       (0 :: nat, 0) (hazards gameState) of
                   (immediateDangerCount, totalThreatWeight) \<Rightarrow>
                     2 \<le> immediateDangerCount \<and> 1.5 < totalThreatWeight)
              else
                (case foldl (alternative_step gameState direction) (0, 0) directions of
                   (safeAlternatives, moderatelySafeAlternatives) \<Rightarrow>
                     safeAlternatives = 0 \<and> moderatelySafeAlternatives \<le> 1))"

text \<open>
  \<^verbatim>\<open>calculateEscapeRoutes(gameState, threatX, threatY, boundaryPressure)\<close>: a
  route is the pair of its \<^verbatim>\<open>direction\<close> and \<^verbatim>\<open>safety\<close>.
\<close>

definition escape_route :: "GameState \<Rightarrow> jsnum \<times> jsnum \<Rightarrow> (jsnum \<times> jsnum) \<times> jsnum" where
  "escape_route gameState dir =
     (let safety = evaluateDirectionSafety gameState dir;
          isTowardBoundary = (\<not> isForceTowardBoundary gameState dir)
      in if \<not> isTowardBoundary then
           (let p = player gameState;
                futureX = p_x p + fst dir * 80;
                futureY = p_y p + snd dir * 80
            in if futureX < 100 \<or> width gameState - 100 < futureX \<or>
                  futureY < 100 \<or> height gameState - 100 < futureY
               then (dir, safety * 0.2)
               else (dir, safety))
         else (dir, safety))"

definition calculateEscapeRoutes ::
  "GameState \<Rightarrow> jsnum \<Rightarrow> jsnum \<Rightarrow> BoundaryPressure \<Rightarrow> ((jsnum \<times> jsnum) \<times> jsnum) list" where
  "calculateEscapeRoutes gameState threatX threatY boundaryPressure =
     (let escapeX = - threatX;
          escapeY = - threatY;
          leftX = - threatY;
          leftY = threatX;
          rightX = threatY;
          rightY = - threatX;
          boundaryEscapeX = bp_x boundaryPressure;
          boundaryEscapeY = bp_y boundaryPressure;
          dirs = [(escapeX, escapeY), (leftX, leftY), (rightX, rightY)]
                 @ (if 0.3 < bp_intensity boundaryPressure
                    then [(boundaryEscapeX, boundaryEscapeY)] else []);
          routes = map (escape_route gameState) dirs
      in sort_descending snd routes)"

text \<open>
  \<^verbatim>\<open>calculateSmartAvoidance(gameState)\<close>.  The fields of the object returned
  carry the prefix \<open>sa_\<close>.
\<close>

record SmartAvoidance =
  sa_mainThreatX :: jsnum
  sa_mainThreatY :: jsnum
  sa_escapeRoutes :: "((jsnum \<times> jsnum) \<times> jsnum) list"
  sa_urgency :: jsnum
  sa_boundaryPressure :: BoundaryPressure

definition smart_avoidance_step ::
  "GameState \<Rightarrow> jsnum \<times> jsnum \<times> jsnum \<times> jsnum \<Rightarrow> Hazard \<Rightarrow> jsnum \<times> jsnum \<times> jsnum \<times> jsnum" where
  "smart_avoidance_step gameState acc hazard =
     (case acc of (mainThreatX, mainThreatY, maxUrgency, totalWeight) \<Rightarrow>
      let p = player gameState;
          distance = Math_hypot (h_x hazard - p_x p) (h_y hazard - p_y p)
      in if 0 < distance \<and> distance < 300 then
           (let futureX = h_x hazard + dirX hazard * baseSpeed hazard * 3;
                futureY = h_y hazard + dirY hazard * baseSpeed hazard * 3;
                futureDistance = Math_hypot (futureX - p_x p) (futureY - p_y p);
                effectiveRadius = h_r hazard + p_r p + 40;
                threatDistance = Math_min distance futureDistance;
                weight0 = Math_exp (- threatDistance / (60 + h_r hazard * 0.5));
                sizeMultiplier = 1 + (h_r hazard - 15) / 30;
                weight1 = weight0 * Math_max 0.5 sizeMultiplier;
                weight2 = (if kind hazard = ''tracker'' then weight1 * 2.5 else weight1);
                weight = (if 2.0 < baseSpeed hazard then weight2 * 1.5 else weight2);
                dx = (h_x hazard - p_x p) / distance;
                dy = (h_y hazard - p_y p) / distance;
                minSafeDistance = effectiveRadius + 20;
                urgency = Math_max 0 ((minSafeDistance - threatDistance) / minSafeDistance)
            in (mainThreatX + dx * weight, mainThreatY + dy * weight,
                Math_max maxUrgency urgency, totalWeight + weight))
         else acc)"

definition calculateSmartAvoidance :: "GameState \<Rightarrow> SmartAvoidance" where
  "calculateSmartAvoidance gameState =
     (case foldl (smart_avoidance_step gameState) (0, 0, 0, 0) (hazards gameState) of
        (mainThreatX0, mainThreatY0, maxUrgency, totalWeight) \<Rightarrow>
          let mainThreatX = (if 0 < totalWeight then mainThreatX0 / totalWeight else mainThreatX0);
              mainThreatY = (if 0 < totalWeight then mainThreatY0 / totalWeight else mainThreatY0);
              boundaryPressure = calculateBoundaryPressureEnhanced gameState 1.0;
              escapeRoutes = calculateEscapeRoutes gameState mainThreatX mainThreatY boundaryPressure
          in \<lparr>sa_mainThreatX = mainThreatX, sa_mainThreatY = mainThreatY,
              sa_escapeRoutes = escapeRoutes, sa_urgency = maxUrgency,
              sa_boundaryPressure = boundaryPressure\<rparr>)"

text \<open>\<^verbatim>\<open>calculateAvoidanceScore(actionVec, avoidanceAnalysis)\<close>.\<close>

definition calculateAvoidanceScore :: "jsnum \<times> jsnum \<Rightarrow> SmartAvoidance \<Rightarrow> jsnum" where
  "calculateAvoidanceScore actionVec avoidanceAnalysis =
     foldl (\<lambda>maxScore route.
              let alignment = fst actionVec * fst (fst route) + snd actionVec * snd (fst route)
              in if 0 < alignment
                 then Math_max maxScore (alignment * snd route * sa_urgency avoidanceAnalysis)
                 else maxScore)
       0 (sa_escapeRoutes avoidanceAnalysis)"

text \<open>\<^verbatim>\<open>calculatePickupSafetyEnhanced(gameState, pickup)\<close>.\<close>

definition calculatePickupSafetyEnhanced :: "GameState \<Rightarrow> Pickup \<Rightarrow> jsnum" where
  "calculatePickupSafetyEnhanced gameState pickup =
     (let p = player gameState;
          isHeartPickup = (k_type pickup = ''heart'');
          safetyMultiplier = (if isHeartPickup then 0.75 else 1.0);
          safety1 =
            foldl (\<lambda>safety hazard.
                     let distance = Math_hypot (h_x hazard - k_x pickup) (h_y hazard - k_y pickup);
                         threatRadius = (h_r hazard + (if isHeartPickup then 60 else 70)) * safetyMultiplier
                     in if distance < threatRadius then
                          (let timeToReach = distance / Math_max (baseSpeed hazard) 0.1;
                               playerTimeToReach = Math_hypot (p_x p - k_x pickup) (p_y p - k_y pickup) / 3.0;
                               timeThreshold = (if isHeartPickup then 1.2 else 1.5)
                           in if timeToReach < playerTimeToReach * timeThreshold then
                                (let threat = 1 - distance / threatRadius;
                                     threatPenalty = (if isHeartPickup then 0.7 else 0.9)
                                 in safety * (1 - threat * threatPenalty))
                              else safety)
                        else safety)
              1.0 (hazards gameState);
          pathSteps = 8;
          dx = (k_x pickup - p_x p) / pathSteps;
          dy = (k_y pickup - p_y p) / pathSteps;
          safety2 =
            foldl (\<lambda>safety step.
                     let checkX = p_x p + dx * jn step;
                         checkY = p_y p + dy * jn step
                     in foldl (\<lambda>safety hazard.
                                 let futureHazardX = h_x hazard + dirX hazard * baseSpeed hazard * jn step * 0.3;
                                     futureHazardY = h_y hazard + dirY hazard * baseSpeed hazard * jn step * 0.3;
                                     distance = Math_hypot (futureHazardX - checkX) (futureHazardY - checkY);
                                     baseSafeDistance = h_r hazard + p_r p + 40;
                                     minSafeDistance = baseSafeDistance * (if isHeartPickup then 0.8 else 1.0)
                                 in if distance < minSafeDistance
                                    then safety * (if isHeartPickup then 0.6 else 0.4)
                                    else if distance < minSafeDistance * 1.8
                                    then safety * (if isHeartPickup then 0.85 else 0.7)
                                    else safety)
                          safety (hazards gameState))
              safety1 [1..<9];
          minSafety = (if isHeartPickup then 0.08 else 0.05)
      in Math_max minSafety safety2)"

text \<open>
  \<^verbatim>\<open>calculatePickupStrategy(gameState, isLowHealth, isCriticalHealth)\<close>.  The
  fields of the object returned carry the prefix \<open>pk_\<close>.
\<close>

record PickupStrategy =
  pk_shouldSeek :: bool
  pk_directionX :: jsnum
  pk_directionY :: jsnum
  pk_urgency :: jsnum

definition pickup_strategy_step ::
  "GameState \<Rightarrow> bool \<Rightarrow> bool \<Rightarrow> Pickup option \<times> jsnum \<Rightarrow> Pickup \<Rightarrow> Pickup option \<times> jsnum" where
  "pickup_strategy_step gameState isLowHealth isCriticalHealth acc pickup =
     (case acc of (bestPickup, bestScore) \<Rightarrow>
      let p = player gameState;
          distance = Math_hypot (k_x pickup - p_x p) (k_y pickup - p_y p);
          safety = calculatePickupSafetyEnhanced gameState pickup;
          urgency = (maxLife pickup - k_life pickup) / maxLife pickup;
          score0 = safety / (1 + distance / 180) + urgency * 1.5;
          score =
            (if k_type pickup = ''heart'' then
               (let score1 = (if isCriticalHealth then score0 * 8.0
                              else if isLowHealth then score0 * 6.0
                              else score0 * 3.0);
                    distanceBonus = Math_max 0 ((200 - distance) / 200);
                    score2 = score1 + distanceBonus * 2.0
                in if 0.7 < urgency then score2 * 2.5 else score2)
             else
               (if isCriticalHealth then score0 * 3.0
                else if isLowHealth then score0 * 2.5
                else score0 * 1.2));
          minSafetyThreshold =
            (if k_type pickup = ''heart''
             then (if isCriticalHealth then 0.08 else if isLowHealth then 0.15 else 0.25)
             else (if isCriticalHealth then 0.15 else if isLowHealth then 0.25 else 0.35))
      in if minSafetyThreshold < safety \<and> bestScore < score then (Some pickup, score) else acc)"

definition calculatePickupStrategy :: "GameState \<Rightarrow> bool \<Rightarrow> bool \<Rightarrow> PickupStrategy" where
  "calculatePickupStrategy gameState isLowHealth isCriticalHealth =
     (let p = player gameState;
          result = \<lparr>pk_shouldSeek = False, pk_directionX = 0, pk_directionY = 0, pk_urgency = 0\<rparr>
      in if length (pickups gameState) = 0 then result
         else
           case foldl (pickup_strategy_step gameState isLowHealth isCriticalHealth) (None, - 1)
                  (pickups gameState) of
             (None, bestScore) \<Rightarrow> result
           | (Some bestPickup, bestScore) \<Rightarrow>
               let distance = Math_hypot (k_x bestPickup - p_x p) (k_y bestPickup - p_y p);
                   seekThreshold =
                     (if k_type bestPickup = ''heart''
                      then (if isCriticalHealth then 0.2 else if isLowHealth then 0.3 else 0.5)
                      else (if isCriticalHealth then 0.4 else if isLowHealth then 0.6 else 1.0));
                   shouldSeek = (seekThreshold < bestScore)
               in if shouldSeek \<and> 0 < distance
                  then \<lparr>pk_shouldSeek = True,
                        pk_directionX = (k_x bestPickup - p_x p) / distance,
                        pk_directionY = (k_y bestPickup - p_y p) / distance,
                        pk_urgency = Math_min 4.0 bestScore\<rparr>
                  else result)"

text \<open>
  \<^verbatim>\<open>getUltraResponseBias(gameState, isLowHealth, isCriticalHealth)\<close>: the bonus
  of one action, then the array \<^verbatim>\<open>new Array(9).fill(0)\<close> written at the indices 0 to
  8.  The locals \<^verbatim>\<open>toCenterX\<close>, \<^verbatim>\<open>toCenterY\<close> and \<^verbatim>\<open>edgeDistance\<close> of the method
  are not read.
\<close>

definition action_bonus ::
  "GameState \<Rightarrow> bool \<Rightarrow> bool \<Rightarrow> SmartAvoidance \<Rightarrow> PickupStrategy \<Rightarrow> BoundaryPressure \<Rightarrow> nat \<Rightarrow> jsnum" where
  "action_bonus gameState isLowHealth isCriticalHealth avoidanceAnalysis pickupAnalysis boundaryPressure a =
     (let p = player gameState;
          w = width gameState;
          h = height gameState;
          vec = actionVectors ! a;
          bonus1 = 0 + calculateAvoidanceScore vec avoidanceAnalysis * 5.0;
          isTowardBoundary = (\<not> isForceTowardBoundary gameState vec);
          bonus2 =
            (if \<not> isTowardBoundary then
               (let futureX = p_x p + fst vec * 80;
                    futureY = p_y p + snd vec * 80
                in if futureX < 150 \<or> w - 150 < futureX \<or> futureY < 150 \<or> h - 150 < futureY
                   then bonus1 - 5.0 else bonus1)
             else bonus1);
          bonus3 =
            (if 0.1 < bp_center_strength boundaryPressure then
               (let centerAlignment = fst vec * bp_center_x boundaryPressure +
                                      snd vec * bp_center_y boundaryPressure
                in if 0 < centerAlignment
                   then bonus2 + centerAlignment * bp_center_strength boundaryPressure * 4.0
                   else bonus2)
             else bonus2);
          bonus4 =
            (if 0.2 < bp_intensity boundaryPressure then
               (let boundaryAlignment = fst vec * bp_x boundaryPressure + snd vec * bp_y boundaryPressure
                in bonus3 + boundaryAlignment * bp_intensity boundaryPressure * 3.5)
             else bonus3);
          centerX = w / 2;
          centerY = h / 2;
          currentDistanceToCenter = Math_hypot (p_x p - centerX) (p_y p - centerY);
          futureX = p_x p + fst vec * 60;
          futureY = p_y p + snd vec * 60;
          futureDistanceToCenter = Math_hypot (futureX - centerX) (futureY - centerY);
          bonus5 =
            (if futureDistanceToCenter < currentDistanceToCenter then
               (let centerImprovement = (currentDistanceToCenter - futureDistanceToCenter) /
                                        Math_max 1 currentDistanceToCenter
                in bonus4 + centerImprovement * 2.0)
             else bonus4);
          bonus6 =
            (if pk_shouldSeek pickupAnalysis then
               (let pickupAlignment = fst vec * pk_directionX pickupAnalysis +
                                      snd vec * pk_directionY pickupAnalysis;
                    pickupBonus0 = pickupAlignment * pk_urgency pickupAnalysis * 3.5;
                    pickupBonus = (if isCriticalHealth then pickupBonus0 * 2.0
                                   else if isLowHealth then pickupBonus0 * 1.5
                                   else pickupBonus0)
                in bonus5 + pickupBonus)
             else bonus5);
          bonus7 = (if a \<noteq> 0 then bonus6 + 1.5 else bonus6)
      in if a = 0 then (if isSafeToStay gameState then bonus7 + 0 else bonus7 - 6.0) else bonus7)"

definition getUltraResponseBias :: "GameState \<Rightarrow> bool \<Rightarrow> bool \<Rightarrow> jsnum list" where
  "getUltraResponseBias gameState isLowHealth isCriticalHealth =
     (let p = player gameState;
          w = width gameState;
          h = height gameState;
          hBias = replicate 9 0;
          avoidanceAnalysis = calculateSmartAvoidance gameState;
          pickupAnalysis = calculatePickupStrategy gameState isLowHealth isCriticalHealth;
          centerX = w / 2;
          centerY = h / 2;
          distanceToCenter = Math_hypot (p_x p - centerX) (p_y p - centerY);
          maxDistanceToCenter = Math_hypot (w / 2) (h / 2);
          centerBias = Math_min 1.0 (distanceToCenter / (maxDistanceToCenter * 0.6));
          boundaryPressure = calculateBoundaryPressureEnhanced gameState centerBias
      in foldl (\<lambda>hBias a.
                  set_index hBias a
                    (action_bonus gameState isLowHealth isCriticalHealth avoidanceAnalysis
                       pickupAnalysis boundaryPressure a))
           hBias [0..<9])"

section \<open>The decision\<close>

text \<open>
  What \<^verbatim>\<open>decide\<close> reads from outside the engine and the game state: the draws used
  when a layer re-initialises itself and the clock read by the layers during
  \<^verbatim>\<open>forward\<close>, the two values of \<^verbatim>\<open>Math.random()\<close> of the exploration step, the
  value of \<^verbatim>\<open>Date.now()\<close> in \<^verbatim>\<open>updateCenterTracking\<close>, the value of
  \<^verbatim>\<open>Math.random()\<close> in \<^verbatim>\<open>applyBoundaryAvoidance\<close> and the value of
  \<^verbatim>\<open>Date.now()\<close> in \<^verbatim>\<open>applyAntiOscillationMemory\<close>.  \<^verbatim>\<open>Math.random()\<close> returns a
  number that is at least 0 and below 1.
\<close>

record Environment =
  env_draws :: "nat \<Rightarrow> InitDraws"
  env_forwardTime :: int
  env_exploreDraw :: real
  env_actionDraw :: real
  env_trackingTime :: int
  env_boundaryDraw :: real
  env_memoryTime :: int

definition random_ok :: "real \<Rightarrow> bool" where
  "random_ok r = (0 \<le> r \<and> r < 1)"

text \<open>
  The object \<^verbatim>\<open>decide\<close> returns; its fields carry the prefix \<open>dec_\<close>.
\<close>

record Decision =
  dec_mvx :: jsnum
  dec_mvy :: jsnum
  dec_action :: int
  dec_speed :: jsnum
  dec_hBias :: "jsnum list"
  dec_hStrength :: jsnum

text \<open>
  The action chosen by the four branches of \<^verbatim>\<open>decide\<close>, before the three
  corrections.  \<^verbatim>\<open>pickupAnalysis.bestPickup\<close> is truthy when it is not \<^verbatim>\<open>null\<close>.
\<close>

definition choose_action ::
  "Environment \<Rightarrow> DodgerAI \<Rightarrow> GameState \<Rightarrow> jsnum list \<Rightarrow> bool \<Rightarrow> ThreatAnalysis \<Rightarrow> PickupAnalysis
     \<Rightarrow> int option" where
  "choose_action env ai gameState policy training threatAnalysis pickupAnalysis =
     (let currentHealth = lives gameState / maxLives gameState
      in if ta_immediateDanger threatAnalysis
         then getEmergencyAvoidanceAction gameState threatAnalysis
         else if ta_highRisk threatAnalysis
         then Some (getPredictiveAvoidanceAction gameState threatAnalysis)
         else if pa_bestPickup pickupAnalysis \<noteq> None \<and>
                 (0.5 < pa_urgency pickupAnalysis \<or>
                  (currentHealth \<le> 0.6 \<and> 0.3 < pa_urgency pickupAnalysis) \<or>
                  (currentHealth \<le> 0.3 \<and> 0.1 < pa_urgency pickupAnalysis))
         then Some (getSmartPickupAction gameState pickupAnalysis threatAnalysis)
         else
           (case getIntelligentCenterAction gameState policy threatAnalysis of
              None \<Rightarrow> None
            | Some action0 \<Rightarrow>
                let action1 =
                      (if ta_predictedDanger threatAnalysis then
                         (case sort_descending snd (filter (\<lambda>act. fst act \<noteq> 0) (indexed policy)) of
                            [] \<Rightarrow> action0
                          | best # others \<Rightarrow> fst best)
                       else action0)
                in if training \<and> Fin (env_exploreDraw env) < explorationRate ai
                   then Some (\<lfloor>env_actionDraw env * 8\<rfloor> + 1)
                   else Some action1))"

text \<open>
  \<^verbatim>\<open>decide(gameState, difficulty, training)\<close>: the decision and the engine after
  the call, or \<open>None\<close> when one of the steps throws.
\<close>

definition decide ::
  "Environment \<Rightarrow> DodgerAI \<Rightarrow> GameState \<Rightarrow> jsnum \<Rightarrow> bool \<Rightarrow> (Decision \<times> DodgerAI) option" where
  "decide env ai gameState difficulty training =
     (let features = extractFeatures gameState difficulty;
          ai1 = ai\<lparr>lastFeatures := features\<rparr>;
          out = forward (env_draws env) (env_forwardTime env) (ai_net ai1) features;
          policy = snd (fst out);
          ai2 = ai1\<lparr>ai_net := snd out\<rparr>;
          threatAnalysis = analyzeRealTimeThreat gameState;
          pickupAnalysis = analyzePickupOpportunity gameState;
          currentHealth = lives gameState / maxLives gameState;
          isLowHealth = (currentHealth \<le> 0.6);
          isCriticalHealth = (currentHealth \<le> 0.3)
      in case choose_action env ai2 gameState policy training threatAnalysis pickupAnalysis of
           None \<Rightarrow> None
         | Some action0 \<Rightarrow>
             (case applyAdvancedSafetyChecks gameState action0 threatAnalysis of
                None \<Rightarrow> None
              | Some action1 \<Rightarrow>
                  (case updateCenterTracking (env_trackingTime env) (centerTracker ai2) gameState action1 of
                     None \<Rightarrow> None
                   | Some tracker \<Rightarrow>
                       (case applyBoundaryAvoidance (env_boundaryDraw env) gameState action1 of
                          None \<Rightarrow> None
                        | Some action2 \<Rightarrow>
                            let memory = applyAntiOscillationMemory (env_memoryTime env)
                                           (ai2\<lparr>centerTracker := tracker\<rparr>) gameState action2;
                                action = fst memory;
                                ai3 = (snd memory)\<lparr>lastAction := action\<rparr>
                            in (case js_at actionMap action of
                                  None \<Rightarrow> None
                                | Some movement \<Rightarrow>
                                    Some (\<lparr>dec_mvx = fst movement,
                                           dec_mvy = snd movement,
                                           dec_action = action,
                                           dec_speed = calculateUltraFastSpeed gameState features action
                                                         isLowHealth isCriticalHealth,
                                           dec_hBias = getUltraResponseBias gameState isLowHealth
                                                         isCriticalHealth,
                                           dec_hStrength = 0.5\<rparr>,
                                          ai3))))))"

section \<open>Example inputs\<close>

text \<open>
  An environment with zero draws, the clock of the layers at 0 and the two later clock
  readings at 5000 milliseconds; a heart pickup at the centre of the default field, and
  the default field with that pickup and no hazard.
\<close>

definition demo_env :: Environment where
  "demo_env = \<lparr>env_draws = (\<lambda>k. \<lparr>draw_w = \<lambda>i j. 0, draw_b = \<lambda>i. 0\<rparr>), env_forwardTime = 0,
     env_exploreDraw = 0, env_actionDraw = 1 / 2, env_trackingTime = 5000,
     env_boundaryDraw = 1 / 2, env_memoryTime = 5000\<rparr>"

definition center_pickup :: Pickup where
  "center_pickup = \<lparr>k_x = 600, k_y = 337.5, k_r = 10, k_life = 2, maxLife = 8, k_type = ''heart''\<rparr>"

definition pickup_state :: GameState where
  "pickup_state = demo_state [] [center_pickup]"

section \<open>Facts about JavaScript numbers\<close>

lemma Fin_zero [simp]: "(0::jsnum) = Fin 0"
  by (simp add: zero_jsnum_def)

lemma Fin_one [simp]: "(1::jsnum) = Fin 1"
  by (simp add: one_jsnum_def)

lemma Fin_numeral [simp]: "(numeral k :: jsnum) = Fin (numeral k)"
proof (induction k)
  case One
  show ?case by (simp add: one_jsnum_def)
next
  case (Bit0 k)
  have "(numeral (Num.Bit0 k) :: jsnum) = numeral k + numeral k"
    by (rule numeral_Bit0)
  also have "\<dots> = Fin (numeral k) + Fin (numeral k)"
    by (simp only: Bit0)
  also have "\<dots> = Fin (numeral k + numeral k)"
    by (simp only: plus_jsnum.simps)
  also have "\<dots> = Fin (numeral (Num.Bit0 k))"
    by (simp only: numeral_Bit0)
  finally show ?case .
next
  case (Bit1 k)
  have "(numeral (Num.Bit1 k) :: jsnum) = numeral k + numeral k + 1"
    by (rule numeral_Bit1)
  also have "\<dots> = Fin (numeral k) + Fin (numeral k) + Fin 1"
    by (simp only: Bit1 one_jsnum_def)
  also have "\<dots> = Fin (numeral k + numeral k + 1)"
    by (simp only: plus_jsnum.simps)
  also have "\<dots> = Fin (numeral (Num.Bit1 k))"
    by (simp only: numeral_Bit1)
  finally show ?case .
qed

lemma Fin_power [simp]: "Fin a ^ n = Fin (a ^ n)"
  by (induction n) (simp_all add: one_jsnum_def)

lemma Fin_minus [simp]: "Fin a - Fin b = Fin (a - b)"
  by (simp add: minus_jsnum_def)

lemma Fin_le [simp]: "(Fin a \<le> Fin b) = (a \<le> b)"
  by (auto simp add: less_eq_jsnum_def)

lemma jn_Fin [simp]: "jn n = Fin (real n)"
  by (simp add: jn_def)

lemma is_fin_conv: "is_fin a = (\<exists>r. a = Fin r)"
  by (cases a) simp_all

lemma js_or_Fin [simp]: "js_or (Fin a) (Fin b) = Fin (if a = 0 then b else a)"
  by (simp add: js_or_def truthy_def)

lemma Math_min_Fin [simp]: "Math_min (Fin a) (Fin b) = Fin (min a b)"
  by (simp add: min_def)

lemma Math_max_Fin [simp]: "Math_max (Fin a) (Fin b) = Fin (max a b)"
  by (simp add: max_def)

lemma is_fin_plus [simp]: "is_fin (a + b) = (is_fin a \<and> is_fin b)"
  by (cases a; cases b) simp_all

lemma is_fin_uminus [simp]: "is_fin (- a) = is_fin a"
  by (cases a) simp_all

lemma is_fin_minus [simp]: "is_fin (a - b) = (is_fin a \<and> is_fin b)"
  by (simp add: minus_jsnum_def)

lemma is_fin_times [simp]: "is_fin (a * b) = (is_fin a \<and> is_fin b)"
  by (cases a; cases b) (simp_all add: signed_inf_def)

lemma is_fin_divide [simp]: "is_fin b \<Longrightarrow> b \<noteq> Fin 0 \<Longrightarrow> is_fin (a / b) = is_fin a"
  by (cases a; cases b) (simp_all add: signed_inf_def)

lemma is_fin_hypot [simp]: "is_fin (Math_hypot a b) = (is_fin a \<and> is_fin b)"
  by (cases a; cases b) simp_all

lemma is_fin_js_or [simp]: "is_fin a \<Longrightarrow> is_fin b \<Longrightarrow> is_fin (js_or a b)"
  by (simp add: js_or_def)

lemma js_or_nz [simp]: "b \<noteq> Fin 0 \<Longrightarrow> js_or a b \<noteq> Fin 0"
  by (simp add: js_or_def truthy_def)

lemma hypot_nz2 [simp]:
  assumes "is_fin a" "is_fin b" "b \<noteq> Fin 0"
  shows "Math_hypot a b \<noteq> Fin 0"
proof -
  from assms obtain x y where xy: "a = Fin x" "b = Fin y" "y \<noteq> 0"
    by (auto simp add: is_fin_conv)
  have "x * x + y * y > 0"
    using xy(3) sum_power2_gt_zero_iff[of x y] by (simp add: power2_eq_square)
  then show ?thesis using xy by auto
qed

lemma is_fin_min [simp]: "is_fin a \<Longrightarrow> is_fin b \<Longrightarrow> is_fin (Math_min a b)"
  by (cases a; cases b) simp_all

lemma is_fin_max [simp]: "is_fin a \<Longrightarrow> is_fin b \<Longrightarrow> is_fin (Math_max a b)"
  by (cases a; cases b) simp_all

lemma is_fin_acos_clamp [simp]:
  "is_fin a \<Longrightarrow> is_fin (Math_acos (Math_max (Fin (- 1)) (Math_min (Fin 1) a)))"
  by (cases a) (simp_all add: min_def max_def)

lemma is_fin_sin [simp]: "is_fin (Math_sin a) = is_fin a"
  by (cases a) simp_all

lemma less_nz [simp]: "Fin c < a \<Longrightarrow> 0 \<le> c \<Longrightarrow> a \<noteq> Fin 0"
  by (cases a) auto

lemma fin_times_zero [simp]: "is_fin a \<Longrightarrow> a * Fin 0 = Fin 0"
  by (cases a) simp_all

lemma fin_zero_times [simp]: "is_fin a \<Longrightarrow> Fin 0 * a = Fin 0"
  by (cases a) simp_all

lemma fin_plus_zero [simp]: "a + Fin 0 = a"
  by (cases a) simp_all

lemma zero_div_fin [simp]: "is_fin a \<Longrightarrow> a \<noteq> Fin 0 \<Longrightarrow> Fin 0 / a = Fin 0"
  by (cases a) simp_all

lemma one_times [simp]: "Fin 1 * a = a"
  by (cases a) (simp_all add: signed_inf_def)

lemma div_one [simp]: "a / Fin 1 = a"
  by (cases a) (simp_all add: signed_inf_def)

lemma is_fin_exp [simp]: "is_fin a \<Longrightarrow> is_fin (Math_exp a)"
  by (cases a) simp_all

lemma is_fin_tanh [simp]: "a \<noteq> NaN \<Longrightarrow> is_fin (Math_tanh a)"
  by (cases a) simp_all

lemma is_fin_not_NaN [simp]: "is_fin a \<Longrightarrow> a \<noteq> NaN"
  by (cases a) simp_all

lemma is_fin_sqrt [simp]: "is_fin a \<Longrightarrow> 0 \<le> a \<Longrightarrow> is_fin (Math_sqrt a)"
  by (cases a) simp_all

lemma nn_fin [simp]: "nn a \<Longrightarrow> is_fin a"
  by (auto simp add: nn_def)

lemma nn_Fin [simp]: "nn (Fin r) = (0 \<le> r)"
  by (simp add: nn_def)

lemma nn_hypot [simp]: "is_fin a \<Longrightarrow> is_fin b \<Longrightarrow> nn (Math_hypot a b)"
  by (cases a; cases b) simp_all

lemma nn_plus [simp]: "nn a \<Longrightarrow> nn b \<Longrightarrow> nn (a + b)"
  by (auto simp add: nn_def)

lemma nn_divide [simp]: "nn a \<Longrightarrow> nn b \<Longrightarrow> b \<noteq> Fin 0 \<Longrightarrow> nn (a / b)"
  by (auto simp add: nn_def)

lemma nn_max0 [simp]: "is_fin a \<Longrightarrow> nn (Math_max (Fin 0) a)"
  by (cases a) simp_all

lemma nn_times [simp]: "nn a \<Longrightarrow> nn b \<Longrightarrow> nn (a * b)"
  by (auto simp add: nn_def)

lemma is_fin_pow_nn [simp]: "nn a \<Longrightarrow> 0 < y \<Longrightarrow> is_fin (Math_pow a (Fin y))"
  by (auto simp add: nn_def)

lemma is_fin_pow_2 [simp]: "is_fin a \<Longrightarrow> is_fin (Math_pow a (Fin 2))"
  by (cases a) simp_all

lemma hypot_less_nz [simp]:
  "Math_hypot a b < x \<Longrightarrow> is_fin a \<Longrightarrow> is_fin b \<Longrightarrow> x \<noteq> Fin 0"
proof -
  assume h: "Math_hypot a b < x" and "is_fin a" "is_fin b"
  then obtain r s where "a = Fin r" "b = Fin s" by (auto simp add: is_fin_conv)
  with h have "Fin (sqrt (r * r + s * s)) < x" by simp
  moreover have "\<not> r * r + s * s < 0" by (simp add: not_less)
  ultimately show ?thesis by (cases x) auto
qed

lemma times_nz [simp]: "is_fin a \<Longrightarrow> is_fin b \<Longrightarrow> a \<noteq> Fin 0 \<Longrightarrow> b \<noteq> Fin 0 \<Longrightarrow> a * b \<noteq> Fin 0"
  by (cases a; cases b) simp_all

lemma divide_nz [simp]: "is_fin a \<Longrightarrow> is_fin b \<Longrightarrow> a \<noteq> Fin 0 \<Longrightarrow> b \<noteq> Fin 0 \<Longrightarrow> a / b \<noteq> Fin 0"
  by (cases a; cases b) simp_all

lemma hypot_nz1 [simp]:
  assumes "is_fin a" "is_fin b" "a \<noteq> Fin 0"
  shows "Math_hypot a b \<noteq> Fin 0"
proof -
  from assms obtain x y where xy: "a = Fin x" "b = Fin y" "x \<noteq> 0"
    by (auto simp add: is_fin_conv)
  have "x * x + y * y > 0"
    using xy(3) sum_power2_gt_zero_iff[of x y] by (simp add: power2_eq_square)
  then show ?thesis using xy by auto
qed

lemma pos_nz [simp]: "Fin 0 < a \<Longrightarrow> a \<noteq> Fin 0"
  by (cases a) auto

lemma nonneg_plus_pos_nz [simp]: "Fin 0 \<le> a \<Longrightarrow> 0 < c \<Longrightarrow> a + Fin c \<noteq> Fin 0"
  by (cases a) (auto simp add: less_eq_jsnum_def)

lemma foldl_invariant:
  assumes "I a" and "\<And>s h. I s \<Longrightarrow> h \<in> set hs \<Longrightarrow> I (f s h)"
  shows "I (foldl f a hs)"
  using assms by (induction hs arbitrary: a) simp_all

lemma is_fin_min_list:
  assumes "xs \<noteq> []" "\<forall>x\<in>set xs. is_fin x"
  shows "is_fin (Math_min_list xs)"
proof -
  obtain x ys where xs: "xs = x # ys" using assms(1) by (cases xs) auto
  have "is_fin (Math_min PInf x)" using assms(2) xs by (cases x) simp_all
  then have "is_fin (foldl Math_min (Math_min PInf x) ys)"
    by (rule foldl_invariant) (use assms(2) xs in auto)
  then show ?thesis by (simp add: Math_min_list_def xs)
qed

lemma is_fin_max_list:
  assumes "xs \<noteq> []" "\<forall>x\<in>set xs. is_fin x"
  shows "is_fin (Math_max_list xs)"
proof -
  obtain x ys where xs: "xs = x # ys" using assms(1) by (cases xs) auto
  have "is_fin (Math_max NInf x)" using assms(2) xs by (cases x) simp_all
  then have "is_fin (foldl Math_max (Math_max NInf x) ys)"
    by (rule foldl_invariant) (use assms(2) xs in auto)
  then show ?thesis by (simp add: Math_max_list_def xs)
qed

section \<open>Properties of the kinematic predictor\<close>

lemma finite_hazard_simps:
  "finite_hazard h \<Longrightarrow> is_fin (h_x h)" "finite_hazard h \<Longrightarrow> is_fin (h_y h)"
  "finite_hazard h \<Longrightarrow> is_fin (h_r h)" "finite_hazard h \<Longrightarrow> is_fin (dirX h)"
  "finite_hazard h \<Longrightarrow> is_fin (dirY h)" "finite_hazard h \<Longrightarrow> is_fin (baseSpeed h)"
  "finite_hazard h \<Longrightarrow> is_fin (h_t h)"
  "finite_hazard h \<Longrightarrow> kind h = ''zigzag'' \<Longrightarrow> is_fin (zigFreq h)"
  "finite_hazard h \<Longrightarrow> kind h = ''zigzag'' \<Longrightarrow> is_fin (zigAmp h)"
  "finite_hazard h \<Longrightarrow> is_fin (case turnRate h of None \<Rightarrow> Math_PI | Some tr \<Rightarrow> tr)"
  by (auto simp add: finite_hazard_def Math_PI_def split: option.splits)

lemma finite_player_simps:
  "finite_player p \<Longrightarrow> is_fin (p_x p)" "finite_player p \<Longrightarrow> is_fin (p_y p)"
  "finite_player p \<Longrightarrow> is_fin (p_r p)" "finite_player p \<Longrightarrow> is_fin (p_speed p)"
  by (auto simp add: finite_player_def)

lemma finite_demo_hazard: "finite_hazard (demo_hazard knd None)" "finite_hazard (demo_hazard knd (Some 0))"
  by (simp_all add: finite_hazard_def demo_hazard_def)

lemma finite_demo_player: "finite_player (player (demo_state hs ks))"
  by (simp add: finite_player_def demo_state_def demo_player_def)

text \<open>
  Claim C6.  For a hazard of any kind and a world whose numbers are finite, the predictor
  applied with \<open>\<Delta>t = 0\<close> returns the hazard's position \<open>(x, y)\<close>.
\<close>

theorem predict_zero_delta:
  assumes h: "finite_hazard hazard" and p: "finite_player (player gameState)"
  shows "predictEnemyPositionPhysics hazard gameState 0 = (h_x hazard, h_y hazard)"
  using finite_hazard_simps[OF h] finite_player_simps[OF p]
  by (simp add: predictEnemyPositionPhysics_def Let_def split: prod.splits)

theorem predict_zero_delta_witness:
  "predictEnemyPositionPhysics (demo_hazard ''tracker'' None) (demo_state [] []) 0 = (100, 50) \<and>
   predictEnemyPositionPhysics (demo_hazard ''zigzag'' None) (demo_state [] []) 0 = (100, 50) \<and>
   predictEnemyPositionPhysics (demo_hazard ''heavy'' None) (demo_state [] []) 0 = (100, 50)"
  using predict_zero_delta[OF finite_demo_hazard(1) finite_demo_player, of "''tracker''" "[]" "[]"]
    predict_zero_delta[OF finite_demo_hazard(1) finite_demo_player, of "''zigzag''" "[]" "[]"]
    predict_zero_delta[OF finite_demo_hazard(1) finite_demo_player, of "''heavy''" "[]" "[]"]
  by (simp add: demo_hazard_def)

text \<open>
  Claim C7.  For a tracker whose \<^verbatim>\<open>turnRate\<close> is 0 and whose direction is a unit
  vector (as the data model has it), for every finite \<open>\<Delta>t\<close> and every player position, the
  predictor advances the hazard along its current direction: the predicted position is
  \<open>(x, y) + (dirX, dirY) * baseSpeed * \<Delta>t\<close>.
\<close>

theorem tracker_zero_turn_rate:
  assumes h: "finite_hazard hazard" and p: "finite_player (player gameState)"
    and dt: "is_fin deltaTime"
    and k: "kind hazard = ''tracker''" and tr: "turnRate hazard = Some 0"
    and unit: "Math_hypot (dirX hazard) (dirY hazard) = 1"
  shows "predictEnemyPositionPhysics hazard gameState deltaTime =
           (h_x hazard + dirX hazard * baseSpeed hazard * deltaTime,
            h_y hazard + dirY hazard * baseSpeed hazard * deltaTime)"
  using finite_hazard_simps[OF h] finite_player_simps[OF p] dt k tr unit
  by (simp add: predictEnemyPositionPhysics_def Let_def split: prod.splits)

theorem tracker_zero_turn_rate_witness:
  "predictEnemyPositionPhysics (demo_hazard ''tracker'' (Some 0)) (demo_state [] []) 2 = (300, 50)"
  using tracker_zero_turn_rate[OF finite_demo_hazard(2) finite_demo_player, of 2 "''tracker''" "[]" "[]"]
  by (simp add: demo_hazard_def)

section \<open>Properties of the network\<close>

lemma js_or_fin_of_no_inf: "no_inf a \<Longrightarrow> is_fin (js_or a (Fin 0))"
  by (cases a) (simp_all add: js_or_def truthy_def no_inf_def)

lemma js_nth_no_inf: "\<forall>x\<in>set xs. no_inf x \<Longrightarrow> no_inf (js_nth xs j)"
  by (simp add: js_nth_def no_inf_def)

lemma js_nth_map_Fin_no_inf: "no_inf (js_nth (map Fin rs) j)"
  by (simp add: js_nth_def no_inf_def)

lemma foldl_fin:
  assumes "is_fin a" and "\<And>s j. is_fin s \<Longrightarrow> is_fin (f s j)"
  shows "is_fin (foldl f a js)"
  using assms by (induction js arbitrary: a) simp_all

lemma neuron_fin:
  assumes "\<forall>x\<in>set inputs. no_inf x" and "neuron bs row inputs n i = Some s"
  shows "is_fin s"
proof -
  from assms(2) obtain b where b: "bs = Some b" by (cases bs) (simp_all add: neuron_def)
  have step: "is_fin (js_or (js_nth inputs j) 0 * js_or (js_nth (map Fin row) j) 0)" for j
    using js_or_fin_of_no_inf[OF js_nth_no_inf[OF assms(1)]]
      js_or_fin_of_no_inf[OF js_nth_map_Fin_no_inf] by simp
  have "is_fin (js_or (js_nth (map Fin b) i) 0)"
    using js_or_fin_of_no_inf[OF js_nth_map_Fin_no_inf] by simp
  then have "is_fin (foldl (\<lambda>sum j. sum + js_or (js_nth inputs j) 0 * js_or (js_nth (map Fin row) j) 0)
                  (js_or (js_nth (map Fin b) i) 0) [0..<n])"
    by (rule foldl_fin) (use step in simp)
  then show ?thesis using assms(2) b by (simp add: neuron_def)
qed

lemma set_index_fin:
  "\<forall>y\<in>set outputs. is_fin y \<Longrightarrow> is_fin v \<Longrightarrow> \<forall>y\<in>set (set_index outputs i v). is_fin y"
  by (auto simp add: set_index_def dest: set_update_subset_insert[THEN subsetD])

lemma forward_rows_fin:
  assumes "\<forall>x\<in>set inputs. no_inf x" and "\<forall>y\<in>set outputs. is_fin y"
    and "forward_rows rnd currentTime inputs i outputs L = Some (outs, L')"
  shows "\<forall>y\<in>set outs. is_fin y"
  using assms
proof (induction rnd currentTime inputs i outputs L rule: forward_rows.induct)
  case (1 rnd currentTime inputs i outputs L)
  show ?case
  proof (cases "i < outputSize L")
    case False
    with "1.prems" show ?thesis by (simp add: forward_rows.simps[of _ _ _ i])
  next
    case lt: True
    show ?thesis
    proof (cases "bad_row L i")
      case bad: True
      show ?thesis
      proof (cases "cooled_down currentTime L")
        case True
        with lt bad "1.prems"(3) obtain L2 where L2: "reinitialize rnd currentTime L = Some L2"
          and r: "forward_rows rnd currentTime inputs 0 outputs L2 = Some (outs, L')"
          by (auto simp add: forward_rows.simps[of _ _ _ i] split: option.splits)
        from "1.IH"(1)[OF lt bad True L2 "1.prems"(1,2) r] show ?thesis .
      next
        case False
        with lt bad "1.prems"(3)
        have r: "forward_rows rnd currentTime inputs (i + 1) (set_index outputs i 0) L = Some (outs, L')"
          by (simp add: forward_rows.simps[of _ _ _ i])
        have "\<forall>y\<in>set (set_index outputs i 0). is_fin y"
          using set_index_fin[OF "1.prems"(2), of "Fin 0" i] by simp
        from "1.IH"(2)[OF lt bad False "1.prems"(1) this r] show ?thesis .
      qed
    next
      case good: False
      with lt "1.prems"(3) obtain s where s: "neuron (l_biases L) (l_weights L ! i) inputs (inputSize L) i = Some s"
        and r: "forward_rows rnd currentTime inputs (i + 1) (set_index outputs i s) L = Some (outs, L')"
        by (auto simp add: forward_rows.simps[of _ _ _ i] split: option.splits)
      have "\<forall>y\<in>set (set_index outputs i s). is_fin y"
        using set_index_fin[OF "1.prems"(2) neuron_fin[OF "1.prems"(1) s]] .
      from "1.IH"(3)[OF lt good s "1.prems"(1) this r] show ?thesis .
    qed
  qed
qed

lemma fix_length_fin: "\<forall>y\<in>set outputs. is_fin y \<Longrightarrow> \<forall>y\<in>set (fix_length n outputs). is_fin y"
  by (auto simp add: fix_length_def dest!: in_set_takeD)

lemma layer_rows_fin:
  assumes "\<forall>x\<in>set inputs. no_inf x" and "layer_rows rnd currentTime L inputs = Some (outs, L')"
  shows "\<forall>y\<in>set outs. is_fin y"
proof (cases "length inputs \<noteq> inputSize L")
  case True
  with assms(2) show ?thesis by (auto simp add: layer_rows_def)
next
  case False
  with assms(2) obtain outputs where r: "forward_rows rnd currentTime inputs 0 [] L = Some (outputs, L')"
    and o: "outs = fix_length (outputSize L') outputs"
    by (auto simp add: layer_rows_def split: option.splits)
  from forward_rows_fin[OF assms(1) _ r] have "\<forall>y\<in>set outputs. is_fin y" by simp
  then show ?thesis unfolding o by (rule fix_length_fin)
qed

lemma layer_forward_fin:
  assumes "\<forall>x\<in>set inputs. no_inf x" and "layer_forward rnd currentTime L inputs = Some (outs, L')"
  shows "\<forall>y\<in>set outs. is_fin y"
proof (cases "length (l_weights L) \<noteq> outputSize L")
  case False
  with assms(2) have "layer_rows rnd currentTime L inputs = Some (outs, L')"
    by (simp add: layer_forward_def)
  then show ?thesis by (rule layer_rows_fin[OF assms(1)])
next
  case wrong: True
  show ?thesis
  proof (cases "cooled_down currentTime L")
    case False
    with wrong assms(2) have "outs = replicate (outputSize L) 0"
      by (auto simp add: layer_forward_def)
    then show ?thesis by simp
  next
    case True
    with wrong assms(2) obtain L2 where "layer_rows rnd currentTime L2 inputs = Some (outs, L')"
      by (simp add: layer_forward_def split: option.splits)
    then show ?thesis by (rule layer_rows_fin[OF assms(1)])
  qed
qed

lemma tanh_no_inf: "no_inf (Math_tanh a)"
  by (cases a) (simp_all add: no_inf_def)

lemma hidden_stage_no_inf:
  assumes "hidden_stage rnd currentTime L expected inputs = Some (Some hidden, L')"
  shows "\<forall>x\<in>set hidden. no_inf x"
proof -
  from assms obtain raw where "hidden = map Math_tanh raw"
    by (auto simp add: hidden_stage_def split: option.splits if_splits)
  then show ?thesis by (simp add: tanh_no_inf)
qed

lemma sum_list_pos:
  fixes xs :: "real list"
  assumes "xs \<noteq> []" and "\<forall>x\<in>set xs. 0 < x"
  shows "0 < sum_list xs"
  using assms
proof (induction xs)
  case Nil
  then show ?case by simp
next
  case (Cons a xs)
  show ?case
  proof (cases "xs = []")
    case True
    with Cons.prems show ?thesis by simp
  next
    case False
    with Cons have "0 < sum_list xs" by simp
    with Cons.prems show ?thesis by (simp add: add_pos_pos)
  qed
qed

lemma foldl_plus_Fin: "foldl (\<lambda>sum e. sum + e) (Fin a) (map Fin rs) = Fin (a + sum_list rs)"
  by (induction rs arbitrary: a) (simp_all add: add.assoc)

lemma foldl_max_Fin: "\<exists>m. foldl Math_max (Fin a) (map Fin rs) = Fin m"
  by (induction rs arbitrary: a) simp_all

lemma max_list_Fin: "rs \<noteq> [] \<Longrightarrow> \<exists>m. Math_max_list (map Fin rs) = Fin m"
  by (cases rs) (simp_all add: Math_max_list_def foldl_max_Fin)

lemma softmax_Fin:
  assumes "rs \<noteq> []"
  shows "\<exists>ps. softmax (map Fin rs) temperature = map Fin ps \<and> length ps = length rs \<and>
              (\<forall>p\<in>set ps. 0 < p) \<and> sum_list ps = 1"
proof -
  from max_list_Fin[OF assms] obtain m where m: "Math_max_list (map Fin rs) = Fin m" by blast
  define es where "es = map (\<lambda>r. exp (r - m)) rs"
  have es: "map (\<lambda>x. Math_exp ((x - Fin m) / temperature)) (map Fin rs) = map Fin es"
    by (simp add: es_def temperature_def)
  have pos: "\<forall>e\<in>set es. 0 < e" by (auto simp add: es_def)
  have ne: "es \<noteq> []" using assms by (simp add: es_def)
  have spos: "0 < sum_list es"
    using sum_list_pos[OF ne] pos by simp
  define ps where "ps = map (\<lambda>e. e / sum_list es) es"
  have nz: "sum_list es \<noteq> 0" using spos by simp
  have "softmax (map Fin rs) temperature
        = map (\<lambda>e. e / foldl (\<lambda>sum e. sum + e) 0 (map Fin es)) (map Fin es)"
    unfolding softmax_def Let_def m es ..
  also have "\<dots> = map (\<lambda>e. e / Fin (sum_list es)) (map Fin es)"
    by (simp add: foldl_plus_Fin)
  also have "\<dots> = map Fin ps"
    using nz by (simp add: ps_def)
  finally have "softmax (map Fin rs) temperature = map Fin ps" .
  moreover have "length ps = length rs" by (simp add: ps_def es_def)
  moreover have "\<forall>p\<in>set ps. 0 < p" using pos spos by (auto simp add: ps_def)
  moreover have "sum_list ps = 1"
  proof -
    have "sum_list ps = (\<Sum>e\<leftarrow>es. e * (1 / sum_list es))" by (simp add: ps_def)
    also have "\<dots> = sum_list es * (1 / sum_list es)"
      using sum_list_mult_const[of "\<lambda>e. e" "1 / sum_list es" es] by simp
    also have "\<dots> = 1" using spos by simp
    finally show ?thesis .
  qed
  ultimately show ?thesis by blast
qed

lemma all_fin_map: "\<forall>y\<in>set xs. is_fin y \<Longrightarrow> \<exists>rs. xs = map Fin rs"
proof (induction xs)
  case Nil
  show ?case by simp
next
  case (Cons a xs)
  then obtain rs r where "xs = map Fin rs" "a = Fin r" by (auto simp add: is_fin_conv)
  then have "a # xs = map Fin (r # rs)" by simp
  then show ?case by (rule exI)
qed

lemma valid_default: "valid_output default_output"
  by (simp add: valid_output_def default_output_def ACTION_COUNT_def numeral_eq_Suc)

lemma default_output_eq: "default_output = (0, replicate 9 (1 / 9))"
  by (simp add: default_output_def ACTION_COUNT_def)

lemma valid_softmax:
  assumes "\<forall>y\<in>set policyOutput. is_fin y" and "length policyOutput = 9"
    and "is_fin x"
  shows "valid_output (Math_tanh (js_or x 0), softmax policyOutput temperature)"
proof -
  from all_fin_map[OF assms(1)] obtain rs where rs: "policyOutput = map Fin rs" by blast
  with assms(2) have "rs \<noteq> []" by auto
  from softmax_Fin[OF this] obtain ps where ps: "softmax (map Fin rs) temperature = map Fin ps"
    "length ps = length rs" "\<forall>p\<in>set ps. 0 < p" "sum_list ps = 1" by blast
  from assms(3) obtain r where r: "x = Fin r" by (auto simp add: is_fin_conv)
  have "- 1 < tanh (if r = 0 then 0 else r)" "tanh (if r = 0 then 0 else r) < 1"
    by (simp_all add: tanh_real_gt_neg1 tanh_real_lt_1)
  moreover have "list_all (\<lambda>p. 0 \<le> p) (map Fin ps)"
    using ps(3) by (auto simp add: list_all_iff less_imp_le)
  ultimately show ?thesis
    using ps rs assms(2) r
    by (simp add: valid_output_def foldl_plus_Fin)
qed

lemma heads_valid:
  assumes "hidden_stage r3 t L3 expected h3 = Some (Some h4, L4)"
    and "layer_forward r4 t Lv h4 = Some (vo, L5)" and "length vo = Suc 0"
    and "layer_forward r5 t Lp h4 = Some (po, L6)" and "length po = ACTION_COUNT"
  shows "valid_output (Math_tanh (js_or (vo ! 0) (Fin 0)), softmax po temperature)"
proof -
  have clean: "\<forall>x\<in>set h4. no_inf x" using assms(1) by (rule hidden_stage_no_inf)
  have "\<forall>y\<in>set vo. is_fin y" using clean assms(2) by (rule layer_forward_fin)
  moreover have "vo ! 0 \<in> set vo" using assms(3) by simp
  ultimately have v: "is_fin (vo ! 0)" by blast
  have "\<forall>y\<in>set po. is_fin y" using clean assms(4) by (rule layer_forward_fin)
  then show ?thesis
    using assms(5) v valid_softmax[of po "vo ! 0"] by (simp add: ACTION_COUNT_def)
qed

lemma forward_valid: "valid_output (fst (forward rnd currentTime net inputs))"
  unfolding forward_def Let_def
  by (auto split: option.splits prod.splits intro: valid_default heads_valid)

lemma forward_wrong_length:
  "length inputs \<noteq> 200 \<Longrightarrow> forward rnd currentTime net inputs = (default_output, net)"
  by (simp add: forward_def)

text \<open>
  Claim C3.  For every network state and every input vector (of length 200 or not),
  \<^verbatim>\<open>forward\<close> returns nine probabilities that are not negative and sum to 1, and a
  value strictly between -1 and 1.  An input of another length takes the fallback, value
  0 with the uniform policy 1/9, which is such an output too; so is every other
  fallback (a layer that raises, a layer output of the wrong width), since all outputs
  are.
\<close>

theorem forward_valid_distribution:
  "valid_output (fst (forward rnd currentTime net inputs)) \<and>
   (length inputs \<noteq> 200 \<longrightarrow>
      fst (forward rnd currentTime net inputs) = (0, replicate 9 (1 / 9))) \<and>
   valid_output (0, replicate 9 (1 / 9))"
  using forward_valid[of rnd currentTime net inputs] forward_wrong_length[of inputs rnd currentTime net]
    valid_default default_output_eq
  by simp

lemma empty_layer_forward:
  "0 < n \<Longrightarrow> layer_forward r 0 (empty_layer m n) xs = Some (replicate n 0, empty_layer m n)"
  by (simp add: layer_forward_def empty_layer_def cooled_down_def initCooldown_def)

lemma empty_layer_stage:
  "0 < n \<Longrightarrow> hidden_stage r 0 (empty_layer m n) n xs = Some (Some (replicate n 0), empty_layer m n)"
  by (simp add: hidden_stage_def empty_layer_forward)

lemma softmax_zeros: "softmax (replicate 9 0) temperature = replicate 9 (1 / 9)"
  by (simp add: softmax_def Let_def temperature_def Math_max_list_def numeral_eq_Suc)

theorem forward_valid_distribution_witness:
  "length (replicate 200 (0::jsnum)) = 200 \<and>
   forward (\<lambda>k. \<lparr>draw_w = \<lambda>i j. 0, draw_b = \<lambda>i. 0\<rparr>) 0 empty_network (replicate 200 0)
     = ((0, replicate 9 (1 / 9)), empty_network) \<and>
   valid_output (0, replicate 9 (1 / 9))"
  using forward_valid_distribution[of "\<lambda>k. \<lparr>draw_w = \<lambda>i j. 0, draw_b = \<lambda>i. 0\<rparr>" 0 empty_network "replicate 200 0"]
  by (simp add: forward_def empty_network_def empty_layer_stage empty_layer_forward softmax_zeros[simplified] ACTION_COUNT_def)

section \<open>Properties of the buffer\<close>














section \<open>Properties of the weight store\<close>

lemma saveWeights_length: "length (snd (saveWeights i t p d ws)) \<le> maxWeights"
  by (simp add: saveWeights_def Let_def)

lemma save_all_length:
  "length ws \<le> maxWeights \<Longrightarrow> length (save_all reqs ws) \<le> maxWeights"
proof (induction reqs arbitrary: ws)
  case Nil
  then show ?case by (simp add: save_all_def)
next
  case (Cons r reqs)
  obtain i t p d where r: "r = (i, t, p, d)" by (cases r) auto
  have "save_all (r # reqs) ws = save_all reqs (snd (saveWeights i t p d ws))"
    by (simp add: save_all_def r)
  then show ?case using Cons.IH[OF saveWeights_length] by simp
qed

lemma save_all_nonempty_length:
  "reqs \<noteq> [] \<Longrightarrow> length (save_all reqs ws) \<le> maxWeights"
proof (cases reqs)
  case Nil
  assume "reqs \<noteq> []" with Nil show ?thesis by simp
next
  case (Cons r rs)
  obtain i t p d where r: "r = (i, t, p, d)" by (cases r) auto
  have "save_all reqs ws = save_all rs (snd (saveWeights i t p d ws))"
    by (simp add: save_all_def r Cons)
  then show ?thesis using save_all_length[OF saveWeights_length] by simp
qed

lemma take_sorted_top:
  fixes f :: "'a \<Rightarrow> real"
  assumes "sorted (map f s)"
  shows "\<forall>k\<in>set (take n s). \<forall>d\<in>set (drop n s). f k \<le> f d"
proof -
  have "sorted (map f (take n s @ drop n s))" using assms by simp
  then show ?thesis unfolding map_append sorted_append by auto
qed

lemma saveWeights_keeps_top:
  assumes over: "maxWeights < length (ws @ [e])"
    and e: "e = \<lparr>entry_id = i, timestamp = t, performance = p, data = d\<rparr>"
    and kept: "kept = snd (saveWeights i t p d ws)"
  shows "length kept = maxWeights \<and> mset kept \<subseteq># mset (ws @ [e]) \<and>
         (\<forall>k\<in>set kept. \<forall>x\<in>#(mset (ws @ [e]) - mset kept). performance x \<le> performance k)"
proof -
  define s where "s = sort_key (\<lambda>w. - performance w) (ws @ [e])"
  have k: "kept = take maxWeights s"
    using over by (simp add: kept saveWeights_def Let_def s_def e)
  have ms: "mset s = mset (ws @ [e])" by (simp add: s_def)
  have "mset (take maxWeights s) + mset (drop maxWeights s) = mset s"
    by (metis append_take_drop_id mset_append)
  then have rest: "mset (ws @ [e]) - mset kept = mset (drop maxWeights s)"
    and sub: "mset kept \<subseteq># mset (ws @ [e])"
    using ms k by (metis add_diff_cancel_left', metis mset_subset_eq_add_left)
  have "length s = length (ws @ [e])" by (simp add: s_def)
  then have len: "length kept = maxWeights" using over k by simp
  have "sorted (map (\<lambda>w. - performance w) s)" by (simp add: s_def)
  from take_sorted_top[OF this, of maxWeights]
  have "\<forall>k\<in>set kept. \<forall>x\<in>set (drop maxWeights s). performance x \<le> performance k"
    using k by simp
  then show ?thesis using len sub rest by simp
qed

text \<open>
  Claim C9.  Every \<^verbatim>\<open>saveWeights\<close> leaves at most 10 snapshots in the store, so does
  every run of saves (from a store of at most 10 entries, or any non-empty run from any
  store); and when the pushed list exceeds 10 entries, exactly 10 are kept, all of them
  taken from the pushed list, and no entry that was dropped has a higher performance
  than an entry that was kept.
\<close>

theorem weight_store_bounded:
  "length (snd (saveWeights i t p d ws)) \<le> 10 \<and>
   (length ws \<le> 10 \<longrightarrow> length (save_all reqs ws) \<le> 10) \<and>
   (reqs \<noteq> [] \<longrightarrow> length (save_all reqs ws) \<le> 10) \<and>
   (10 < length ws + 1 \<longrightarrow>
      (let pushed = ws @ [\<lparr>entry_id = i, timestamp = t, performance = p, data = d\<rparr>];
           kept = snd (saveWeights i t p d ws)
       in length kept = 10 \<and> mset kept \<subseteq># mset pushed \<and>
          (\<forall>k\<in>set kept. \<forall>x\<in>#(mset pushed - mset kept). performance x \<le> performance k)))"
  using saveWeights_length[of i t p d ws] save_all_length[of ws reqs]
    save_all_nonempty_length[of reqs ws]
    saveWeights_keeps_top[of ws "\<lparr>entry_id = i, timestamp = t, performance = p, data = d\<rparr>" i t p d
      "snd (saveWeights i t p d ws)"]
  by (simp add: maxWeights_def Let_def)

theorem weight_store_bounded_witness:
  "map performance (snd (saveWeights ''w'' 7 (6.5) ()
      (map (\<lambda>p. \<lparr>entry_id = [], timestamp = 0, performance = p, data = ()\<rparr>)
         [3, 9, 1, 4, 12, 5, 8, 2, 7, 10])))
   = [12, 10, 9, 8, 7, 6.5, 5, 4, 3, 2]"
  using weight_store_bounded[of "''w''" 7 "6.5" "()"
      "map (\<lambda>p. \<lparr>entry_id = [], timestamp = 0, performance = p, data = ()\<rparr>)
         [3, 9, 1, 4, 12, 5, 8, 2, 7, 10]" "[]"]
  by (simp add: saveWeights_def Let_def maxWeights_def)

section \<open>Export and import of the weights\<close>

lemma load_export_layer: "load_layer (Some (export_layer L)) L2 = L2\<lparr>l_weights := l_weights L, l_biases := l_biases L\<rparr>"
  by (simp add: load_layer_def export_layer_def)

lemma import_export_parameters:
  assumes "declared_rows (ai_net s)"
  shows "fst (importWeights rnd currentTime (Some (exportWeights s)) t) \<and>
         parameters (ai_net (snd (importWeights rnd currentTime (Some (exportWeights s)) t))) = parameters (ai_net s)"
  using assms
  by (simp add: importWeights_def exportWeights_def loadWeights_def Let_def load_export_layer
      ensureWeightsInitialized_def ensure_layer_def declared_rows_def parameters_def
      layer_parameters_def ACTION_COUNT_def)

lemma import_export_metadata:
  assumes "episodeCount s = Fin e" "averagePerformance s = Fin a" "explorationRate s = Fin x" "x \<noteq> 0"
  shows "episodeCount (snd (importWeights rnd currentTime (Some (exportWeights s)) t)) = episodeCount s \<and>
         averagePerformance (snd (importWeights rnd currentTime (Some (exportWeights s)) t)) = averagePerformance s \<and>
         explorationRate (snd (importWeights rnd currentTime (Some (exportWeights s)) t)) = explorationRate s \<and>
         bestPerformance (snd (importWeights rnd currentTime (Some (exportWeights s)) t)) = bestPerformance t"
  using assms
  by (simp add: importWeights_def exportWeights_def loadWeights_def Let_def)

text \<open>
  Claim C5.  Exporting an engine and importing the document into another engine
  succeeds and reproduces the six layers' weights and biases, the episode count, the
  average performance and the exploration rate (the two lemmas above).  The best
  performance is written into the document but \<^verbatim>\<open>loadWeights\<close> never reads it: the
  importing engine keeps its own.  Here an engine with best performance 42 is exported
  and imported into a new engine, whose best performance stays 0.
\<close>

theorem import_drops_bestPerformance:
  "(let s = (fresh_engine zero_network)\<lparr>episodeCount := 120, averagePerformance := 31.5, bestPerformance := 42\<rparr>;
        t = fresh_engine zero_network;
        doc = exportWeights s;
        (ok, t') = importWeights rnd 0 (Some doc) t
    in ok \<and> (\<exists>m. doc_metadata doc = Some m \<and> m_bestPerformance m = Some 42) \<and>
       parameters (ai_net t') = parameters (ai_net s) \<and>
       episodeCount t' = 120 \<and> averagePerformance t' = 31.5 \<and> explorationRate t' = 0.1 \<and>
       bestPerformance s = 42 \<and> bestPerformance t' = 0)"
  by (simp add: importWeights_def exportWeights_def loadWeights_def Let_def load_export_layer
      ensureWeightsInitialized_def ensure_layer_def parameters_def
      layer_parameters_def ACTION_COUNT_def fresh_engine_def zero_network_def zero_layer_def)

section \<open>Properties of the speed model\<close>

lemma finite_state_simps:
  "finite_state g \<Longrightarrow> is_fin (width g)" "finite_state g \<Longrightarrow> is_fin (height g)"
  "finite_state g \<Longrightarrow> finite_player (player g)"
  "finite_state g \<Longrightarrow> is_fin (fst (playerVel g))" "finite_state g \<Longrightarrow> is_fin (snd (playerVel g))"
  "finite_state g \<Longrightarrow> list_all finite_hazard (hazards g)"
  "finite_state g \<Longrightarrow> list_all finite_pickup (pickups g)"
  "finite_state g \<Longrightarrow> is_fin (elapsed g)" "finite_state g \<Longrightarrow> is_fin (lives g)"
  "finite_state g \<Longrightarrow> is_fin (maxLives g)"
  by (simp_all add: finite_state_def)

lemma hazard_distance_fin [simp]:
  "finite_player p \<Longrightarrow> finite_hazard h \<Longrightarrow> is_fin (hazard_distance p h)"
  by (simp add: hazard_distance_def finite_hazard_simps finite_player_simps)

lemma boundary_distance_fin [simp]: "finite_state g \<Longrightarrow> is_fin (boundary_distance g)"
  by (simp add: boundary_distance_def finite_state_simps finite_player_simps)

lemma speed_threat_step_fin:
  assumes "finite_player p" "finite_hazard h" "is_fin (s_maxThreatLevel acc)"
  shows "is_fin (s_maxThreatLevel (speed_threat_step p acc h))"
  using assms by (simp add: speed_threat_step_def Let_def)

lemma speed_threats_fold_fin:
  assumes "finite_player p" "list_all finite_hazard hs" "is_fin (s_maxThreatLevel acc)"
  shows "is_fin (s_maxThreatLevel (foldl (speed_threat_step p) acc hs))"
  using assms(2,3)
proof (induction hs arbitrary: acc)
  case Nil
  then show ?case by simp
next
  case (Cons h hs)
  then show ?case using speed_threat_step_fin[OF assms(1), of h acc] by simp
qed

lemma speed_threats_fin [simp]: "finite_state g \<Longrightarrow> is_fin (s_maxThreatLevel (speed_threats g))"
  unfolding speed_threats_def
  by (rule speed_threats_fold_fin) (simp_all add: finite_state_simps)

lemma ultraFastBaseSpeed_fin:
  assumes "finite_state g"
  shows "is_fin (ultraFastBaseSpeed g fs a low crit)"
  using assms
  by (simp add: ultraFastBaseSpeed_def Let_def split: option.splits)

lemma clamp_range: "is_fin b \<Longrightarrow> 1 \<le> Math_max 1.0 (Math_min 5.0 b) \<and> Math_max 1.0 (Math_min 5.0 b) \<le> 5"
  by (cases b) simp_all

lemma speed_range:
  assumes "finite_state g"
  shows "1 \<le> calculateUltraFastSpeed g fs a low crit \<and> calculateUltraFastSpeed g fs a low crit \<le> 5"
  unfolding calculateUltraFastSpeed_def
  by (rule clamp_range[OF ultraFastBaseSpeed_fin[OF assms]])

lemma demo_safe: "isSafeToStay (demo_state [] [])"
  by (simp add: isSafeToStay_def demo_state_def demo_player_def boundary_distance_def Let_def)

lemma finite_demo_state: "finite_state (demo_state [] [])"
  by (simp add: finite_state_def demo_state_def demo_player_def finite_player_def)

section \<open>Properties of the feature extractor\<close>

lemma set_sort_ascending [simp]: "set (sort_ascending key xs) = set xs"
  by (simp add: sort_ascending_def)

lemma set_sort_descending [simp]: "set (sort_descending key xs) = set xs"
  by (simp add: sort_descending_def)

lemma valid_state_simps:
  "valid_state g \<Longrightarrow> finite_state g"
  "valid_state g \<Longrightarrow> width g \<noteq> Fin 0" "valid_state g \<Longrightarrow> height g \<noteq> Fin 0"
  "valid_state g \<Longrightarrow> p_speed (player g) \<noteq> Fin 0" "valid_state g \<Longrightarrow> maxLives g \<noteq> Fin 0"
  "valid_state g \<Longrightarrow> Fin 0 \<le> p_r (player g)"
  by (auto simp add: valid_state_def)

lemma valid_hazard:
  "valid_state g \<Longrightarrow> h \<in> set (hazards g) \<Longrightarrow> finite_hazard h \<and> Fin 0 \<le> h_r h"
  by (auto simp add: valid_state_def finite_state_def list_all_iff)

lemma valid_pickup:
  "valid_state g \<Longrightarrow> k \<in> set (pickups g) \<Longrightarrow> finite_pickup k \<and> maxLife k \<noteq> Fin 0"
  by (auto simp add: valid_state_def finite_state_def list_all_iff)

lemma predict_fin:
  assumes h: "finite_hazard hazard" and p: "finite_player (player gameState)" and dt: "is_fin deltaTime"
  shows "is_fin (fst (predictEnemyPositionPhysics hazard gameState deltaTime)) \<and>
         is_fin (snd (predictEnemyPositionPhysics hazard gameState deltaTime))"
  using finite_hazard_simps[OF h] finite_player_simps[OF p] dt
  by (simp add: predictEnemyPositionPhysics_def Let_def split: prod.splits)

lemma predictive_step_fin:
  assumes v: "valid_state g" and h: "h \<in> set (hazards g)" and t: "is_fin t"
    and acc: "is_fin (fst acc) \<and> is_fin (snd (snd acc))"
  shows "is_fin (fst (predictive_step g t acc h)) \<and> is_fin (snd (snd (predictive_step g t acc h)))"
proof -
  obtain a b c where abc: "acc = (a, b, c)" by (cases acc) auto
  have fh: "finite_hazard h" using valid_hazard[OF v h] by simp
  have fp: "finite_player (player g)" using valid_state_simps(1)[OF v] by (simp add: finite_state_simps)
  note pf = predict_fin[OF fh fp t]
  show ?thesis
    using acc abc pf finite_hazard_simps[OF fh] finite_player_simps[OF fp]
      finite_state_simps[OF valid_state_simps(1)[OF v]]
    by (simp add: predictive_step_def Let_def)
qed

lemma valid_fin_facts:
  assumes v: "valid_state g"
  shows "is_fin (width g)" "is_fin (height g)" "is_fin (p_x (player g))" "is_fin (p_y (player g))"
    "is_fin (p_r (player g))" "is_fin (p_speed (player g))" "is_fin (fst (playerVel g))"
    "is_fin (snd (playerVel g))" "is_fin (elapsed g)" "is_fin (lives g)" "is_fin (maxLives g)"
  using finite_state_simps[OF valid_state_simps(1)[OF v]]
    finite_player_simps[OF finite_state_simps(3)[OF valid_state_simps(1)[OF v]]]
  by simp_all

lemma predictive_horizon_fin:
  assumes v: "valid_state g" and t: "is_fin t"
  shows "list_all is_fin (predictive_horizon g t)"
proof -
  obtain a b c where r: "foldl (predictive_step g t) (0, 0, 0) (hazards g) = (a, b, c)"
    by (cases "foldl (predictive_step g t) (0, 0, 0) (hazards g)") auto
  have "is_fin (fst (foldl (predictive_step g t) (0, 0, 0) (hazards g)))
      \<and> is_fin (snd (snd (foldl (predictive_step g t) (0, 0, 0) (hazards g))))"
    by (rule foldl_invariant[where I = "\<lambda>acc. is_fin (fst acc) \<and> is_fin (snd (snd acc))"])
       (simp_all add: predictive_step_fin[OF v _ t])
  then have "is_fin a \<and> is_fin c" unfolding r by simp
  then show ?thesis
    unfolding predictive_horizon_def r by (simp add: Let_def)
qed

lemma analyzePredictiveContext_fin:
  "valid_state g \<Longrightarrow> list_all is_fin (analyzePredictiveContext g)"
  by (simp add: analyzePredictiveContext_def predictive_horizon_fin)

lemma analyzePredictiveContext_length: "length (analyzePredictiveContext g) = 12"
  by (simp add: analyzePredictiveContext_def predictive_horizon_def Let_def split: prod.splits)

lemma center_safety_fin:
  assumes v: "valid_state g" and c: "is_fin cx" "is_fin cy"
  shows "is_fin (foldl (center_safety_step cx cy) 1.0 (hazards g))"
proof (rule foldl_invariant[where I = is_fin])
  show "is_fin 1.0" by simp
next
  fix s h assume "is_fin s" "h \<in> set (hazards g)"
  then show "is_fin (center_safety_step cx cy s h)"
    using finite_hazard_simps[of h] valid_hazard[OF v] c
    by (simp add: center_safety_step_def Let_def)
qed

lemma analyzeCenterPositioning_fin:
  assumes v: "valid_state g"
  shows "list_all is_fin (analyzeCenterPositioning g)"
  using valid_fin_facts[OF v] valid_state_simps[OF v] center_safety_fin[OF v]
  by (simp add: analyzeCenterPositioning_def Let_def)

lemma analyzeCenterPositioning_length: "length (analyzeCenterPositioning g) = 10"
  by (simp add: analyzeCenterPositioning_def Let_def)

lemma hazard_fin_facts:
  assumes v: "valid_state g" and h: "h \<in> set (hazards g)"
  shows "is_fin (h_x h)" "is_fin (h_y h)" "is_fin (h_r h)" "is_fin (dirX h)" "is_fin (dirY h)"
    "is_fin (baseSpeed h)" "Fin 0 \<le> h_r h"
  using valid_hazard[OF v h] finite_hazard_simps[of h] by simp_all

lemma hazard_distance_valid [simp]:
  "valid_state g \<Longrightarrow> h \<in> set (hazards g) \<Longrightarrow> is_fin (hazard_distance (player g) h)"
  using hazard_fin_facts[of g h] valid_fin_facts[of g] by (simp add: hazard_distance_def)

lemma enemy_features_fin:
  assumes v: "valid_state g" and h: "h \<in> set (hazards g)"
  shows "list_all is_fin (enemy_features g h)"
  using hazard_fin_facts[OF v h] valid_fin_facts[OF v] valid_state_simps[OF v]
    hazard_distance_valid[OF v h]
  by (simp add: enemy_features_def Let_def)

lemma list_all_concat_map:
  "(\<And>i. i \<in> set xs \<Longrightarrow> list_all P (f i)) \<Longrightarrow> list_all P (concat (map f xs))"
  by (induction xs) simp_all

lemma length_concat_const:
  "(\<And>i. i \<in> set xs \<Longrightarrow> length (f i) = k) \<Longrightarrow> length (concat (map f xs)) = length xs * k"
  by (induction xs) simp_all

lemma extractAllEnemyInformation_fin:
  assumes v: "valid_state g"
  shows "list_all is_fin (extractAllEnemyInformation g)"
  unfolding extractAllEnemyInformation_def Let_def
proof (rule list_all_concat_map)
  fix i
  let ?es = "sort_ascending (hazard_distance (player g)) (hazards g)"
  show "list_all is_fin (if i < length ?es then enemy_features g (?es ! i) else [0, 0, 0, 0, 0, 0])"
  proof (cases "i < length ?es")
    case True
    then have "?es ! i \<in> set (hazards g)" using nth_mem[OF True] by simp
    then show ?thesis using True enemy_features_fin[OF v] by simp
  next
    case False
    then show ?thesis by simp
  qed
qed

lemma extractAllEnemyInformation_length: "length (extractAllEnemyInformation g) = 120"
proof -
  have "length (extractAllEnemyInformation g) = length [0..<20] * 6"
    unfolding extractAllEnemyInformation_def Let_def
    by (rule length_concat_const) (simp add: enemy_features_def Let_def)
  then show ?thesis by simp
qed

lemma pickup_features_fin:
  assumes v: "valid_state g" and k: "k \<in> set (pickups g)"
  shows "list_all is_fin (pickup_features g k)"
  using valid_pickup[OF v k] valid_fin_facts[OF v] valid_state_simps[OF v]
  by (simp add: pickup_features_def finite_pickup_def)

lemma extractPickupPositions_fin:
  assumes v: "valid_state g"
  shows "list_all is_fin (extractPickupPositions g)"
  unfolding extractPickupPositions_def Let_def
proof (rule list_all_concat_map)
  fix i
  let ?ks = "take 5 (sort_descending (pickup_sort_score g) (pickups g))"
  show "list_all is_fin (if i < length ?ks then pickup_features g (?ks ! i) else [0, 0, 0, 0])"
  proof (cases "i < length ?ks")
    case True
    have "?ks ! i \<in> set ?ks" by (rule nth_mem[OF True])
    then have "?ks ! i \<in> set (pickups g)" using in_set_takeD by fastforce
    then show ?thesis using True pickup_features_fin[OF v] by (simp del: length_take)
  next
    case False
    then show ?thesis by (simp del: length_take)
  qed
qed

lemma extractPickupPositions_length: "length (extractPickupPositions g) = 20"
proof -
  have "length (extractPickupPositions g) = length [0..<5] * 4"
    unfolding extractPickupPositions_def Let_def
    by (rule length_concat_const) (simp add: pickup_features_def)
  then show ?thesis by simp
qed

lemma div_not_NaN [simp]: "a \<noteq> NaN \<Longrightarrow> is_fin b \<Longrightarrow> b \<noteq> Fin 0 \<Longrightarrow> a / b \<noteq> NaN"
  by (cases a; cases b) (simp_all add: signed_inf_def)

lemma foldl_plus_fin:
  "is_fin a \<Longrightarrow> (\<And>h. h \<in> set hs \<Longrightarrow> is_fin (f h)) \<Longrightarrow> is_fin (foldl (\<lambda>sum h. sum + f h) a hs)"
  by (rule foldl_invariant[where I = is_fin]) simp_all

lemma directional_threat_fin:
  assumes v: "valid_state g" and d: "is_fin dx" "is_fin dy"
  shows "is_fin (foldl (directional_threat_step (player g) dx dy) 0 (hazards g))"
proof (rule foldl_invariant[where I = is_fin])
  show "is_fin 0" by simp
next
  fix s h assume s: "is_fin s" and h: "h \<in> set (hazards g)"
  show "is_fin (directional_threat_step (player g) dx dy s h)"
    using hazard_fin_facts[OF v h] valid_fin_facts[OF v] d s
    by (simp add: directional_threat_step_def Let_def)
qed

lemma collision_time_not_NaN:
  assumes v: "valid_state g"
  shows "foldl (collision_time_step g) PInf (hazards g) \<noteq> NaN"
proof (rule foldl_invariant[where I = "\<lambda>t. t \<noteq> NaN"])
  show "PInf \<noteq> NaN" by simp
next
  fix s h assume s: "s \<noteq> NaN" and h: "h \<in> set (hazards g)"
  show "collision_time_step g s h \<noteq> NaN"
    using hazard_fin_facts[OF v h] valid_fin_facts[OF v] s
    by (simp add: collision_time_step_def Let_def)
qed

lemma tracker_threat_fin:
  assumes v: "valid_state g"
  shows "is_fin (foldl (\<lambda>threat tracker. threat + Math_exp (- hazard_distance (player g) tracker / 100))
                   0 (filter (\<lambda>h. kind h = ''tracker'') (hazards g)))"
  by (rule foldl_invariant[where I = is_fin]) (simp_all add: v)

lemma cluster_fin:
  assumes v: "valid_state g" and ne: "hazards g \<noteq> []"
  shows "is_fin (let hs = hazards g;
                     centerX = foldl (\<lambda>sum h. sum + h_x h) 0 hs / jn (length hs);
                     centerY = foldl (\<lambda>sum h. sum + h_y h) 0 hs / jn (length hs);
                     avgDistanceFromCenter =
                       foldl (\<lambda>sum h. sum + Math_hypot (h_x h - centerX) (h_y h - centerY)) 0 hs /
                       jn (length hs)
                 in Math_tanh (avgDistanceFromCenter / 200))"
proof -
  have cx: "is_fin (foldl (\<lambda>sum h. sum + h_x h) 0 (hazards g))"
    by (rule foldl_plus_fin) (simp_all add: hazard_fin_facts[OF v])
  have cy: "is_fin (foldl (\<lambda>sum h. sum + h_y h) 0 (hazards g))"
    by (rule foldl_plus_fin) (simp_all add: hazard_fin_facts[OF v])
  have d: "is_fin (foldl (\<lambda>sum h. sum + Math_hypot (h_x h - cx') (h_y h - cy')) 0 (hazards g))"
    if "is_fin cx'" "is_fin cy'" for cx' cy'
    by (rule foldl_plus_fin) (simp_all add: hazard_fin_facts[OF v] that)
  show ?thesis
    using cx cy d ne by (simp add: Let_def)
qed

lemma analyzeGlobalThreats_fin:
  assumes v: "valid_state g"
  shows "list_all is_fin (analyzeGlobalThreats g)"
proof (cases "hazards g = []")
  case True
  then show ?thesis by (simp add: analyzeGlobalThreats_def list_all_iff)
next
  case False
  let ?ds = "map (hazard_distance (player g)) (hazards g)"
  have ds: "\<forall>x\<in>set ?ds. is_fin x" using v by auto
  have ne: "?ds \<noteq> []" using False by simp
  have mn: "is_fin (Math_min_list ?ds)" by (rule is_fin_min_list[OF ne ds])
  have mx: "is_fin (Math_max_list ?ds)" by (rule is_fin_max_list[OF ne ds])
  have av: "is_fin (foldl (\<lambda>sum d. sum + d) 0 ?ds)"
    using ds by (intro foldl_invariant[where I = is_fin]) auto
  show ?thesis
    using False mn mx av directional_threat_fin[OF v] collision_time_not_NaN[OF v]
      tracker_threat_fin[OF v] cluster_fin[OF v False]
    by (simp add: analyzeGlobalThreats_def Let_def)
qed

lemma analyzeGlobalThreats_length: "length (analyzeGlobalThreats g) = (if hazards g = [] then 12 else 11)"
  by (simp add: analyzeGlobalThreats_def Let_def)

lemma cell_safety_fin:
  assumes v: "valid_state g"
  shows "is_fin (cell_safety g i j)"
proof -
  have "is_fin (foldl (\<lambda>safety hazard.
                     safety * Math_min 1 (Math_hypot (h_x hazard - cx) (h_y hazard - cy) /
                                          (h_r hazard + 80)))
                   1.0 (hazards g))" if "is_fin cx" "is_fin cy" for cx cy
    by (rule foldl_invariant[where I = is_fin]) (simp_all add: hazard_fin_facts[OF v] that)
  then show ?thesis
    using valid_fin_facts[OF v] by (simp add: cell_safety_def Let_def)
qed

lemma safest_direction_step_fin:
  assumes "is_fin (fst (snd acc)) \<and> is_fin (snd (snd acc))" "is_fin (fst d)" "is_fin (snd d)"
  shows "is_fin (fst (snd (safest_direction_step g acc d))) \<and> is_fin (snd (snd (safest_direction_step g acc d)))"
  using assms by (cases d) (simp add: safest_direction_step_def Let_def)

lemma analyzeSafetyAndBoundary_fin:
  assumes v: "valid_state g"
  shows "list_all is_fin (analyzeSafetyAndBoundary g)"
proof -
  let ?b = "foldl (safest_direction_step g) (- 1, (0, 0)) [(- 1, 0), (1, 0), (0, - 1), (0, 1)]"
  have "is_fin (fst (snd ?b)) \<and> is_fin (snd (snd ?b))"
  proof (rule foldl_invariant[where I = "\<lambda>acc. is_fin (fst (snd acc)) \<and> is_fin (snd (snd acc))"])
    show "is_fin (fst (snd (- 1 :: jsnum, (0 :: jsnum, 0 :: jsnum)))) \<and> is_fin (snd (snd (- 1 :: jsnum, (0 :: jsnum, 0 :: jsnum))))"
      by simp
  next
    fix s :: "jsnum \<times> (jsnum \<times> jsnum)" and d :: "jsnum \<times> jsnum"
    assume s: "is_fin (fst (snd s)) \<and> is_fin (snd (snd s))"
      and d: "d \<in> set [(- 1, 0), (1, 0), (0, - 1), (0, 1)]"
    from d have "is_fin (fst d)" "is_fin (snd d)" by auto
    then show "is_fin (fst (snd (safest_direction_step g s d))) \<and> is_fin (snd (snd (safest_direction_step g s d)))"
      by (rule safest_direction_step_fin[OF s])
  qed
  then show ?thesis
    using valid_fin_facts[OF v] valid_state_simps[OF v] cell_safety_fin[OF v]
    by (simp add: analyzeSafetyAndBoundary_def Let_def del: foldl.simps foldl_Cons)
qed

lemma analyzeSafetyAndBoundary_length: "length (analyzeSafetyAndBoundary g) = 10"
  by (simp add: analyzeSafetyAndBoundary_def Let_def)

lemma base_features_fin:
  assumes v: "valid_state g" and d: "is_fin difficulty"
  shows "list_all is_fin
     [p_x (player g) / width g,
      p_y (player g) / height g,
      Math_hypot (fst (playerVel g)) (snd (playerVel g)) / p_speed (player g),
      fst (playerVel g) / p_speed (player g),
      snd (playerVel g) / p_speed (player g),
      Math_min difficulty 5 / 5,
      elapsed g / 200,
      Math_min (lives g / maxLives g) 1.0]"
  using valid_fin_facts[OF v] valid_state_simps[OF v] d by simp

lemma list_all_take_pad:
  "list_all is_fin xs \<Longrightarrow> list_all is_fin (take n (xs @ replicate (n - length xs) 0))"
  by (auto simp add: list_all_iff dest!: in_set_takeD)

lemma extractFeatures_all_fin:
  assumes v: "valid_state g" and d: "is_fin difficulty"
  shows "list_all is_fin (extractFeatures g difficulty)"
  unfolding extractFeatures_def Let_def
  apply (rule list_all_take_pad)
  using base_features_fin[OF v d] analyzePredictiveContext_fin[OF v] analyzeCenterPositioning_fin[OF v]
    extractAllEnemyInformation_fin[OF v] extractPickupPositions_fin[OF v]
    analyzeGlobalThreats_fin[OF v] analyzeSafetyAndBoundary_fin[OF v]
  apply (simp only: list_all_append)
  done

lemma length_take_pad: "length (take n (xs @ replicate (n - length xs) z)) = n"
  by simp

lemma extractFeatures_length: "length (extractFeatures g difficulty) = 200"
  unfolding extractFeatures_def Let_def by (rule length_take_pad)

lemma valid_demo_state:
  "valid_state (demo_state [demo_hazard ''tracker'' (Some 1.5), demo_hazard ''zigzag'' None] [demo_pickup])"
  by (simp add: valid_state_def finite_state_def demo_state_def demo_player_def finite_player_def
      finite_hazard_def finite_pickup_def demo_pickup_def demo_hazard_def)

text \<open>
  Claim C2.  For every valid world state (finite numbers, a field, a player speed, a
  number of lives and pickup lifetimes that are positive, radii that are not negative;
  any number of hazards and pickups, none included) and every finite difficulty,
  \<^verbatim>\<open>extractFeatures\<close> returns exactly 200 elements and each of them is a finite
  number: neither \<^verbatim>\<open>NaN\<close> nor an infinity.
\<close>

theorem extractFeatures_200_finite:
  assumes "valid_state gameState" and "is_fin difficulty"
  shows "length (extractFeatures gameState difficulty) = 200 \<and>
         list_all is_fin (extractFeatures gameState difficulty)"
  using extractFeatures_length extractFeatures_all_fin[OF assms] by simp

theorem extractFeatures_200_finite_witness:
  "valid_state (demo_state [demo_hazard ''tracker'' (Some 1.5), demo_hazard ''zigzag'' None] [demo_pickup]) \<and>
   is_fin (Fin 2) \<and>
   length (extractFeatures
     (demo_state [demo_hazard ''tracker'' (Some 1.5), demo_hazard ''zigzag'' None] [demo_pickup]) (Fin 2)) = 200 \<and>
   list_all is_fin (extractFeatures
     (demo_state [demo_hazard ''tracker'' (Some 1.5), demo_hazard ''zigzag'' None] [demo_pickup]) (Fin 2))"
  using extractFeatures_200_finite[OF valid_demo_state, of "Fin 2"] valid_demo_state
  by simp

section \<open>Properties of the decision\<close>

lemma js_at_in_set: "js_at xs i = Some x \<Longrightarrow> x \<in> set xs"
  by (auto simp add: js_at_def split: if_splits)

lemma js_index_in_set: "js_index xs k = Some x \<Longrightarrow> x \<in> set xs"
  by (cases k) (auto dest: js_at_in_set split: if_splits)

lemma js_at_Some: "0 \<le> i \<Longrightarrow> nat i < length xs \<Longrightarrow> js_at xs i = Some (xs ! nat i)"
  by (simp add: js_at_def)

lemma getActionForDirection_range:
  "1 \<le> getActionForDirection dx dy \<and> getActionForDirection dx dy \<le> 8"
proof -
  have "a \<in> set directionActions \<Longrightarrow> 1 \<le> a \<and> a \<le> 8" for a
    by (auto simp add: directionActions_def)
  then show ?thesis
    by (auto simp add: getActionForDirection_def Let_def dest!: js_index_in_set split: option.splits)
qed

lemma direction_range0:
  "0 \<le> getActionForDirection dx dy \<and> getActionForDirection dx dy \<le> 8"
  using getActionForDirection_range[of dx dy] by simp

lemma length_directions: "length directions = 8"
  by (simp add: directions_def)

lemma length_actionVectors: "length actionVectors = 9"
  by (simp add: actionVectors_def)

lemma length_actionMap: "length actionMap = 9"
  by (simp add: actionMap_def)

lemma calculateEscapeDirections_range:
  assumes "a \<in> set (calculateEscapeDirections g nt)"
  shows "1 \<le> a \<and> a \<le> 8"
proof -
  from assms obtain i where "i < length directions" "a = int i + 1"
    by (auto simp add: calculateEscapeDirections_def)
  then show ?thesis by (simp add: length_directions)
qed

lemma analyzeRealTimeThreat_escape:
  "a \<in> set (ta_escapeDirections (analyzeRealTimeThreat g)) \<Longrightarrow> 1 \<le> a \<and> a \<le> 8"
  by (auto simp add: analyzeRealTimeThreat_def dest: calculateEscapeDirections_range split: prod.splits)

lemma best_center_fold:
  "0 \<le> fst acc \<and> fst acc \<le> 8 \<Longrightarrow> \<forall>i\<in>set is. i \<le> 8 \<Longrightarrow>
   0 \<le> fst (foldl (best_center_step g dx dy) acc is) \<and> fst (foldl (best_center_step g dx dy) acc is) \<le> 8"
proof (induction "is" arbitrary: acc)
  case Nil
  then show ?case by simp
next
  case (Cons i "is")
  have "0 \<le> fst (best_center_step g dx dy acc i) \<and> fst (best_center_step g dx dy acc i) \<le> 8"
    using Cons.prems by (auto simp add: best_center_step_def Let_def split: prod.splits)
  then show ?case using Cons by simp
qed

lemma getBestCenterAction_range: "0 \<le> getBestCenterAction g \<and> getBestCenterAction g \<le> 8"
proof -
  have "0 \<le> fst (foldl (best_center_step g dx dy) (0, NInf) [1..<length actionVectors]) \<and>
        fst (foldl (best_center_step g dx dy) (0, NInf) [1..<length actionVectors]) \<le> 8" for dx dy
    by (rule best_center_fold) (auto simp add: length_actionVectors)
  then show ?thesis
    by (auto simp add: getBestCenterAction_def Let_def)
qed

lemma js_at_actionVectors: "0 \<le> a \<Longrightarrow> a \<le> 8 \<Longrightarrow> \<exists>v. js_at actionVectors a = Some v"
  by (simp add: js_at_def length_actionVectors)

lemma js_at_actionMap: "0 \<le> a \<Longrightarrow> a \<le> 8 \<Longrightarrow> \<exists>v. js_at actionMap a = Some v"
  by (simp add: js_at_def length_actionMap)

lemma emergency_step_ok:
  assumes "\<exists>b m. acc = Some (b, m) \<and> 1 \<le> b \<and> b \<le> 8" and "1 \<le> a \<and> a \<le> 8"
  shows "\<exists>b m. emergency_step g acc a = Some (b, m) \<and> 1 \<le> b \<and> b \<le> 8"
proof -
  from assms(1) obtain b m where acc: "acc = Some (b, m)" and b: "1 \<le> b" "b \<le> 8" by auto
  from assms(2) obtain v where v: "js_at actionVectors a = Some v"
    using js_at_actionVectors[of a] by auto
  show ?thesis
    using b assms(2) by (cases v) (simp add: emergency_step_def acc v Let_def)
qed

lemma emergency_fold_ok:
  assumes "\<forall>a\<in>set as. 1 \<le> a \<and> a \<le> 8" and "\<exists>b m. acc = Some (b, m) \<and> 1 \<le> b \<and> b \<le> 8"
  shows "\<exists>b m. foldl (emergency_step g) acc as = Some (b, m) \<and> 1 \<le> b \<and> b \<le> 8"
  using assms
proof (induction as arbitrary: acc)
  case Nil
  then show ?case by simp
next
  case (Cons a as)
  have "\<exists>b m. emergency_step g acc a = Some (b, m) \<and> 1 \<le> b \<and> b \<le> 8"
    by (rule emergency_step_ok) (use Cons.prems in auto)
  then show ?case using Cons by simp
qed

lemma getEmergencyAvoidanceAction_ok:
  assumes "\<forall>a\<in>set (ta_escapeDirections ta). 1 \<le> a \<and> a \<le> 8"
  shows "\<exists>a. getEmergencyAvoidanceAction g ta = Some a \<and> 0 \<le> a \<and> a \<le> 8"
proof (cases "ta_escapeDirections ta")
  case Nil
  have "0 \<le> getActionForDirection dx dy \<and> getActionForDirection dx dy \<le> 8" for dx dy
    using getActionForDirection_range[of dx dy] by simp
  then show ?thesis
    by (simp add: getEmergencyAvoidanceAction_def Nil Let_def split: option.splits)
next
  case (Cons first rest)
  have "\<exists>b m. foldl (emergency_step g) (Some (first, 0)) (ta_escapeDirections ta) = Some (b, m)
          \<and> 1 \<le> b \<and> b \<le> 8"
    by (rule emergency_fold_ok[OF assms]) (use assms Cons in auto)
  then obtain b m where "foldl (emergency_step g) (Some (first, 0)) (first # rest) = Some (b, m)"
    "1 \<le> b" "b \<le> 8" unfolding Cons by blast
  then show ?thesis
    by (simp add: getEmergencyAvoidanceAction_def Cons del: foldl_Cons)
qed

lemma getPredictiveAvoidanceAction_range:
  "0 \<le> getPredictiveAvoidanceAction g ta \<and> getPredictiveAvoidanceAction g ta \<le> 8"
  unfolding getPredictiveAvoidanceAction_def Let_def by (rule direction_range0)

lemma indexed_fst: "a \<in> set (indexed policy) \<Longrightarrow> 0 \<le> fst a \<and> fst a < int (length policy)"
  by (auto simp add: indexed_def)

lemma length_indexed [simp]: "length (indexed policy) = length policy"
  by (simp add: indexed_def)

lemma length_sort_descending [simp]: "length (sort_descending key xs) = length xs"
  by (simp add: sort_descending_def)

lemma find_Some_set: "find P xs = Some a \<Longrightarrow> a \<in> set xs"
  by (induction xs) (auto split: if_splits)

lemma getIntelligentCenterAction_ok:
  assumes "length policy = 9"
  shows "\<exists>a. getIntelligentCenterAction g policy ta = Some a \<and> 0 \<le> a \<and> a \<le> 8"
proof -
  let ?sorted = "sort_descending snd (indexed policy)"
  have rng: "0 \<le> fst a \<and> fst a \<le> 8" if "a \<in> set ?sorted" for a
    using indexed_fst[of a policy] that assms by simp
  have dir: "0 \<le> getActionForDirection dx dy \<and> getActionForDirection dx dy \<le> 8" for dx dy
    using getActionForDirection_range[of dx dy] by simp
  have pol: "\<exists>a. (case find (\<lambda>action. fst action \<noteq> 0) ?sorted of
                   Some action \<Rightarrow> Some (fst action)
                 | None \<Rightarrow> map_option fst (js_at ?sorted 0)) = Some a \<and> 0 \<le> a \<and> a \<le> 8"
  proof (cases "find (\<lambda>action. fst action \<noteq> 0) ?sorted")
    case None
    have "js_at ?sorted 0 = Some (?sorted ! 0)" by (simp add: js_at_def assms)
    moreover have "?sorted ! 0 \<in> set ?sorted" by (rule nth_mem) (simp add: assms)
    ultimately show ?thesis using None rng by simp
  next
    case (Some a)
    then have "a \<in> set ?sorted" by (rule find_Some_set)
    then show ?thesis using Some rng by simp
  qed
  show ?thesis
    unfolding getIntelligentCenterAction_def Let_def using dir pol by (simp split: if_splits)
qed

lemma getEmergencyPickupAction_range:
  "0 \<le> getEmergencyPickupAction g k dx dy \<and> getEmergencyPickupAction g k dx dy \<le> 8"
  unfolding getEmergencyPickupAction_def Let_def by (rule direction_range0)

lemma getSafePickupAction_range:
  "0 \<le> getSafePickupAction g k dx dy \<and> getSafePickupAction g k dx dy \<le> 8"
  unfolding getSafePickupAction_def Let_def
  by (cases "findAlternativePickupPaths g k") (simp_all add: direction_range0)

lemma getRiskyDashAction_range:
  "0 \<le> getRiskyDashAction g k dx dy ta \<and> getRiskyDashAction g k dx dy ta \<le> 8"
  unfolding getRiskyDashAction_def Let_def
  by (cases "findSafeCorridor g (p_x (player g), p_y (player g)) (k_x k, k_y k)")
     (simp_all add: direction_range0)

lemma getDefensivePickupAction_range:
  "0 \<le> getDefensivePickupAction g k dx dy \<and> getDefensivePickupAction g k dx dy \<le> 8"
  unfolding getDefensivePickupAction_def Let_def
  by (cases "findSaferApproachPosition g k") (simp_all add: direction_range0)

lemma getCalculatedRiskAction_range:
  "0 \<le> getCalculatedRiskAction g k dx dy ta \<and> getCalculatedRiskAction g k dx dy ta \<le> 8"
  unfolding getCalculatedRiskAction_def Let_def
  by (cases "findDetourPath g k") (simp_all add: direction_range0)

lemma getSmartPickupAction_range:
  "0 \<le> getSmartPickupAction g pa ta \<and> getSmartPickupAction g pa ta \<le> 8"
  unfolding getSmartPickupAction_def Let_def
  by (cases "pa_bestPickup pa")
     (simp_all add: getEmergencyPickupAction_range getSafePickupAction_range getRiskyDashAction_range
        getDefensivePickupAction_range getCalculatedRiskAction_range)

lemma applyAdvancedSafetyChecks_ok:
  assumes a: "0 \<le> action" "action \<le> 8"
    and e: "\<forall>a\<in>set (ta_escapeDirections ta). 1 \<le> a \<and> a \<le> 8"
  shows "\<exists>a. applyAdvancedSafetyChecks g action ta = Some a \<and> 0 \<le> a \<and> a \<le> 8"
proof -
  obtain v where v: "js_at actionVectors action = Some v"
    using js_at_actionVectors[OF a] by auto
  have esc: "\<exists>a. js_at (ta_escapeDirections ta) 0 = Some a \<and> 0 \<le> a \<and> a \<le> 8"
    if "0 < length (ta_escapeDirections ta)"
  proof -
    have "js_at (ta_escapeDirections ta) 0 = Some (ta_escapeDirections ta ! 0)"
      using that by (simp add: js_at_def)
    moreover have "ta_escapeDirections ta ! 0 \<in> set (ta_escapeDirections ta)"
      using that by (intro nth_mem)
    ultimately show ?thesis using e by force
  qed
  show ?thesis
    using a esc getBestCenterAction_range[of g]
    by (cases v) (simp add: applyAdvancedSafetyChecks_def v Let_def)
qed

lemma updateCenterTracking_ok:
  assumes a: "0 \<le> action" "action \<le> 8"
  shows "\<exists>t. updateCenterTracking now tracker g action = Some t"
proof -
  obtain v where v: "js_at actionVectors action = Some v"
    using js_at_actionVectors[OF a] by auto
  show ?thesis
    by (cases v) (simp add: updateCenterTracking_def v Let_def)
qed

lemma applyBoundaryAvoidance_ok:
  assumes a: "0 \<le> action" "action \<le> 8"
  shows "\<exists>a. applyBoundaryAvoidance r g action = Some a \<and> 0 \<le> a \<and> a \<le> 8"
proof -
  obtain v where v: "js_at actionMap action = Some v"
    using js_at_actionMap[OF a] by auto
  show ?thesis
    using a getBestCenterAction_range[of g]
    by (cases v) (simp add: applyBoundaryAvoidance_def v Let_def)
qed

lemma findAlternativeActions_range:
  assumes "a \<in> set (findAlternativeActions g original)"
  shows "1 \<le> a \<and> a \<le> 8"
proof -
  let ?alts = "map (\<lambda>a. (int a, evaluateDirectionSafety g (actionMap ! a)))
                 (filter (\<lambda>a. int a \<noteq> original) [1..<9])"
  from assms obtain b where "b \<in> set (take 3 (sort_descending snd ?alts))" "a = fst b"
    by (auto simp add: findAlternativeActions_def Let_def)
  then have "b \<in> set ?alts" using in_set_takeD by fastforce
  then obtain n where "n \<in> set [1..<9]" "fst b = int n" by auto
  then show ?thesis using \<open>a = fst b\<close> by auto
qed

lemma applyAntiOscillationMemory_range:
  assumes a: "0 \<le> action" "action \<le> 8"
  shows "0 \<le> fst (applyAntiOscillationMemory now ai g action) \<and>
         fst (applyAntiOscillationMemory now ai g action) \<le> 8"
proof -
  have alt: "0 \<le> first \<and> first \<le> 8"
    if "findAlternativeActions g action = first # rest" for first rest
    using findAlternativeActions_range[of first g action] that by simp
  show ?thesis
    using a alt
    by (auto simp add: applyAntiOscillationMemory_def Let_def split: list.splits)
qed

lemma bias_fold_length:
  "\<forall>a\<in>set as. a < length hBias \<Longrightarrow> length (foldl (\<lambda>hBias a. set_index hBias a (f a)) hBias as) = length hBias"
  by (induction as arbitrary: hBias) (simp_all add: set_index_def)

lemma getUltraResponseBias_length: "length (getUltraResponseBias g low crit) = 9"
proof -
  have "length (foldl (\<lambda>hBias a. set_index hBias a (f a)) (replicate 9 0) [0..<9]) = 9" for f :: "nat \<Rightarrow> jsnum"
    using bias_fold_length[of "[0..<9]" "replicate 9 0" f] by simp
  then show ?thesis
    by (simp add: getUltraResponseBias_def Let_def del: upt_Suc replicate_Suc replicate.simps)
qed

lemma exploration_range:
  assumes "random_ok r"
  shows "0 \<le> \<lfloor>r * 8\<rfloor> + 1 \<and> \<lfloor>r * 8\<rfloor> + 1 \<le> 8"
proof -
  from assms have "0 \<le> r * 8" "r * 8 < 8" by (simp_all add: random_ok_def)
  then have "0 \<le> \<lfloor>r * 8\<rfloor>" "\<lfloor>r * 8\<rfloor> < 8" by (simp_all add: floor_less_iff)
  then show ?thesis by simp
qed

lemma movement_actions_range:
  assumes "length policy = 9"
  shows "(case sort_descending snd (filter (\<lambda>act. fst act \<noteq> 0) (indexed policy)) of
            [] \<Rightarrow> action0 | best # others \<Rightarrow> fst best) = action0 \<or>
         (0 \<le> (case sort_descending snd (filter (\<lambda>act. fst act \<noteq> 0) (indexed policy)) of
            [] \<Rightarrow> action0 | best # others \<Rightarrow> fst best) \<and>
          (case sort_descending snd (filter (\<lambda>act. fst act \<noteq> 0) (indexed policy)) of
            [] \<Rightarrow> action0 | best # others \<Rightarrow> fst best) \<le> 8)"
proof (cases "sort_descending snd (filter (\<lambda>act. fst act \<noteq> 0) (indexed policy))")
  case Nil
  then show ?thesis by simp
next
  case (Cons best others)
  then have "best \<in> set (sort_descending snd (filter (\<lambda>act. fst act \<noteq> 0) (indexed policy)))"
    by simp
  then have "best \<in> set (indexed policy)" by simp
  then show ?thesis using indexed_fst[of best policy] assms Cons by simp
qed

lemma choose_action_ok:
  assumes p: "length policy = 9"
    and e: "\<forall>a\<in>set (ta_escapeDirections ta). 1 \<le> a \<and> a \<le> 8"
    and r: "random_ok (env_actionDraw env)"
  shows "\<exists>a. choose_action env ai g policy training ta pa = Some a \<and> 0 \<le> a \<and> a \<le> 8"
proof -
  obtain c where c: "getIntelligentCenterAction g policy ta = Some c" "0 \<le> c" "c \<le> 8"
    using getIntelligentCenterAction_ok[OF p, of g ta] by auto
  show ?thesis
    unfolding choose_action_def Let_def
    using getEmergencyAvoidanceAction_ok[OF e, of g] getPredictiveAvoidanceAction_range[of g ta]
      getSmartPickupAction_range[of g pa ta] exploration_range[OF r] movement_actions_range[OF p, of c] c
    by (auto simp del: not_None_eq)
qed

lemma decide_shape:
  assumes r: "random_ok (env_actionDraw env)"
  shows "\<exists>a mv ai'.
           decide env ai gameState difficulty training =
             Some (\<lparr>dec_mvx = fst mv, dec_mvy = snd mv, dec_action = a,
                     dec_speed = calculateUltraFastSpeed gameState (extractFeatures gameState difficulty) a
                                   (lives gameState / maxLives gameState \<le> 0.6)
                                   (lives gameState / maxLives gameState \<le> 0.3),
                     dec_hBias = getUltraResponseBias gameState
                                   (lives gameState / maxLives gameState \<le> 0.6)
                                   (lives gameState / maxLives gameState \<le> 0.3),
                     dec_hStrength = 0.5\<rparr>, ai') \<and>
           0 \<le> a \<and> a \<le> 8 \<and> js_at actionMap a = Some mv"
proof -
  define features where "features = extractFeatures gameState difficulty"
  define out where "out = forward (env_draws env) (env_forwardTime env) (ai_net (ai\<lparr>lastFeatures := features\<rparr>)) features"
  define ai2 where "ai2 = (ai\<lparr>lastFeatures := features\<rparr>)\<lparr>ai_net := snd out\<rparr>"
  define ta where "ta = analyzeRealTimeThreat gameState"
  define pa where "pa = analyzePickupOpportunity gameState"
  have p: "length (snd (fst out)) = 9"
    using forward_valid[of "env_draws env" "env_forwardTime env" "ai_net (ai\<lparr>lastFeatures := features\<rparr>)" features]
    by (simp add: out_def valid_output_def split: prod.splits)
  have e: "\<forall>a\<in>set (ta_escapeDirections ta). 1 \<le> a \<and> a \<le> 8"
    unfolding ta_def using analyzeRealTimeThreat_escape by blast
  obtain a0 where a0: "choose_action env ai2 gameState (snd (fst out)) training ta pa = Some a0"
    "0 \<le> a0" "a0 \<le> 8"
    using choose_action_ok[OF p e r, of ai2 gameState training pa] by auto
  obtain a1 where a1: "applyAdvancedSafetyChecks gameState a0 ta = Some a1" "0 \<le> a1" "a1 \<le> 8"
    using applyAdvancedSafetyChecks_ok[OF a0(2,3) e, of gameState] by auto
  obtain tr where tr: "updateCenterTracking (env_trackingTime env) (centerTracker ai2) gameState a1 = Some tr"
    using updateCenterTracking_ok[OF a1(2,3)] by blast
  obtain a2 where a2: "applyBoundaryAvoidance (env_boundaryDraw env) gameState a1 = Some a2" "0 \<le> a2" "a2 \<le> 8"
    using applyBoundaryAvoidance_ok[OF a1(2,3), of "env_boundaryDraw env" gameState] by auto
  define mem where "mem = applyAntiOscillationMemory (env_memoryTime env) (ai2\<lparr>centerTracker := tr\<rparr>) gameState a2"
  have a3: "0 \<le> fst mem" "fst mem \<le> 8"
    using applyAntiOscillationMemory_range[OF a2(2,3), of "env_memoryTime env" "ai2\<lparr>centerTracker := tr\<rparr>" gameState]
    by (simp_all add: mem_def)
  obtain mv where mv: "js_at actionMap (fst mem) = Some mv"
    using js_at_actionMap[OF a3] by auto
  have "decide env ai gameState difficulty training =
          Some (\<lparr>dec_mvx = fst mv, dec_mvy = snd mv, dec_action = fst mem,
                  dec_speed = calculateUltraFastSpeed gameState features (fst mem)
                                (lives gameState / maxLives gameState \<le> 0.6)
                                (lives gameState / maxLives gameState \<le> 0.3),
                  dec_hBias = getUltraResponseBias gameState
                                (lives gameState / maxLives gameState \<le> 0.6)
                                (lives gameState / maxLives gameState \<le> 0.3),
                  dec_hStrength = 0.5\<rparr>,
                (snd mem)\<lparr>lastAction := fst mem\<rparr>)"
    unfolding decide_def Let_def
    by (simp only: features_def[symmetric] out_def[symmetric] ai2_def[symmetric] ta_def[symmetric]
          pa_def[symmetric] a0 a1 tr a2 mem_def[symmetric] mv option.case)
  then show ?thesis
    using a3 mv unfolding features_def by blast
qed

subsection \<open>Two decisions evaluated\<close>

text \<open>
  At the centre of the default field, without hazards and pickups, an engine whose
  layers have no weights (every layer answers zeros inside its cool-down, so the policy
  is uniform) moves left at speed 2.3.
\<close>

lemma forward_empty:
  "length xs = 200 \<Longrightarrow> forward r 0 empty_network xs = ((0, replicate 9 (1 / 9)), empty_network)"
  by (simp add: forward_def empty_network_def empty_layer_stage empty_layer_forward softmax_zeros[simplified] ACTION_COUNT_def)

lemma demo_threat:
  "analyzeRealTimeThreat (demo_state [] []) =
     \<lparr>ta_immediateDanger = False, ta_highRisk = False, ta_predictedDanger = False,
      ta_dangerLevel = 0, ta_predictedDangerLevel = 0, ta_nearestThreat = None,
      ta_escapeDirections = calculateEscapeDirections (demo_state [] []) None\<rparr>"
  by (simp add: analyzeRealTimeThreat_def demo_state_def)

lemma demo_pickup_analysis:
  "pa_bestPickup (analyzePickupOpportunity (demo_state [] [])) = None"
  by (simp add: analyzePickupOpportunity_def demo_state_def Let_def)

lemma demo_center:
  "getIntelligentCenterAction (demo_state [] []) (replicate 9 (1 / 9)) ta = Some 1"
  by (simp add: getIntelligentCenterAction_def demo_state_def demo_player_def Let_def indexed_def
      sort_descending_def numeral_eq_Suc js_at_def)

lemma demo_choose:
  "choose_action demo_env ai (demo_state [] []) (replicate 9 (1 / 9)) False
     (analyzeRealTimeThreat (demo_state [] [])) (analyzePickupOpportunity (demo_state [] [])) = Some 1"
  by (simp add: choose_action_def demo_threat demo_pickup_analysis demo_center[simplified] Let_def)

lemma demo_safety:
  "applyAdvancedSafetyChecks (demo_state [] []) 1 ta = Some 1"
  by (simp add: applyAdvancedSafetyChecks_def js_at_def actionVectors_def demo_state_def demo_player_def Let_def)

lemma demo_boundary:
  "applyBoundaryAvoidance r (demo_state [] []) 1 = Some 1"
  by (simp add: applyBoundaryAvoidance_def js_at_def actionMap_def demo_state_def demo_player_def Let_def)

lemma demo_memory:
  "fst (applyAntiOscillationMemory t ai (demo_state [] []) 1) = 1"
  by (simp add: applyAntiOscillationMemory_def demo_state_def demo_player_def Let_def)

lemma demo_speed:
  "calculateUltraFastSpeed (demo_state [] []) fs 1 low False = (if low then 2.9 else 2.3)"
  by (simp add: calculateUltraFastSpeed_def ultraFastBaseSpeed_def Let_def speed_threats_def
      demo_state_def boundary_distance_def demo_player_def)

lemma demo_health:
  "(lives (demo_state [] []) / maxLives (demo_state [] []) \<le> 0.6) = False"
  "(lives (demo_state [] []) / maxLives (demo_state [] []) \<le> 0.3) = False"
  by (simp_all add: demo_state_def less_eq_jsnum_def)

lemma demo_decide:
  "map_option (\<lambda>r. (dec_action (fst r), dec_mvx (fst r), dec_mvy (fst r), dec_speed (fst r),
                      dec_hStrength (fst r), lastAction (snd r)))
     (decide demo_env (fresh_engine empty_network) (demo_state [] []) 1 False)
   = Some (1, - 1, 0, 2.3, 0.5, 1)"
proof -
  define features where "features = extractFeatures (demo_state [] []) 1"
  define ai1 where "ai1 = (fresh_engine empty_network)\<lparr>lastFeatures := features\<rparr>"
  have f: "forward (env_draws demo_env) (env_forwardTime demo_env) (ai_net ai1) features
             = ((0, replicate 9 (1 / 9)), empty_network)"
    by (simp add: demo_env_def forward_empty[simplified] extractFeatures_length features_def ai1_def
          fresh_engine_def)
  define ai2 where "ai2 = ai1\<lparr>ai_net := empty_network\<rparr>"
  obtain tr where tr: "updateCenterTracking (env_trackingTime demo_env) (centerTracker ai2) (demo_state [] []) 1 = Some tr"
    using updateCenterTracking_ok[of 1 "env_trackingTime demo_env" "centerTracker ai2" "demo_state [] []"]
    by auto
  define mem where "mem = applyAntiOscillationMemory (env_memoryTime demo_env) (ai2\<lparr>centerTracker := tr\<rparr>)
                            (demo_state [] []) 1"
  have m: "fst mem = 1" by (simp add: mem_def demo_memory)
  have mv: "js_at actionMap 1 = Some (- 1, 0)" by (simp add: js_at_def actionMap_def)
  have "decide demo_env (fresh_engine empty_network) (demo_state [] []) 1 False =
          Some (\<lparr>dec_mvx = fst (- 1 :: jsnum, 0 :: jsnum), dec_mvy = snd (- 1 :: jsnum, 0 :: jsnum), dec_action = 1,
                  dec_speed = calculateUltraFastSpeed (demo_state [] []) features 1 False False,
                  dec_hBias = getUltraResponseBias (demo_state [] []) False False,
                  dec_hStrength = 0.5\<rparr>,
                (snd mem)\<lparr>lastAction := 1\<rparr>)"
    unfolding decide_def Let_def
    by (simp only: features_def[symmetric] ai1_def[symmetric] f fst_conv snd_conv ai2_def[symmetric]
          demo_choose demo_safety tr demo_boundary mem_def[symmetric] m mv option.case demo_health)
  then show ?thesis
    by (simp add: demo_speed)
qed

text \<open>
  With a heart pickup under the player, at the centre of the default field and without
  hazards, \<^verbatim>\<open>decide\<close> chooses the hold action, whatever the engine, the difficulty
  and the environment; the safe-to-stay predicate holds and the speed returned is 1.
\<close>

lemma pickup_state_simps:
  "hazards pickup_state = []" "pickups pickup_state = [center_pickup]"
  "width pickup_state = 1200" "height pickup_state = 675"
  "player pickup_state = demo_player" "lives pickup_state = 3" "maxLives pickup_state = 3"
  by (simp_all add: pickup_state_def demo_state_def)

lemma center_pickup_simps:
  "k_x center_pickup = 600" "k_y center_pickup = 337.5" "k_r center_pickup = 10"
  "k_life center_pickup = 2" "maxLife center_pickup = 8" "k_type center_pickup = ''heart''"
  by (simp_all add: center_pickup_def)

lemma path_fold_no_hazards:
  "hazards g = [] \<Longrightarrow> foldl (path_step g k) (Fin 1, []) steps = (Fin 1, [])"
  by (induction steps) (simp_all add: path_step_def Let_def)

lemma pickup_path_safety:
  "evaluateAdvancedPathSafety pickup_state center_pickup =
     \<lparr>ps_safetyScore = 1, ps_criticalThreats = [], ps_alternativePaths = 0\<rparr>"
  by (simp add: evaluateAdvancedPathSafety_def path_fold_no_hazards pickup_state_simps
      calculateAlternativePathCount_def center_pickup_def demo_player_def Let_def)

lemma pickup_global: "calculateGlobalThreatLevel pickup_state = 0"
  by (simp add: calculateGlobalThreatLevel_def pickup_state_simps)

lemma pickup_routes: "calculateEscapeRoutesFromPosition pickup_state (600, 337.5) = 8"
  by (simp add: calculateEscapeRoutesFromPosition_def pickup_state_simps Let_def)

lemma pickup_strategic: "calculateStrategicValue pickup_state 0 1 = 1.92"
  by (simp add: calculateStrategicValue_def pickup_state_simps Let_def center_pickup_def
      pickup_routes[simplified] findNearbyPickups_def)

lemma pickup_step:
  "pickup_opportunity_step pickup_state 1 0 (None, 0, ''none'', 0) 0 =
     (Some center_pickup, 2.304, ''safe_opportunity'', 0)"
  by (simp add: pickup_opportunity_step_def Let_def pickup_state_simps pickup_path_safety[simplified]
      pickup_strategic[simplified] calculateDistanceScore_def calculatePickupTypeValue_def
      evaluatePickupTiming_def analyzePickupCompetition_def determinePickupStrategy_def
      center_pickup_simps demo_player_def less_eq_jsnum_def)

lemma pickup_analysis:
  "pa_bestPickup (analyzePickupOpportunity pickup_state) = Some center_pickup"
  "pa_urgency (analyzePickupOpportunity pickup_state) = 0.7"
  by (simp_all add: analyzePickupOpportunity_def Let_def pickup_state_simps pickup_global[simplified]
      pickup_step[simplified] calculatePickupUrgency_def center_pickup_simps)

lemma pickup_threat:
  "ta_immediateDanger (analyzeRealTimeThreat pickup_state) = False"
  "ta_highRisk (analyzeRealTimeThreat pickup_state) = False"
  by (simp_all add: analyzeRealTimeThreat_def pickup_state_simps)

lemma pickup_smart:
  "pa_bestPickup pa = Some center_pickup \<Longrightarrow> getSmartPickupAction pickup_state pa ta = 0"
  by (simp add: getSmartPickupAction_def Let_def pickup_state_simps center_pickup_simps demo_player_def)

lemma pickup_choose:
  "choose_action env ai pickup_state policy training
     (analyzeRealTimeThreat pickup_state) (analyzePickupOpportunity pickup_state) = Some 0"
  by (simp add: choose_action_def Let_def pickup_threat pickup_analysis pickup_smart)

lemma pickup_safety:
  "applyAdvancedSafetyChecks pickup_state 0 ta = Some 0"
  by (simp add: applyAdvancedSafetyChecks_def js_at_def actionVectors_def pickup_state_simps demo_player_def Let_def)

lemma pickup_boundary:
  "applyBoundaryAvoidance r pickup_state 0 = Some 0"
  by (simp add: applyBoundaryAvoidance_def js_at_def actionMap_def pickup_state_simps demo_player_def Let_def)

lemma pickup_memory:
  "fst (applyAntiOscillationMemory t ai pickup_state 0) = 0"
  by (simp add: applyAntiOscillationMemory_def pickup_state_simps demo_player_def Let_def)

lemma pickup_safe: "isSafeToStay pickup_state"
  by (simp add: isSafeToStay_def pickup_state_simps demo_player_def boundary_distance_def Let_def
      less_eq_jsnum_def)

lemma pickup_health:
  "(lives pickup_state / maxLives pickup_state \<le> 0.6) = False"
  "(lives pickup_state / maxLives pickup_state \<le> 0.3) = False"
  by (simp_all add: pickup_state_simps less_eq_jsnum_def)

lemma pickup_decide:
  "map_option (\<lambda>r. (dec_action (fst r), dec_mvx (fst r), dec_mvy (fst r), dec_speed (fst r)))
     (decide env ai pickup_state difficulty training) = Some (0, 0, 0, 1)"
proof -
  define features where "features = extractFeatures pickup_state difficulty"
  define out where "out = forward (env_draws env) (env_forwardTime env) (ai_net (ai\<lparr>lastFeatures := features\<rparr>)) features"
  define ai2 where "ai2 = (ai\<lparr>lastFeatures := features\<rparr>)\<lparr>ai_net := snd out\<rparr>"
  obtain tr where tr: "updateCenterTracking (env_trackingTime env) (centerTracker ai2) pickup_state 0 = Some tr"
    using updateCenterTracking_ok[of 0 "env_trackingTime env" "centerTracker ai2" pickup_state]
    by auto
  define mem where "mem = applyAntiOscillationMemory (env_memoryTime env) (ai2\<lparr>centerTracker := tr\<rparr>)
                            pickup_state 0"
  have m: "fst mem = 0" by (simp add: mem_def pickup_memory)
  have mv: "js_at actionMap 0 = Some (0, 0)" by (simp add: js_at_def actionMap_def)
  have "decide env ai pickup_state difficulty training =
          Some (\<lparr>dec_mvx = fst (0 :: jsnum, 0 :: jsnum), dec_mvy = snd (0 :: jsnum, 0 :: jsnum), dec_action = 0,
                  dec_speed = calculateUltraFastSpeed pickup_state features 0 False False,
                  dec_hBias = getUltraResponseBias pickup_state False False,
                  dec_hStrength = 0.5\<rparr>,
                (snd mem)\<lparr>lastAction := 0\<rparr>)"
    unfolding decide_def Let_def
    by (simp only: features_def[symmetric] out_def[symmetric] ai2_def[symmetric]
          pickup_choose pickup_safety tr pickup_boundary mem_def[symmetric] m mv option.case pickup_health)
  then show ?thesis
    using pickup_safe
    by (simp add: calculateUltraFastSpeed_def ultraFastBaseSpeed_def Let_def)
qed

section \<open>The claims about the decision\<close>

lemma valid_demo_empty: "valid_state (demo_state [] [])"
  using finite_demo_state by (simp add: valid_state_def demo_state_def demo_player_def)

lemma valid_pickup_state: "valid_state pickup_state"
  by (simp add: valid_state_def finite_state_def pickup_state_def demo_state_def demo_player_def
      finite_player_def finite_pickup_def center_pickup_def)

lemma random_demo: "random_ok (env_actionDraw demo_env)"
  by (simp add: random_ok_def demo_env_def)

lemma range_is_fin: "1 \<le> a \<and> a \<le> 5 \<Longrightarrow> is_fin a \<and> a \<noteq> 0" for a :: jsnum
  by (cases a) (auto simp add: less_eq_jsnum_def)

lemma pre_clamp_zero:
  "isSafeToStay g \<Longrightarrow> ultraFastBaseSpeed g fs 0 low crit = 0 \<and> calculateUltraFastSpeed g fs 0 low crit = 1"
  by (simp add: calculateUltraFastSpeed_def ultraFastBaseSpeed_def Let_def)

text \<open>
  Claim C1.  For every valid world state, every engine state, every difficulty, both
  values of \<^verbatim>\<open>training\<close>, every clock reading and every value of
  \<^verbatim>\<open>Math.random()\<close> (a number that is at least 0 and below 1), \<^verbatim>\<open>decide\<close> returns
  a decision, no step throws: the action is an integer from 0 to 8, the movement vector
  is the entry of the nine-entry table for that action, the heuristic bias has exactly
  nine elements, the speed is a finite number and the heuristic strength is 0.5.  No
  hazard, no pickup and no safe direction are among the cases.
\<close>

theorem decide_well_formed:
  assumes "valid_state gameState" and "random_ok (env_actionDraw env)"
  shows "\<exists>d ai'. decide env ai gameState difficulty training = Some (d, ai') \<and>
           0 \<le> dec_action d \<and> dec_action d \<le> 8 \<and>
           js_at actionMap (dec_action d) = Some (dec_mvx d, dec_mvy d) \<and>
           length (dec_hBias d) = 9 \<and> is_fin (dec_speed d) \<and> dec_hStrength d = 0.5"
proof -
  obtain a mv ai' where d:
    "decide env ai gameState difficulty training =
       Some (\<lparr>dec_mvx = fst mv, dec_mvy = snd mv, dec_action = a,
               dec_speed = calculateUltraFastSpeed gameState (extractFeatures gameState difficulty) a
                             (lives gameState / maxLives gameState \<le> 0.6)
                             (lives gameState / maxLives gameState \<le> 0.3),
               dec_hBias = getUltraResponseBias gameState
                             (lives gameState / maxLives gameState \<le> 0.6)
                             (lives gameState / maxLives gameState \<le> 0.3),
               dec_hStrength = 0.5\<rparr>, ai')"
    and a: "0 \<le> a" "a \<le> 8" "js_at actionMap a = Some mv"
    using decide_shape[OF assms(2), of ai gameState difficulty training] by blast
  have "is_fin (calculateUltraFastSpeed gameState fs a low crit)" for fs low crit
    using range_is_fin[OF speed_range[OF valid_state_simps(1)[OF assms(1)], of fs a low crit]] by simp
  then show ?thesis
    using d a getUltraResponseBias_length by simp
qed

theorem decide_well_formed_witness:
  "valid_state (demo_state [] []) \<and> random_ok (env_actionDraw demo_env) \<and>
   map_option (\<lambda>r. (dec_action (fst r), dec_mvx (fst r), dec_mvy (fst r), dec_speed (fst r),
                      dec_hStrength (fst r), length (dec_hBias (fst r)), lastAction (snd r)))
     (decide demo_env (fresh_engine empty_network) (demo_state [] []) 1 False)
   = Some (1, - 1, 0, 2.3, 0.5, 9, 1)"
  using decide_well_formed[OF valid_demo_empty random_demo, of "fresh_engine empty_network" 1 False]
    demo_decide valid_demo_empty random_demo
  by auto

text \<open>
  Claim C4 fails on the code.  With a heart pickup under the player at the centre of the
  default field, no hazard and full health, \<^verbatim>\<open>decide\<close> chooses the hold action and
  the safe-to-stay predicate holds, yet the speed returned is 1, not 0; the same value
  comes out of the speed law for the hold action in the field without the pickup.
\<close>

theorem hold_speed_not_zero:
  "isSafeToStay pickup_state \<and>
   map_option (\<lambda>r. (dec_action (fst r), dec_mvx (fst r), dec_mvy (fst r), dec_speed (fst r)))
     (decide demo_env (fresh_engine empty_network) pickup_state 1 False) = Some (0, 0, 0, 1) \<and>
   (1 :: jsnum) \<noteq> 0 \<and>
   isSafeToStay (demo_state [] []) \<and>
   calculateUltraFastSpeed (demo_state [] []) [] 0 False False = 1"
  using demo_safe pickup_safe pickup_decide[of demo_env "fresh_engine empty_network" 1 False]
  by (simp add: calculateUltraFastSpeed_def ultraFastBaseSpeed_def Let_def)

text \<open>
  Claim C4, what the code does.  The speed \<^verbatim>\<open>decide\<close> returns is the result of
  \<^verbatim>\<open>calculateUltraFastSpeed\<close> for the action chosen.  When that action is hold and
  the safe-to-stay predicate holds, the method assigns \<^verbatim>\<open>baseSpeed = 0\<close> (its comment:
  standing still is allowed when safe) and its return statement
  \<^verbatim>\<open>Math.max(1.0, Math.min(5.0, baseSpeed))\<close> discards that value: in every valid
  state the speed computed before the clamp is 0 and the speed returned is 1, so the zero
  the claim describes is never returned.  For every action the result of the speed law
  lies in \<open>[1, 5]\<close>.
\<close>

theorem hold_speed_clamped:
  assumes "valid_state gameState" and "random_ok (env_actionDraw env)"
  shows "(\<exists>d ai'. decide env ai gameState difficulty training = Some (d, ai') \<and>
            dec_speed d = calculateUltraFastSpeed gameState (extractFeatures gameState difficulty)
                            (dec_action d) (lives gameState / maxLives gameState \<le> 0.6)
                            (lives gameState / maxLives gameState \<le> 0.3) \<and>
            (dec_action d = 0 \<and> isSafeToStay gameState \<longrightarrow>
               ultraFastBaseSpeed gameState (extractFeatures gameState difficulty) 0
                 (lives gameState / maxLives gameState \<le> 0.6)
                 (lives gameState / maxLives gameState \<le> 0.3) = 0 \<and>
               dec_speed d = 1)) \<and>
         1 \<le> calculateUltraFastSpeed gameState fs a low crit \<and>
         calculateUltraFastSpeed gameState fs a low crit \<le> 5"
proof -
  obtain a' mv ai' where d:
    "decide env ai gameState difficulty training =
       Some (\<lparr>dec_mvx = fst mv, dec_mvy = snd mv, dec_action = a',
               dec_speed = calculateUltraFastSpeed gameState (extractFeatures gameState difficulty) a'
                             (lives gameState / maxLives gameState \<le> 0.6)
                             (lives gameState / maxLives gameState \<le> 0.3),
               dec_hBias = getUltraResponseBias gameState
                             (lives gameState / maxLives gameState \<le> 0.6)
                             (lives gameState / maxLives gameState \<le> 0.3),
               dec_hStrength = 0.5\<rparr>, ai')"
    using decide_shape[OF assms(2), of ai gameState difficulty training] by blast
  show ?thesis
    using d pre_clamp_zero[of gameState] speed_range[OF valid_state_simps(1)[OF assms(1)], of fs a low crit]
    by auto
qed

theorem hold_speed_clamped_witness:
  "valid_state pickup_state \<and> random_ok (env_actionDraw demo_env) \<and> isSafeToStay pickup_state \<and>
   map_option (\<lambda>r. (dec_action (fst r), dec_speed (fst r)))
     (decide demo_env (fresh_engine empty_network) pickup_state 1 False) = Some (0, 1) \<and>
   ultraFastBaseSpeed pickup_state (extractFeatures pickup_state 1) 0 False False = 0 \<and>
   calculateUltraFastSpeed (demo_state [] []) [] 2 False False = 2.3"
  using hold_speed_clamped[OF valid_pickup_state random_demo, of "fresh_engine empty_network" 1 False "[]" 2 False False]
    pickup_decide[of demo_env "fresh_engine empty_network" 1 False] pickup_safe pickup_health
    valid_pickup_state random_demo demo_speed[of "[]" False, simplified]
  by (auto simp add: calculateUltraFastSpeed_def ultraFastBaseSpeed_def Let_def speed_threats_def
      demo_state_def boundary_distance_def demo_player_def)

text \<open>
  Claim C10.  For every valid world state \<^verbatim>\<open>decide\<close> returns a decision whose speed
  lies in \<open>[1, 5]\<close>; it is never 0, and when the hold action is chosen under the
  safe-to-stay predicate it is \<^verbatim>\<open>Math.max(1.0, Math.min(5.0, 0))\<close>, the lower bound
  of the final clamp.
\<close>

theorem returned_speed_range:
  assumes "valid_state gameState" and "random_ok (env_actionDraw env)"
  shows "\<exists>d ai'. decide env ai gameState difficulty training = Some (d, ai') \<and>
           1 \<le> dec_speed d \<and> dec_speed d \<le> 5 \<and> dec_speed d \<noteq> 0 \<and>
           (dec_action d = 0 \<and> isSafeToStay gameState \<longrightarrow>
              dec_speed d = Math_max 1.0 (Math_min 5.0 0))"
proof -
  obtain a mv ai' where d:
    "decide env ai gameState difficulty training =
       Some (\<lparr>dec_mvx = fst mv, dec_mvy = snd mv, dec_action = a,
               dec_speed = calculateUltraFastSpeed gameState (extractFeatures gameState difficulty) a
                             (lives gameState / maxLives gameState \<le> 0.6)
                             (lives gameState / maxLives gameState \<le> 0.3),
               dec_hBias = getUltraResponseBias gameState
                             (lives gameState / maxLives gameState \<le> 0.6)
                             (lives gameState / maxLives gameState \<le> 0.3),
               dec_hStrength = 0.5\<rparr>, ai')"
    using decide_shape[OF assms(2), of ai gameState difficulty training] by blast
  have r: "1 \<le> calculateUltraFastSpeed gameState fs a low crit \<and>
           calculateUltraFastSpeed gameState fs a low crit \<le> 5" for fs low crit
    by (rule speed_range[OF valid_state_simps(1)[OF assms(1)]])
  have z: "calculateUltraFastSpeed gameState fs a low crit \<noteq> 0" for fs low crit
    using range_is_fin[OF r[of fs low crit]] by simp
  have h: "isSafeToStay gameState \<Longrightarrow>
           calculateUltraFastSpeed gameState fs 0 low crit = Math_max 1.0 (Math_min 5.0 0)" for fs low crit
    by (simp add: calculateUltraFastSpeed_def ultraFastBaseSpeed_def Let_def)
  show ?thesis
    using d r z h by auto
qed

theorem returned_speed_range_witness:
  "valid_state pickup_state \<and> random_ok (env_actionDraw demo_env) \<and> isSafeToStay pickup_state \<and>
   map_option (\<lambda>r. (dec_action (fst r), dec_speed (fst r)))
     (decide demo_env (fresh_engine empty_network) pickup_state 3 True) = Some (0, 1) \<and>
   valid_state (demo_state [] []) \<and>
   map_option (\<lambda>r. (dec_action (fst r), dec_speed (fst r)))
     (decide demo_env (fresh_engine empty_network) (demo_state [] []) 1 False) = Some (1, 2.3)"
  using returned_speed_range[OF valid_pickup_state random_demo, of "fresh_engine empty_network" 3 True]
    returned_speed_range[OF valid_demo_empty random_demo, of "fresh_engine empty_network" 1 False]
    pickup_decide[of demo_env "fresh_engine empty_network" 3 True] demo_decide pickup_safe
    valid_pickup_state valid_demo_empty random_demo
  by auto

end
